theory Spec2Isabelle
  imports Complex_Main
begin

section \<open>Page schema\<close>

text \<open>
  The platform-agnostic page schema of \<^verbatim>\<open>packages/shared/src/index.ts\<close>: a site holds
  pages, a page holds sections, a section holds blocks, a block holds a type tag and
  props. Strings are lists of code units; every character the markup compiler inspects
  or emits is ASCII, every other code unit is copied as it is.

  The TypeScript type \<^verbatim>\<open>Block\<close> pairs a \<^verbatim>\<open>type\<close> tag with props of any of the four
  shapes (\<^verbatim>\<open>BlockProps\<close> is a plain union, the tag does not select the shape), and the
  switch statements of the compiler have a default branch, so the tag is a string here
  and the props are one of the four shapes, independently of the tag.
\<close>

record ListItem =
  item_id :: string
  item_title :: string
  item_description :: string
  item_icon :: "string option"

datatype BlockProps =
    TextProps (text_content: string) (text_variant: string)
  | ImageProps (image_src: string) (image_alt: string)
  | ButtonProps (button_text: string) (button_href: string) (button_variant: string)
  | ListProps (list_items: "ListItem list") (list_layout: string)

record Block =
  block_id :: string
  block_type :: string
  block_props :: BlockProps

record Section =
  section_id :: string
  section_type :: string
  section_variant :: nat
  section_blocks :: "Block list"

record Page =
  page_title :: string
  page_slug :: string
  page_sections :: "Section list"

record SiteSettings =
  businessName :: string
  industry :: string
  stylePreset :: string
  accentColor :: string
  primaryCta :: string
  contactEmail :: string
  contactPhone :: string

record SiteContent =
  content_pages :: "Page list"
  content_settings :: SiteSettings

section \<open>Errors\<close>

text \<open>
  A thrown value is an \<^verbatim>\<open>Error\<close> with its message, a \<^verbatim>\<open>TypeError\<close> with its message
  (also an instance of \<^verbatim>\<open>Error\<close>), or a value that is no \<^verbatim>\<open>Error\<close> at all.
\<close>

datatype error = Error string | TypeError string | NonError

fun error_message :: "error \<Rightarrow> string option" where
  "error_message (Error m) = Some m"
| "error_message (TypeError m) = Some m"
| "error_message NonError = None"

text \<open>
  Reading a property the props object does not have gives \<^verbatim>\<open>undefined\<close>; calling
  \<^verbatim>\<open>.replace\<close> (inside \<^verbatim>\<open>escapeHtml\<close>) or \<^verbatim>\<open>.map\<close> on it throws a TypeError.
\<close>

definition undefined_replace :: error where
  "undefined_replace = TypeError ''Cannot read properties of undefined (reading 'replace')''"

definition undefined_map :: error where
  "undefined_map = TypeError ''Cannot read properties of undefined (reading 'map')''"

section \<open>The WordPress service: markup compiler\<close>

text \<open>
  The service object: the two fields its constructor sets, and the configuration
  service it keeps (\<^verbatim>\<open>configService.get\<close> is a lookup, \<^verbatim>\<open>undefined\<close> is \<open>None\<close>).
  Every method takes the receiver \<^verbatim>\<open>this\<close> as its first argument.
\<close>

record WordPressService =
  wpCliPath :: string
  wpMultisiteUrl :: string
  configService :: "string \<Rightarrow> string option"

text \<open>\<^verbatim>\<open>str.replace(/c/g, r)\<close> for a single character \<open>c\<close>.\<close>

definition replace_all :: "char \<Rightarrow> string \<Rightarrow> string \<Rightarrow> string" where
  "replace_all c r str = concat (map (\<lambda>x. if x = c then r else [x]) str)"

text \<open>\<^verbatim>\<open>Array.prototype.join\<close>.\<close>

fun join :: "string list \<Rightarrow> string \<Rightarrow> string" where
  "join [] sep = []"
| "join [x] sep = x"
| "join (x # y # ys) sep = x @ sep @ join (y # ys) sep"

text \<open>\<^verbatim>\<open>Array.prototype.map\<close> with a callback that may throw: the first throw ends the loop.\<close>

fun mapE :: "('a \<Rightarrow> error + 'b) \<Rightarrow> 'a list \<Rightarrow> error + 'b list" where
  "mapE f [] = Inr []"
| "mapE f (x # xs) =
     (case f x of
        Inl e \<Rightarrow> Inl e
      | Inr y \<Rightarrow> (case mapE f xs of Inl e \<Rightarrow> Inl e | Inr ys \<Rightarrow> Inr (y # ys)))"

definition escapeHtml :: "WordPressService \<Rightarrow> string \<Rightarrow> string" where
  "escapeHtml this str =
     replace_all (CHR 0x27) ''&#039;''
       (replace_all (CHR 0x22) ''&quot;''
         (replace_all CHR ''>'' ''&gt;''
           (replace_all CHR ''<'' ''&lt;''
             (replace_all CHR ''&'' ''&amp;'' str))))"

definition escapeShell :: "WordPressService \<Rightarrow> string \<Rightarrow> string" where
  "escapeShell this str = replace_all (CHR 0x27) [CHR 0x27, CHR 0x5C, CHR 0x27, CHR 0x27] str"

definition getTextTag :: "WordPressService \<Rightarrow> string \<Rightarrow> string" where
  "getTextTag this variant =
     (if variant = ''h1'' then ''h1''
      else if variant = ''h2'' then ''h2''
      else if variant = ''h3'' then ''h3''
      else if variant = ''small'' then ''small''
      else ''p'')"

definition compileBlockToHtml :: "WordPressService \<Rightarrow> Block \<Rightarrow> string \<Rightarrow> error + string" where
  "compileBlockToHtml this block accent =
     (if block_type block = ''text'' then
        (case block_props block of
           TextProps c v \<Rightarrow>
             (let tag = getTextTag this v
              in Inr (''<'' @ tag @ ''>'' @ escapeHtml this c @ ''</'' @ tag @ ''>''))
         | _ \<Rightarrow> Inl undefined_replace)
      else if block_type block = ''image'' then
        (case block_props block of
           ImageProps s a \<Rightarrow>
             Inr (''<figure class=\"wp-block-image\"><img src=\"'' @ s @ ''\" alt=\"''
                  @ escapeHtml this a @ ''\" /></figure>'')
         | _ \<Rightarrow> Inl undefined_replace)
      else if block_type block = ''button'' then
        (case block_props block of
           ButtonProps t h v \<Rightarrow>
             (let bgColor = (if v = ''primary'' then accent else ''transparent'');
                  textColor = (if v = ''primary'' then ''#ffffff'' else accent)
              in Inr (''<div class=\"wp-block-button\"><a class=\"wp-block-button__link\" href=\"''
                      @ h @ ''\" style=\"background-color:'' @ bgColor @ '';color:'' @ textColor
                      @ ''\">'' @ escapeHtml this t @ ''</a></div>''))
         | _ \<Rightarrow> Inl undefined_replace)
      else if block_type block = ''list'' then
        (case block_props block of
           ListProps its l \<Rightarrow>
             (let its' = join (map (\<lambda>item. ''<li><strong>'' @ escapeHtml this (item_title item)
                                     @ ''</strong><p>'' @ escapeHtml this (item_description item)
                                     @ ''</p></li>'') its) ''''
              in Inr (''<ul class=\"wp-block-list layout-'' @ l @ ''\">'' @ its' @ ''</ul>''))
         | _ \<Rightarrow> Inl undefined_map)
      else Inr '''')"

definition compileBlockToGutenberg :: "WordPressService \<Rightarrow> Block \<Rightarrow> string \<Rightarrow> error + string" where
  "compileBlockToGutenberg this block accent =
     (if block_type block = ''text'' then
        (case block_props block of
           TextProps c v \<Rightarrow>
             (if v = ''h1'' then
                Inr (''<!-- wp:heading {\"level\":1} -->\<newline><h1 class=\"wp-block-heading\">''
                     @ escapeHtml this c @ ''</h1>\<newline><!-- /wp:heading -->'')
              else if v = ''h2'' then
                Inr (''<!-- wp:heading -->\<newline><h2 class=\"wp-block-heading\">''
                     @ escapeHtml this c @ ''</h2>\<newline><!-- /wp:heading -->'')
              else if v = ''h3'' then
                Inr (''<!-- wp:heading {\"level\":3} -->\<newline><h3 class=\"wp-block-heading\">''
                     @ escapeHtml this c @ ''</h3>\<newline><!-- /wp:heading -->'')
              else if v = ''small'' then
                Inr (''<!-- wp:paragraph {\"fontSize\":\"small\"} -->\<newline><p class=\"has-small-font-size\">''
                     @ escapeHtml this c @ ''</p>\<newline><!-- /wp:paragraph -->'')
              else
                Inr (''<!-- wp:paragraph -->\<newline><p>'' @ escapeHtml this c
                     @ ''</p>\<newline><!-- /wp:paragraph -->''))
         | _ \<Rightarrow> Inl undefined_replace)
      else if block_type block = ''image'' then
        (case block_props block of
           ImageProps s a \<Rightarrow>
             Inr (''<!-- wp:image -->\<newline><figure class=\"wp-block-image\"><img src=\"'' @ s
                  @ ''\" alt=\"'' @ escapeHtml this a @ ''\"/></figure>\<newline><!-- /wp:image -->'')
         | _ \<Rightarrow> Inl undefined_replace)
      else if block_type block = ''button'' then
        (case block_props block of
           ButtonProps t h v \<Rightarrow>
             (let bgColor = (if v = ''primary'' then accent else ''transparent'')
              in Inr (''<!-- wp:buttons -->\<newline><div class=\"wp-block-buttons\"><!-- wp:button {\"backgroundColor\":\"''
                      @ bgColor @ ''\"} -->\<newline><div class=\"wp-block-button\"><a class=\"wp-block-button__link wp-element-button\" href=\"''
                      @ h @ ''\">'' @ escapeHtml this t
                      @ ''</a></div>\<newline><!-- /wp:button --></div>\<newline><!-- /wp:buttons -->''))
         | _ \<Rightarrow> Inl undefined_replace)
      else if block_type block = ''list'' then
        (case block_props block of
           ListProps its l \<Rightarrow>
             (let its' = join (map (\<lambda>item. ''<li><strong>'' @ escapeHtml this (item_title item)
                                     @ ''</strong> - '' @ escapeHtml this (item_description item)
                                     @ ''</li>'') its) ''''
              in Inr (''<!-- wp:list -->\<newline><ul class=\"wp-block-list\">'' @ its'
                      @ ''</ul>\<newline><!-- /wp:list -->''))
         | _ \<Rightarrow> Inl undefined_map)
      else Inr '''')"

definition compileSectionToHtml :: "WordPressService \<Rightarrow> Section \<Rightarrow> string \<Rightarrow> error + string" where
  "compileSectionToHtml this section accent =
     (case mapE (\<lambda>block. compileBlockToHtml this block accent) (section_blocks section) of
        Inl e \<Rightarrow> Inl e
      | Inr blocks \<Rightarrow>
          Inr (''<section class=\"wp-block-group section-'' @ section_type section
               @ ''\" data-section-id=\"'' @ section_id section @ ''\">''
               @ join blocks ''\<newline>'' @ ''</section>''))"

definition compileSectionToGutenberg :: "WordPressService \<Rightarrow> Section \<Rightarrow> string \<Rightarrow> error + string" where
  "compileSectionToGutenberg this section accent =
     (case mapE (\<lambda>block. compileBlockToGutenberg this block accent) (section_blocks section) of
        Inl e \<Rightarrow> Inl e
      | Inr blocks \<Rightarrow>
          Inr (''<!-- wp:group {\"className\":\"section-'' @ section_type section
               @ ''\"} -->\<newline><div class=\"wp-block-group section-'' @ section_type section
               @ ''\">'' @ join blocks ''\<newline>'' @ ''</div>\<newline><!-- /wp:group -->''))"

definition compilePageToHtml :: "WordPressService \<Rightarrow> Page \<Rightarrow> string \<Rightarrow> error + string" where
  "compilePageToHtml this page accent =
     (case mapE (\<lambda>section. compileSectionToHtml this section accent) (page_sections page) of
        Inl e \<Rightarrow> Inl e
      | Inr sections \<Rightarrow> Inr (join sections ''\<newline>''))"

definition compilePageToGutenberg :: "WordPressService \<Rightarrow> Page \<Rightarrow> string \<Rightarrow> error + string" where
  "compilePageToGutenberg this page accent =
     (case mapE (\<lambda>section. compileSectionToGutenberg this section accent) (page_sections page) of
        Inl e \<Rightarrow> Inl e
      | Inr sections \<Rightarrow> Inr (join sections ''\<newline>\<newline>''))"

section \<open>The world outside the program\<close>

text \<open>
  Database rows, as the Prisma schema declares them (the fields the modelled code reads
  or writes). A site is read together with its owner (\<^verbatim>\<open>include: { owner: true }\<close>), whose
  e-mail address is kept in the row here.
\<close>

datatype SiteStatus = provisioning | generating | draft | published | site_error

datatype JobStatus = pending | running | completed | failed

datatype SubscriptionStatus = active | canceled | past_due | trialing | incomplete

record Site =
  site_id :: string
  site_name :: string
  site_status :: SiteStatus
  site_wpSiteId :: "int option"
  site_wpAdminUrl :: "string option"
  site_wpSiteUrl :: "string option"
  currentVersionId :: "string option"
  publishedVersionId :: "string option"
  owner_email :: string

record SiteVersion =
  version_id :: string
  version_siteId :: string
  versionNumber :: int
  pageJson :: SiteContent

record StripeSubscription =
  subscription_id :: string
  subscription_userId :: string
  stripeCustomerId :: string
  stripeSubscriptionId :: string
  subscription_status :: SubscriptionStatus

text \<open>
  A value that \<^verbatim>\<open>JSON.parse\<close> returns: \<^verbatim>\<open>null\<close>, a boolean, a number, a string, an array,
  or an object with its members (one entry for a key).
\<close>

datatype json =
    JNull
  | JBool bool
  | JNumber rat
  | JString string
  | JArray "json list"
  | JObject "(string \<times> json) list"

text \<open>
  The world: what the outside answers, and what the program has written. Every
  interaction with the outside (a call of \<^verbatim>\<open>Math.random\<close>, a reading of the clock, a
  shell command, a request to the OpenAI API, an id the database generates) takes the
  answer the world holds for the current \<open>tick\<close> and advances the tick, so nothing is
  assumed about the answers. \<^verbatim>\<open>Number.prototype.toString(36)\<close> and \<^verbatim>\<open>JSON.parse\<close> are
  library functions, taken as they come. The database is its tables, rows in insertion
  order. Console output is not modelled.
\<close>

record world =
  tick :: nat
  math_random :: "nat \<Rightarrow> rat"
  number_toString36 :: "rat \<Rightarrow> string"
  date_getFullYear :: "nat \<Rightarrow> int"
  exec_outcome :: "nat \<Rightarrow> string \<Rightarrow> error + string"
  openai_outcome :: "nat \<Rightarrow> string \<Rightarrow> error + string option"
  JSON_parse :: "string \<Rightarrow> error + json"
  cuid :: "nat \<Rightarrow> string"
  sites :: "Site list"
  siteVersions :: "SiteVersion list"
  stripeSubscriptions :: "StripeSubscription list"
  job_updates :: "(string \<times> JobStatus \<times> string option) list"
  job_logs :: "(string \<times> string) list"

text \<open>
  A computation runs in a world and ends in a world, with a value or a thrown error;
  what it wrote before it threw stays written.
\<close>

type_synonym 'a io = "world \<Rightarrow> (error + 'a) \<times> world"

definition io_return :: "'a \<Rightarrow> 'a io" where
  "io_return x w = (Inr x, w)"

definition io_throw :: "error \<Rightarrow> 'a io" where
  "io_throw e w = (Inl e, w)"

definition io_bind :: "'a io \<Rightarrow> ('a \<Rightarrow> 'b io) \<Rightarrow> 'b io" where
  "io_bind m f w = (case m w of (Inl e, w') \<Rightarrow> (Inl e, w') | (Inr x, w') \<Rightarrow> f x w')"

definition io_then :: "'a io \<Rightarrow> 'b io \<Rightarrow> 'b io" where
  "io_then m n = io_bind m (\<lambda>_. n)"

definition io_catch :: "'a io \<Rightarrow> (error \<Rightarrow> 'a io) \<Rightarrow> 'a io" where
  "io_catch m handler w = (case m w of (Inl e, w') \<Rightarrow> handler e w' | (Inr x, w') \<Rightarrow> (Inr x, w'))"

text \<open>A synchronous call that may throw.\<close>

definition io_lift :: "error + 'a \<Rightarrow> 'a io" where
  "io_lift r w = (r, w)"

text \<open>The elements of an array literal, and the turns of a \<^verbatim>\<open>for\<close> loop, left to right.\<close>

fun io_sequence :: "'a io list \<Rightarrow> 'a list io" where
  "io_sequence [] = io_return []"
| "io_sequence (m # ms) = io_bind m (\<lambda>x. io_bind (io_sequence ms) (\<lambda>xs. io_return (x # xs)))"

fun io_foreach :: "'a list \<Rightarrow> ('a \<Rightarrow> unit io) \<Rightarrow> unit io" where
  "io_foreach [] body = io_return ()"
| "io_foreach (x # xs) body = io_then (body x) (io_foreach xs body)"

definition next_tick :: "world \<Rightarrow> world" where
  "next_tick w = w\<lparr>tick := Suc (tick w)\<rparr>"

definition Math_random :: "rat io" where
  "Math_random w = (Inr (math_random w (tick w)), next_tick w)"

definition getFullYear :: "int io" where
  "getFullYear w = (Inr (date_getFullYear w (tick w)), next_tick w)"

definition execAsync :: "string \<Rightarrow> string io" where
  "execAsync command w = (exec_outcome w (tick w) command, next_tick w)"

definition chat_completions_create :: "string \<Rightarrow> string option io" where
  "chat_completions_create prompt w = (openai_outcome w (tick w) prompt, next_tick w)"

section \<open>Strings and numbers of the language\<close>

text \<open>\<^verbatim>\<open>value || fallback\<close> on a string that may be \<^verbatim>\<open>undefined\<close>: the empty string is falsy.\<close>

definition or_default :: "string option \<Rightarrow> string \<Rightarrow> string" where
  "or_default v d = (case v of None \<Rightarrow> d | Some s \<Rightarrow> if s = [] then d else s)"

definition truthy :: "string option \<Rightarrow> bool" where
  "truthy v = (case v of None \<Rightarrow> False | Some s \<Rightarrow> s \<noteq> [])"

definition substring :: "string \<Rightarrow> nat \<Rightarrow> nat \<Rightarrow> string" where
  "substring str a b = take (max a b - min a b) (drop (min a b) str)"

definition is_space :: "char \<Rightarrow> bool" where
  "is_space x = (x \<in> set [CHR 0x09, CHR 0x0A, CHR 0x0B, CHR 0x0C, CHR 0x0D, CHR 0x20, CHR 0xA0])"

definition trim :: "string \<Rightarrow> string" where
  "trim str = rev (dropWhile is_space (rev (dropWhile is_space str)))"

definition is_digit :: "char \<Rightarrow> bool" where
  "is_digit x = (48 \<le> (of_char x :: nat) \<and> (of_char x :: nat) \<le> 57)"

definition digit_value :: "char \<Rightarrow> int" where
  "digit_value x = int (of_char x) - 48"

text \<open>
  \<^verbatim>\<open>parseInt(str, 10)\<close>: leading white space, an optional sign, then the longest run of
  digits; \<open>None\<close> is \<^verbatim>\<open>NaN\<close>. (The result is an integer of any size here, a double there.)
\<close>

definition parseInt :: "string \<Rightarrow> int option" where
  "parseInt str =
     (let s1 = dropWhile is_space str;
          negative = (s1 \<noteq> [] \<and> hd s1 = CHR ''-'');
          s2 = (if s1 \<noteq> [] \<and> (hd s1 = CHR ''-'' \<or> hd s1 = CHR ''+'') then tl s1 else s1);
          digits = takeWhile is_digit s2
      in if digits = [] then None
         else Some ((if negative then - 1 else 1) * foldl (\<lambda>n x. 10 * n + digit_value x) 0 digits))"

text \<open>A number in a template literal: its decimal digits, after a minus sign when it is negative.\<close>

definition digit_char :: "nat \<Rightarrow> char" where
  "digit_char d = char_of (of_char CHR ''0'' + d)"

fun decimal :: "nat \<Rightarrow> string \<Rightarrow> string" where
  "decimal n acc =
     (if n < 10 then digit_char n # acc else decimal (n div 10) (digit_char (n mod 10) # acc))"

declare decimal.simps [simp del]

definition number_toString :: "int \<Rightarrow> string" where
  "number_toString i = (if 0 \<le> i then decimal (nat i) [] else CHR ''-'' # decimal (nat (- i)) [])"

definition toLowerCase_char :: "char \<Rightarrow> char" where
  "toLowerCase_char x =
     (let n = (of_char x :: nat)
      in if (65 \<le> n \<and> n \<le> 90) \<or> (192 \<le> n \<and> n \<le> 222 \<and> n \<noteq> 215) then char_of (n + 32) else x)"

definition toLowerCase :: "string \<Rightarrow> string" where
  "toLowerCase str = map toLowerCase_char str"

definition is_slug_char :: "char \<Rightarrow> bool" where
  "is_slug_char x =
     ((97 \<le> (of_char x :: nat) \<and> (of_char x :: nat) \<le> 122)
      \<or> (48 \<le> (of_char x :: nat) \<and> (of_char x :: nat) \<le> 57))"

text \<open>\<^verbatim>\<open>str.replace(/[^a-z0-9]+/g, '-')\<close>: every longest run of other characters becomes one dash.\<close>

fun replace_runs :: "bool \<Rightarrow> string \<Rightarrow> string" where
  "replace_runs in_run [] = []"
| "replace_runs in_run (x # xs) =
     (if is_slug_char x then x # replace_runs False xs
      else if in_run then replace_runs True xs
      else CHR ''-'' # replace_runs True xs)"

text \<open>\<^verbatim>\<open>str.replace(/(^-|-$)/g, '')\<close>: a dash at the start goes, then a dash at the end.\<close>

definition strip_dashes :: "string \<Rightarrow> string" where
  "strip_dashes str =
     (let s1 = (if str \<noteq> [] \<and> hd str = CHR ''-'' then tl str else str)
      in if s1 \<noteq> [] \<and> last s1 = CHR ''-'' then butlast s1 else s1)"

text \<open>\<^verbatim>\<open>str.split(' ')[0]\<close>.\<close>

definition first_word :: "string \<Rightarrow> string" where
  "first_word str = takeWhile (\<lambda>x. x \<noteq> CHR '' '') str"

section \<open>The WordPress service: the compiler methods in the world\<close>

text \<open>
  The compiler methods once more, as the running service calls them: computations in the
  world, like every other method of the services. Each is the body of the method,
  statement by statement, and every call of another method is a computation of its own.
  This form does not settle what a call reads or writes of the world; that is proved of
  it below.
\<close>

definition getTextTag_call :: "WordPressService \<Rightarrow> string \<Rightarrow> string io" where
  "getTextTag_call this variant =
     (if variant = ''h1'' then io_return ''h1''
      else if variant = ''h2'' then io_return ''h2''
      else if variant = ''h3'' then io_return ''h3''
      else if variant = ''small'' then io_return ''small''
      else io_return ''p'')"

definition escapeHtml_call :: "WordPressService \<Rightarrow> string \<Rightarrow> string io" where
  "escapeHtml_call this str =
     io_return
       (replace_all (CHR 0x27) ''&#039;''
         (replace_all (CHR 0x22) ''&quot;''
           (replace_all CHR ''>'' ''&gt;''
             (replace_all CHR ''<'' ''&lt;''
               (replace_all CHR ''&'' ''&amp;'' str)))))"

definition compileBlockToHtml_call :: "WordPressService \<Rightarrow> Block \<Rightarrow> string \<Rightarrow> string io" where
  "compileBlockToHtml_call this block accent =
     (if block_type block = ''text'' then
        (case block_props block of
           TextProps c v \<Rightarrow>
             io_bind (getTextTag_call this v) (\<lambda>tag.
             io_bind (escapeHtml_call this c) (\<lambda>escaped.
               io_return (''<'' @ tag @ ''>'' @ escaped @ ''</'' @ tag @ ''>'')))
         | _ \<Rightarrow> io_throw undefined_replace)
      else if block_type block = ''image'' then
        (case block_props block of
           ImageProps s a \<Rightarrow>
             io_bind (escapeHtml_call this a) (\<lambda>escaped.
               io_return (''<figure class=\"wp-block-image\"><img src=\"'' @ s @ ''\" alt=\"''
                          @ escaped @ ''\" /></figure>''))
         | _ \<Rightarrow> io_throw undefined_replace)
      else if block_type block = ''button'' then
        (case block_props block of
           ButtonProps t h v \<Rightarrow>
             (let bgColor = (if v = ''primary'' then accent else ''transparent'');
                  textColor = (if v = ''primary'' then ''#ffffff'' else accent)
              in io_bind (escapeHtml_call this t) (\<lambda>escaped.
                   io_return (''<div class=\"wp-block-button\"><a class=\"wp-block-button__link\" href=\"''
                              @ h @ ''\" style=\"background-color:'' @ bgColor @ '';color:'' @ textColor
                              @ ''\">'' @ escaped @ ''</a></div>'')))
         | _ \<Rightarrow> io_throw undefined_replace)
      else if block_type block = ''list'' then
        (case block_props block of
           ListProps its l \<Rightarrow>
             io_bind
               (io_sequence
                  (map (\<lambda>item.
                          io_bind (escapeHtml_call this (item_title item)) (\<lambda>t.
                          io_bind (escapeHtml_call this (item_description item)) (\<lambda>d.
                            io_return (''<li><strong>'' @ t @ ''</strong><p>'' @ d @ ''</p></li>''))))
                     its))
               (\<lambda>items. io_return (''<ul class=\"wp-block-list layout-'' @ l @ ''\">''
                                    @ join items [] @ ''</ul>''))
         | _ \<Rightarrow> io_throw undefined_map)
      else io_return [])"

definition compileBlockToGutenberg_call :: "WordPressService \<Rightarrow> Block \<Rightarrow> string \<Rightarrow> string io" where
  "compileBlockToGutenberg_call this block accent =
     (if block_type block = ''text'' then
        (case block_props block of
           TextProps c v \<Rightarrow>
             (if v = ''h1'' then
                io_bind (escapeHtml_call this c) (\<lambda>escaped.
                  io_return (''<!-- wp:heading {\"level\":1} -->\<newline><h1 class=\"wp-block-heading\">''
                             @ escaped @ ''</h1>\<newline><!-- /wp:heading -->''))
              else if v = ''h2'' then
                io_bind (escapeHtml_call this c) (\<lambda>escaped.
                  io_return (''<!-- wp:heading -->\<newline><h2 class=\"wp-block-heading\">''
                             @ escaped @ ''</h2>\<newline><!-- /wp:heading -->''))
              else if v = ''h3'' then
                io_bind (escapeHtml_call this c) (\<lambda>escaped.
                  io_return (''<!-- wp:heading {\"level\":3} -->\<newline><h3 class=\"wp-block-heading\">''
                             @ escaped @ ''</h3>\<newline><!-- /wp:heading -->''))
              else if v = ''small'' then
                io_bind (escapeHtml_call this c) (\<lambda>escaped.
                  io_return (''<!-- wp:paragraph {\"fontSize\":\"small\"} -->\<newline><p class=\"has-small-font-size\">''
                             @ escaped @ ''</p>\<newline><!-- /wp:paragraph -->''))
              else
                io_bind (escapeHtml_call this c) (\<lambda>escaped.
                  io_return (''<!-- wp:paragraph -->\<newline><p>'' @ escaped
                             @ ''</p>\<newline><!-- /wp:paragraph -->'')))
         | _ \<Rightarrow> io_throw undefined_replace)
      else if block_type block = ''image'' then
        (case block_props block of
           ImageProps s a \<Rightarrow>
             io_bind (escapeHtml_call this a) (\<lambda>escaped.
               io_return (''<!-- wp:image -->\<newline><figure class=\"wp-block-image\"><img src=\"'' @ s
                          @ ''\" alt=\"'' @ escaped @ ''\"/></figure>\<newline><!-- /wp:image -->''))
         | _ \<Rightarrow> io_throw undefined_replace)
      else if block_type block = ''button'' then
        (case block_props block of
           ButtonProps t h v \<Rightarrow>
             (let bgColor = (if v = ''primary'' then accent else ''transparent'')
              in io_bind (escapeHtml_call this t) (\<lambda>escaped.
                   io_return (''<!-- wp:buttons -->\<newline><div class=\"wp-block-buttons\"><!-- wp:button {\"backgroundColor\":\"''
                              @ bgColor @ ''\"} -->\<newline><div class=\"wp-block-button\"><a class=\"wp-block-button__link wp-element-button\" href=\"''
                              @ h @ ''\">'' @ escaped
                              @ ''</a></div>\<newline><!-- /wp:button --></div>\<newline><!-- /wp:buttons -->'')))
         | _ \<Rightarrow> io_throw undefined_replace)
      else if block_type block = ''list'' then
        (case block_props block of
           ListProps its l \<Rightarrow>
             io_bind
               (io_sequence
                  (map (\<lambda>item.
                          io_bind (escapeHtml_call this (item_title item)) (\<lambda>t.
                          io_bind (escapeHtml_call this (item_description item)) (\<lambda>d.
                            io_return (''<li><strong>'' @ t @ ''</strong> - '' @ d @ ''</li>''))))
                     its))
               (\<lambda>items. io_return (''<!-- wp:list -->\<newline><ul class=\"wp-block-list\">'' @ join items []
                                    @ ''</ul>\<newline><!-- /wp:list -->''))
         | _ \<Rightarrow> io_throw undefined_map)
      else io_return [])"

definition compileSectionToHtml_call :: "WordPressService \<Rightarrow> Section \<Rightarrow> string \<Rightarrow> string io" where
  "compileSectionToHtml_call this section accent =
     io_bind (io_sequence (map (\<lambda>block. compileBlockToHtml_call this block accent) (section_blocks section)))
       (\<lambda>blocks.
          io_return (''<section class=\"wp-block-group section-'' @ section_type section
                     @ ''\" data-section-id=\"'' @ section_id section @ ''\">''
                     @ join blocks ''\<newline>'' @ ''</section>''))"

definition compileSectionToGutenberg_call :: "WordPressService \<Rightarrow> Section \<Rightarrow> string \<Rightarrow> string io" where
  "compileSectionToGutenberg_call this section accent =
     io_bind (io_sequence (map (\<lambda>block. compileBlockToGutenberg_call this block accent) (section_blocks section)))
       (\<lambda>blocks.
          io_return (''<!-- wp:group {\"className\":\"section-'' @ section_type section
                     @ ''\"} -->\<newline><div class=\"wp-block-group section-'' @ section_type section
                     @ ''\">'' @ join blocks ''\<newline>'' @ ''</div>\<newline><!-- /wp:group -->''))"

definition compilePageToHtml_call :: "WordPressService \<Rightarrow> Page \<Rightarrow> string \<Rightarrow> string io" where
  "compilePageToHtml_call this page accent =
     io_bind (io_sequence (map (\<lambda>section. compileSectionToHtml_call this section accent) (page_sections page)))
       (\<lambda>sections. io_return (join sections ''\<newline>''))"

definition compilePageToGutenberg_call :: "WordPressService \<Rightarrow> Page \<Rightarrow> string \<Rightarrow> string io" where
  "compilePageToGutenberg_call this page accent =
     io_bind (io_sequence (map (\<lambda>section. compileSectionToGutenberg_call this section accent) (page_sections page)))
       (\<lambda>sections. io_return (join sections ''\<newline>\<newline>''))"

section \<open>The WordPress service: WP-CLI\<close>

record ProvisionResult =
  wpSiteId :: int
  wpAdminUrl :: string
  wpSiteUrl :: string

definition new_WordPressService :: "(string \<Rightarrow> string option) \<Rightarrow> WordPressService" where
  "new_WordPressService config =
     \<lparr>wpCliPath = or_default (config ''WP_CLI_PATH'') ''wp'',
      wpMultisiteUrl = or_default (config ''WP_MULTISITE_URL'') ''http://localhost:8080'',
      configService = config\<rparr>"

definition runWpCli :: "WordPressService \<Rightarrow> string \<Rightarrow> string io" where
  "runWpCli this command =
     (let wpPath = or_default (configService this ''WP_PATH'') ''/var/www/html'';
          fullCommand = wpCliPath this @ '' '' @ command @ '' --path='' @ wpPath @ '' --allow-root''
      in io_catch
           (io_bind (execAsync fullCommand) (\<lambda>stdout. io_return (trim stdout)))
           (\<lambda>error. io_throw error))"

text \<open>The locals \<^verbatim>\<open>slug\<close> and \<^verbatim>\<open>siteSlug\<close> of \<^verbatim>\<open>provisionSite\<close>.\<close>

definition slug :: "Site \<Rightarrow> string" where
  "slug site = substring (strip_dashes (replace_runs False (toLowerCase (site_name site)))) 0 50"

definition siteSlug :: "Site \<Rightarrow> string" where
  "siteSlug site = slug site @ ''-'' @ substring (site_id site) 0 8"

definition provisionSite :: "WordPressService \<Rightarrow> Site \<Rightarrow> ProvisionResult io" where
  "provisionSite this site =
     (let siteUrl = wpMultisiteUrl this @ ''/'' @ siteSlug site;
          adminEmail = owner_email site;
          siteTitle = site_name site
      in io_catch
           (io_bind
              (runWpCli this
                 (''site create --slug=\"'' @ siteSlug site @ ''\" --title=\"'' @ siteTitle
                  @ ''\" --email=\"'' @ adminEmail @ ''\" --porcelain''))
              (\<lambda>createOutput.
                 case parseInt createOutput of
                   None \<Rightarrow> io_throw (Error (''Failed to parse site ID from output: '' @ createOutput))
                 | Some n \<Rightarrow>
                     io_return \<lparr>wpSiteId = n, wpAdminUrl = siteUrl @ ''/wp-admin'', wpSiteUrl = siteUrl\<rparr>))
           (\<lambda>error.
              if configService this ''NODE_ENV'' = Some ''development'' then
                io_bind Math_random (\<lambda>r.
                  io_return
                    \<lparr>wpSiteId = \<lfloor>r * 10000\<rfloor>,
                     wpAdminUrl = wpMultisiteUrl this @ ''/'' @ siteSlug site @ ''/wp-admin'',
                     wpSiteUrl = wpMultisiteUrl this @ ''/'' @ siteSlug site\<rparr>)
              else io_throw error))"

definition applyThemeAndPlugins :: "WordPressService \<Rightarrow> int \<Rightarrow> unit io" where
  "applyThemeAndPlugins this n =
     io_catch
       (let urlFlag = ''--url='' @ wpMultisiteUrl this @ ''/?blog_id='' @ number_toString n
        in io_bind (runWpCli this (''theme activate twentytwentyfour '' @ urlFlag)) (\<lambda>_. io_return ()))
       (\<lambda>error.
          if configService this ''NODE_ENV'' = Some ''development'' then io_return ()
          else io_throw error)"

text \<open>The body of the \<^verbatim>\<open>for\<close> loop of \<^verbatim>\<open>publishVersion\<close>, for one page.\<close>

definition publishPage :: "WordPressService \<Rightarrow> string \<Rightarrow> string \<Rightarrow> Page \<Rightarrow> unit io" where
  "publishPage this urlFlag accent page =
     io_bind (compilePageToHtml_call this page accent) (\<lambda>htmlContent.
     io_bind (compilePageToGutenberg_call this page accent) (\<lambda>gutenbergBlocks.
     io_bind (runWpCli this (''post list --post_type=page --name=\"'' @ page_slug page
                             @ ''\" --format=ids '' @ urlFlag)) (\<lambda>existingPages.
       if existingPages \<noteq> [] then
         io_bind (runWpCli this (''post update '' @ first_word existingPages @ '' --post_content='' @ [CHR 0x27]
                                 @ escapeShell this gutenbergBlocks @ [CHR 0x27] @ '' --post_status=publish '' @ urlFlag))
           (\<lambda>_. io_return ())
       else
         io_bind (runWpCli this (''post create --post_type=page --post_title=\"'' @ page_title page
                                 @ ''\" --post_name=\"'' @ page_slug page @ ''\" --post_content='' @ [CHR 0x27]
                                 @ escapeShell this gutenbergBlocks @ [CHR 0x27] @ '' --post_status=publish '' @ urlFlag))
           (\<lambda>_. io_return ()))))"

definition publishVersion :: "WordPressService \<Rightarrow> int \<Rightarrow> SiteContent \<Rightarrow> unit io" where
  "publishVersion this n content =
     io_catch
       (let urlFlag = ''--url='' @ wpMultisiteUrl this @ ''/?blog_id='' @ number_toString n
        in io_then
             (io_foreach (content_pages content)
                (publishPage this urlFlag (accentColor (content_settings content))))
             (case find (\<lambda>p. page_slug p = ''home'') (content_pages content) of
                None \<Rightarrow> io_return ()
              | Some homePage \<Rightarrow>
                  io_bind (runWpCli this (''post list --post_type=page --name=\"home\" --format=ids '' @ urlFlag))
                    (\<lambda>homePageId.
                       if homePageId \<noteq> [] then
                         io_then (runWpCli this (''option update show_on_front page '' @ urlFlag))
                           (io_bind (runWpCli this (''option update page_on_front '' @ first_word homePageId
                                                    @ '' '' @ urlFlag))
                              (\<lambda>_. io_return ()))
                       else io_return ())))
       (\<lambda>error.
          if configService this ''NODE_ENV'' = Some ''development'' then io_return ()
          else io_throw error)"

section \<open>The AI service\<close>

text \<open>
  The service holds the OpenAI client, or \<^verbatim>\<open>null\<close> when no API key is configured (an
  empty key is falsy too).
\<close>

record AiService =
  openai :: "string option"
  ai_configService :: "string \<Rightarrow> string option"

definition new_AiService :: "(string \<Rightarrow> string option) \<Rightarrow> AiService" where
  "new_AiService config =
     \<lparr>openai = (if truthy (config ''OPENAI_API_KEY'') then config ''OPENAI_API_KEY'' else None),
      ai_configService = config\<rparr>"

text \<open>\<^verbatim>\<open>generateId\<close> of the shared package: \<^verbatim>\<open>Math.random().toString(36).substring(2, 15)\<close>.\<close>

definition generateId :: "string io" where
  "generateId = io_bind Math_random (\<lambda>r w. (Inr (substring (number_toString36 w r) 2 15), w))"

text \<open>
  Object literals of the page schema. The properties of a literal are evaluated in the
  order they are written: the id of a block before its props, the id of a section before
  its blocks, the blocks from first to last.
\<close>

definition text_block :: "string \<Rightarrow> string \<Rightarrow> Block io" where
  "text_block c v =
     io_bind generateId (\<lambda>i.
       io_return \<lparr>block_id = i, block_type = ''text'', block_props = TextProps c v\<rparr>)"

definition button_block :: "string \<Rightarrow> string \<Rightarrow> string \<Rightarrow> Block io" where
  "button_block t h v =
     io_bind generateId (\<lambda>i.
       io_return \<lparr>block_id = i, block_type = ''button'', block_props = ButtonProps t h v\<rparr>)"

definition image_block :: "string \<Rightarrow> string \<Rightarrow> Block io" where
  "image_block s a =
     io_bind generateId (\<lambda>i.
       io_return \<lparr>block_id = i, block_type = ''image'', block_props = ImageProps s a\<rparr>)"

definition copyright_block :: "SiteSettings \<Rightarrow> Block io" where
  "copyright_block s =
     io_bind generateId (\<lambda>i.
     io_bind getFullYear (\<lambda>year.
       io_return
         \<lparr>block_id = i, block_type = ''text'',
          block_props = TextProps ([CHR 0xA9] @ '' '' @ number_toString year @ '' '' @ businessName s
                                   @ ''. All rights reserved.'') ''small''\<rparr>))"

definition section_literal :: "string \<Rightarrow> Block io list \<Rightarrow> Section io" where
  "section_literal t blocks =
     io_bind generateId (\<lambda>i.
     io_bind (io_sequence blocks) (\<lambda>blocks'.
       io_return \<lparr>section_id = i, section_type = t, section_variant = 1, section_blocks = blocks'\<rparr>))"

definition homePagePrompt :: "SiteSettings \<Rightarrow> string" where
  "homePagePrompt s =
     ''Generate website copy for a '' @ industry s @ '' business called \"'' @ businessName s @ ''\".\<newline>''
     @ ''Style: '' @ stylePreset s @ ''\<newline>''
     @ ''Primary action: ''
     @ (if primaryCta s = ''call'' then ''Call us''
        else if primaryCta s = ''book'' then ''Book appointment'' else ''Get a quote'')
     @ ''\<newline>\<newline>''
     @ ''Generate JSON with this structure:\<newline>''
     @ ''{\<newline>''
     @ ''  \"heroHeadline\": \"short compelling headline (max 10 words)\",\<newline>''
     @ ''  \"heroSubheadline\": \"supporting text (max 25 words)\",\<newline>''
     @ ''  \"aboutTitle\": \"section title\",\<newline>''
     @ ''  \"aboutText\": \"about paragraph (50-75 words)\",\<newline>''
     @ ''  \"services\": [\<newline>''
     @ ''    { \"title\": \"Service 1\", \"description\": \"brief description\" },\<newline>''
     @ ''    { \"title\": \"Service 2\", \"description\": \"brief description\" },\<newline>''
     @ ''    { \"title\": \"Service 3\", \"description\": \"brief description\" }\<newline>''
     @ ''  ],\<newline>''
     @ ''  \"testimonials\": [\<newline>''
     @ ''    { \"name\": \"Customer Name\", \"quote\": \"brief testimonial\" },\<newline>''
     @ ''    { \"name\": \"Customer Name\", \"quote\": \"brief testimonial\" }\<newline>''
     @ ''  ]\<newline>''
     @ ''}\<newline>\<newline>''
     @ ''Respond ONLY with valid JSON, no markdown or explanation.''"

text \<open>
  The parsed reply reaches \<^verbatim>\<open>buildHomePage\<close> unchecked, typed \<^verbatim>\<open>any\<close>. Reading a property of
  it, for the keys the service reads (none of them is a built-in property of a string, a
  number, a boolean or an array): \<^verbatim>\<open>null\<close> has no properties, and reading one throws; an
  object gives its member, or \<^verbatim>\<open>undefined\<close> (\<open>None\<close>) when it has none for the key; every
  other value gives \<^verbatim>\<open>undefined\<close>.
\<close>

definition null_property :: "string \<Rightarrow> error" where
  "null_property key =
     TypeError (''Cannot read properties of null (reading '' @ [CHR 0x27] @ key @ [CHR 0x27] @ '')'')"

definition not_a_function :: "string \<Rightarrow> error" where
  "not_a_function expr = TypeError (expr @ '' is not a function'')"

definition read_property :: "json \<Rightarrow> string \<Rightarrow> error + json option" where
  "read_property v key =
     (case v of
        JNull \<Rightarrow> Inl (null_property key)
      | JObject members \<Rightarrow> Inr (map_of members key)
      | _ \<Rightarrow> Inr None)"

text \<open>
  \<^verbatim>\<open>value.map(callback)\<close> on a value read from the reply: an array is mapped, element by
  element; \<^verbatim>\<open>undefined\<close> and \<^verbatim>\<open>null\<close> have no property \<^verbatim>\<open>map\<close> to read; no other value of
  the reply has a callable one.
\<close>

definition array_map :: "string \<Rightarrow> json option \<Rightarrow> (json \<Rightarrow> 'a io) \<Rightarrow> 'a list io" where
  "array_map expr v callback =
     (case v of
        None \<Rightarrow> io_throw undefined_map
      | Some JNull \<Rightarrow> io_throw (null_property ''map'')
      | Some (JArray xs) \<Rightarrow> io_sequence (map callback xs)
      | Some _ \<Rightarrow> io_throw (not_a_function (expr @ ''.map'')))"

text \<open>
  A string leaf of the page schema, filled with a value of the reply. The source stores
  the value as it is, whatever it is. The page schema here holds strings, so a value that
  is no string is outside of it, and the leaf is left unspecified.
\<close>

definition as_string :: "json option \<Rightarrow> string" where
  "as_string v = (case v of Some (JString str) \<Rightarrow> str | _ \<Rightarrow> undefined)"

text \<open>The object literals of \<^verbatim>\<open>buildHomePage\<close> that read the reply.\<close>

definition data_text_block :: "json \<Rightarrow> string \<Rightarrow> string \<Rightarrow> Block io" where
  "data_text_block data key v =
     io_bind generateId (\<lambda>i.
     io_bind (io_lift (read_property data key)) (\<lambda>c.
       io_return \<lparr>block_id = i, block_type = ''text'', block_props = TextProps (as_string c) v\<rparr>))"

definition data_list_item :: "string \<Rightarrow> string \<Rightarrow> json \<Rightarrow> ListItem io" where
  "data_list_item t d x =
     io_bind generateId (\<lambda>i.
     io_bind (io_lift (read_property x t)) (\<lambda>title.
     io_bind (io_lift (read_property x d)) (\<lambda>description.
       io_return \<lparr>item_id = i, item_title = as_string title,
                  item_description = as_string description, item_icon = None\<rparr>)))"

definition data_list_block :: "json \<Rightarrow> string \<Rightarrow> string \<Rightarrow> string \<Rightarrow> string \<Rightarrow> Block io" where
  "data_list_block data key t d l =
     io_bind generateId (\<lambda>i.
     io_bind (io_lift (read_property data key)) (\<lambda>v.
     io_bind (array_map (''data.'' @ key) v (data_list_item t d)) (\<lambda>its.
       io_return \<lparr>block_id = i, block_type = ''list'', block_props = ListProps its l\<rparr>)))"

definition buildHomePage :: "AiService \<Rightarrow> SiteSettings \<Rightarrow> json \<Rightarrow> Page io" where
  "buildHomePage this s data =
     (let ctaText = (if primaryCta s = ''call'' then ''Call Us Today''
                     else if primaryCta s = ''book'' then ''Book Now'' else ''Get a Quote'')
      in io_bind
           (io_sequence
              [section_literal ''hero''
                 [data_text_block data ''heroHeadline'' ''h1'',
                  data_text_block data ''heroSubheadline'' ''body'',
                  button_block ctaText ''#contact'' ''primary'',
                  image_block ''/placeholder-hero.jpg'' ''Hero image''],
               section_literal ''about''
                 [data_text_block data ''aboutTitle'' ''h2'',
                  data_text_block data ''aboutText'' ''body'',
                  image_block ''/placeholder-about.jpg'' ''About us''],
               section_literal ''services''
                 [text_block ''Our Services'' ''h2'',
                  data_list_block data ''services'' ''title'' ''description'' ''grid''],
               section_literal ''testimonials''
                 [text_block ''What Our Clients Say'' ''h2'',
                  data_list_block data ''testimonials'' ''name'' ''quote'' ''list''],
               section_literal ''contact''
                 [text_block ''Get In Touch'' ''h2'',
                  text_block (''Email: '' @ contactEmail s) ''body'',
                  text_block (''Phone: '' @ contactPhone s) ''body'',
                  button_block ctaText (''tel:'' @ contactPhone s) ''primary''],
               section_literal ''footer'' [copyright_block s]])
           (\<lambda>sections.
              io_return \<lparr>page_title = ''Home'', page_slug = ''home'', page_sections = sections\<rparr>))"

text \<open>The object literal that \<^verbatim>\<open>createFallbackHomePage\<close> passes for the reply.\<close>

definition fallbackData :: "SiteSettings \<Rightarrow> json" where
  "fallbackData s =
     JObject
       [(''heroHeadline'', JString (''Welcome to '' @ businessName s)),
        (''heroSubheadline'',
           JString (''Your trusted partner in '' @ toLowerCase (industry s)
                    @ ''. We deliver excellence with every interaction.'')),
        (''aboutTitle'', JString ''About Us''),
        (''aboutText'',
           JString (businessName s @ '' has been proudly serving our community with top-quality ''
                    @ toLowerCase (industry s)
                    @ '' services. Our dedicated team brings years of experience and a commitment to excellence that sets us apart.'')),
        (''services'',
           JArray
             [JObject [(''title'', JString ''Professional Service''),
                       (''description'', JString ''Expert solutions tailored to your needs'')],
              JObject [(''title'', JString ''Quality Guaranteed''),
                       (''description'', JString ''We stand behind our work with confidence'')],
              JObject [(''title'', JString ''Fast Turnaround''),
                       (''description'', JString ''Quick and efficient service delivery'')]]),
        (''testimonials'',
           JArray
             [JObject [(''name'', JString ''John D.''),
                       (''quote'', JString ''Exceptional service! They exceeded all my expectations.'')],
              JObject [(''name'', JString ''Sarah M.''),
                       (''quote'', JString ''Professional, reliable, and truly caring. Highly recommended!'')]])]"

definition createFallbackHomePage :: "AiService \<Rightarrow> SiteSettings \<Rightarrow> Page io" where
  "createFallbackHomePage this s = buildHomePage this s (fallbackData s)"

definition generateHomePage :: "AiService \<Rightarrow> SiteSettings \<Rightarrow> Page io" where
  "generateHomePage this s =
     io_bind (chat_completions_create (homePagePrompt s)) (\<lambda>response.
       let c = or_default response ''''
       in (\<lambda>w. case JSON_parse w c of
                  Inl e \<Rightarrow> createFallbackHomePage this s w
                | Inr data \<Rightarrow> buildHomePage this s data w))"

text \<open>
  The contact page, written out once in \<^verbatim>\<open>generateContactPage\<close> and once more in
  \<^verbatim>\<open>generateFallbackContent\<close>.
\<close>

definition contactSections :: "SiteSettings \<Rightarrow> Section list io" where
  "contactSections s =
     io_sequence
       [section_literal ''contact''
          [text_block ''Contact Us'' ''h1'',
           text_block (''We'' @ [CHR 0x27] @ ''d love to hear from you. Reach out to '' @ businessName s
                       @ '' today.'') ''body'',
           text_block (''Email: '' @ contactEmail s) ''body'',
           text_block (''Phone: '' @ contactPhone s) ''body'',
           button_block
             (if primaryCta s = ''call'' then ''Call Now''
              else if primaryCta s = ''book'' then ''Book Appointment'' else ''Request Quote'')
             (''tel:'' @ contactPhone s) ''primary''],
        section_literal ''footer'' [copyright_block s]]"

definition generateContactPage :: "AiService \<Rightarrow> SiteSettings \<Rightarrow> Page io" where
  "generateContactPage this s =
     io_bind (contactSections s) (\<lambda>sections.
       io_return \<lparr>page_title = ''Contact'', page_slug = ''contact'', page_sections = sections\<rparr>)"

definition generateFallbackContent :: "AiService \<Rightarrow> SiteSettings \<Rightarrow> SiteContent io" where
  "generateFallbackContent this s =
     io_bind (createFallbackHomePage this s) (\<lambda>homePage.
     io_bind (contactSections s) (\<lambda>sections.
       let contactPage = \<lparr>page_title = ''Contact'', page_slug = ''contact'', page_sections = sections\<rparr>
       in io_return \<lparr>content_pages = [homePage, contactPage], content_settings = s\<rparr>))"

definition generateSiteContent :: "AiService \<Rightarrow> SiteSettings \<Rightarrow> SiteContent io" where
  "generateSiteContent this s =
     (if openai this = None then generateFallbackContent this s
      else
        io_catch
          (io_bind (generateHomePage this s) (\<lambda>homePage.
           io_bind (generateContactPage this s) (\<lambda>contactPage.
             io_return \<lparr>content_pages = [homePage, contactPage], content_settings = s\<rparr>)))
          (\<lambda>error. generateFallbackContent this s))"

section \<open>The database client\<close>

text \<open>
  The Prisma calls the modelled code makes. \<^verbatim>\<open>update\<close> throws when no row has the id;
  \<^verbatim>\<open>create\<close> takes the id the database generates, and throws when the version number
  does not fit the column (\<^verbatim>\<open>Int\<close>, 32 bits, signed), when the id or the pair of site id
  and version number is taken, or when the site does not exist.
\<close>

definition fits_Int :: "int \<Rightarrow> bool" where
  "fits_Int n = (- 2147483648 \<le> n \<and> n \<le> 2147483647)"

definition integer_out_of_range :: error where
  "integer_out_of_range = Error ''Unable to fit integer value into an INT4 (32-bit signed integer).''"

definition record_not_found :: error where
  "record_not_found = Error ''Record to update not found.''"

definition unique_constraint_failed :: error where
  "unique_constraint_failed = Error ''Unique constraint failed''"

definition foreign_key_constraint_failed :: error where
  "foreign_key_constraint_failed = Error ''Foreign key constraint failed''"

definition site_findUnique :: "string \<Rightarrow> Site option io" where
  "site_findUnique i w = (Inr (find (\<lambda>s. site_id s = i) (sites w)), w)"

definition site_update :: "string \<Rightarrow> (Site \<Rightarrow> Site) \<Rightarrow> Site io" where
  "site_update i f w =
     (case find (\<lambda>s. site_id s = i) (sites w) of
        None \<Rightarrow> (Inl record_not_found, w)
      | Some s \<Rightarrow> (Inr (f s), w\<lparr>sites := map (\<lambda>s. if site_id s = i then f s else s) (sites w)\<rparr>))"

text \<open>The first row in descending order of version number.\<close>

fun max_version :: "SiteVersion list \<Rightarrow> SiteVersion option" where
  "max_version [] = None"
| "max_version (v # vs) =
     (case max_version vs of
        None \<Rightarrow> Some v
      | Some u \<Rightarrow> if versionNumber v < versionNumber u then Some u else Some v)"

definition siteVersion_findFirst_desc :: "string \<Rightarrow> SiteVersion option io" where
  "siteVersion_findFirst_desc sid w =
     (Inr (max_version (filter (\<lambda>v. version_siteId v = sid) (siteVersions w))), w)"

definition siteVersion_findUnique :: "string \<Rightarrow> SiteVersion option io" where
  "siteVersion_findUnique i w = (Inr (find (\<lambda>v. version_id v = i) (siteVersions w)), w)"

definition siteVersion_create :: "string \<Rightarrow> int \<Rightarrow> SiteContent \<Rightarrow> SiteVersion io" where
  "siteVersion_create sid n c w =
     (let row = \<lparr>version_id = cuid w (tick w), version_siteId = sid, versionNumber = n, pageJson = c\<rparr>
      in if \<not> fits_Int n
         then (Inl integer_out_of_range, next_tick w)
         else if list_ex (\<lambda>v. version_id v = version_id row
                              \<or> (version_siteId v = sid \<and> versionNumber v = n)) (siteVersions w)
         then (Inl unique_constraint_failed, next_tick w)
         else if \<not> list_ex (\<lambda>s. site_id s = sid) (sites w)
         then (Inl foreign_key_constraint_failed, next_tick w)
         else (Inr row, (next_tick w)\<lparr>siteVersions := siteVersions w @ [row]\<rparr>))"

definition stripeSubscription_findFirst :: "(StripeSubscription \<Rightarrow> bool) \<Rightarrow> StripeSubscription option io" where
  "stripeSubscription_findFirst wh w = (Inr (find wh (stripeSubscriptions w)), w)"

section \<open>The jobs service\<close>

text \<open>
  Modelled from the spec: \<^verbatim>\<open>JobsService.updateJobStatus\<close> and \<^verbatim>\<open>JobsService.addJobLog\<close>
  (\<^verbatim>\<open>jobs.service.ts\<close> is not among the sources). A call sets the status of the job, with
  the error message when one is given, and a call adds a line to the log of the job; the
  world keeps the calls in the order they were made, and the status of a job is what the
  last call for it set.
\<close>

definition updateJobStatus :: "string \<Rightarrow> JobStatus \<Rightarrow> string option \<Rightarrow> unit io" where
  "updateJobStatus job status err w = (Inr (), w\<lparr>job_updates := job_updates w @ [(job, status, err)]\<rparr>)"

definition addJobLog :: "string \<Rightarrow> string \<Rightarrow> unit io" where
  "addJobLog job message w = (Inr (), w\<lparr>job_logs := job_logs w @ [(job, message)]\<rparr>)"

definition job_state :: "world \<Rightarrow> string \<Rightarrow> (JobStatus \<times> string option) option" where
  "job_state w job =
     (case filter (\<lambda>u. fst u = job) (job_updates w) of
        [] \<Rightarrow> None
      | u # us \<Rightarrow> Some (snd (last (u # us))))"

section \<open>The job processor\<close>

record JobMetadata =
  metadata_settings :: "SiteSettings option"
  metadata_versionId :: "string option"

record JobData =
  data_jobId :: string
  data_siteId :: string
  data_type :: string
  data_metadata :: "JobMetadata option"

record JobsProcessor =
  wordpressService :: WordPressService
  aiService :: AiService

definition handleGenerate :: "JobsProcessor \<Rightarrow> string \<Rightarrow> string \<Rightarrow> JobMetadata option \<Rightarrow> unit io" where
  "handleGenerate this job sid md =
     io_then (addJobLog job ''Generating content with AI...'')
    (io_bind (site_findUnique sid) (\<lambda>site.
     io_bind (siteVersion_findFirst_desc sid) (\<lambda>versions.
       if site = None then io_throw (Error ''Site not found'')
       else
         let existingContent = map_option pageJson versions;
             s = (case Option.bind md metadata_settings of
                    Some x \<Rightarrow> Some x
                  | None \<Rightarrow> map_option content_settings existingContent)
         in case s of
              None \<Rightarrow> io_throw (Error ''No settings found for generation'')
            | Some s' \<Rightarrow>
                io_bind (generateSiteContent (aiService this) s') (\<lambda>c.
                io_then (addJobLog job ''AI content generated'')
               (io_bind (siteVersion_findFirst_desc sid) (\<lambda>maxVersion.
                  let nextVersion = (case maxVersion of None \<Rightarrow> 0 | Some v \<Rightarrow> versionNumber v) + 1
                  in io_bind (siteVersion_create sid nextVersion c) (\<lambda>version.
                     io_then (addJobLog job (''Version '' @ number_toString nextVersion @ '' created''))
                    (io_bind (site_update sid
                                (\<lambda>x. x\<lparr>site_status := draft, currentVersionId := Some (version_id version)\<rparr>))
                       (\<lambda>_. io_return ())))))))))"

definition handleProvision :: "JobsProcessor \<Rightarrow> string \<Rightarrow> string \<Rightarrow> JobMetadata option \<Rightarrow> unit io" where
  "handleProvision this job sid md =
     io_then (addJobLog job ''Provisioning WordPress site...'')
    (io_then (site_update sid (\<lambda>x. x\<lparr>site_status := provisioning\<rparr>))
    (io_bind (site_findUnique sid) (\<lambda>site.
       case site of
         None \<Rightarrow> io_throw (Error ''Site not found'')
       | Some site' \<Rightarrow>
           io_bind (provisionSite (wordpressService this) site') (\<lambda>wpResult.
           io_then (addJobLog job (''WordPress site created: '' @ wpSiteUrl wpResult))
          (io_then (site_update sid
                      (\<lambda>x. x\<lparr>site_wpSiteId := Some (wpSiteId wpResult),
                              site_wpAdminUrl := Some (wpAdminUrl wpResult),
                              site_wpSiteUrl := Some (wpSiteUrl wpResult),
                              site_status := generating\<rparr>))
          (io_then (applyThemeAndPlugins (wordpressService this) (wpSiteId wpResult))
          (io_then (addJobLog job ''Theme and plugins applied'')
          (handleGenerate this job sid md))))))))"

definition handlePublish :: "JobsProcessor \<Rightarrow> string \<Rightarrow> string \<Rightarrow> JobMetadata option \<Rightarrow> unit io" where
  "handlePublish this job sid md =
     io_then (addJobLog job ''Publishing to WordPress...'')
    (io_bind (site_findUnique sid) (\<lambda>site.
       case site of
         None \<Rightarrow> io_throw (Error ''Site not found'')
       | Some site' \<Rightarrow>
           if \<not> truthy (currentVersionId site') then io_throw (Error ''No current version to publish'')
           else if site_wpSiteId site' = None \<or> site_wpSiteId site' = Some 0
           then io_throw (Error ''WordPress site not provisioned'')
           else
             io_bind (siteVersion_findUnique (the (currentVersionId site'))) (\<lambda>version.
               case version of
                 None \<Rightarrow> io_throw (Error ''Version not found'')
               | Some version' \<Rightarrow>
                   io_then (publishVersion (wordpressService this) (the (site_wpSiteId site'))
                              (pageJson version'))
                  (io_then (addJobLog job ''Content published to WordPress'')
                  (io_bind (site_update sid
                              (\<lambda>x. x\<lparr>site_status := published,
                                      publishedVersionId := Some (version_id version')\<rparr>))
                     (\<lambda>_. io_return ()))))))"

definition handleRollback :: "JobsProcessor \<Rightarrow> string \<Rightarrow> string \<Rightarrow> JobMetadata option \<Rightarrow> unit io" where
  "handleRollback this job sid md =
     (let versionId = Option.bind md metadata_versionId
      in if \<not> truthy versionId then io_throw (Error ''Version ID required for rollback'')
         else
           io_then (addJobLog job (''Rolling back to version '' @ the versionId @ ''...''))
          (io_bind (site_findUnique sid) (\<lambda>site.
             case site of
               None \<Rightarrow> io_throw (Error ''Site not found'')
             | Some site' \<Rightarrow>
                 if site_wpSiteId site' = None \<or> site_wpSiteId site' = Some 0
                 then io_throw (Error ''WordPress site not provisioned'')
                 else
                   io_bind (siteVersion_findUnique (the versionId)) (\<lambda>version.
                     case version of
                       None \<Rightarrow> io_throw (Error ''Version not found'')
                     | Some version' \<Rightarrow>
                         if version_siteId version' \<noteq> sid then io_throw (Error ''Version not found'')
                         else
                           io_then (publishVersion (wordpressService this) (the (site_wpSiteId site'))
                                      (pageJson version'))
                          (io_then (addJobLog job ''Rolled back content published'')
                          (io_bind (site_update sid
                                      (\<lambda>x. x\<lparr>currentVersionId := Some (version_id version'),
                                              publishedVersionId := Some (version_id version'),
                                              site_status := published\<rparr>))
                             (\<lambda>_. io_return ())))))))"

text \<open>The \<^verbatim>\<open>switch\<close> statement of \<^verbatim>\<open>processJob\<close>.\<close>

definition dispatch :: "JobsProcessor \<Rightarrow> JobData \<Rightarrow> unit io" where
  "dispatch this data =
     (let job = data_jobId data; sid = data_siteId data; t = data_type data; md = data_metadata data
      in if t = ''provision'' then handleProvision this job sid md
         else if t = ''generate'' then handleGenerate this job sid md
         else if t = ''publish'' then handlePublish this job sid md
         else if t = ''rollback'' then handleRollback this job sid md
         else io_throw (Error (''Unknown job type: '' @ t)))"

definition processJob :: "JobsProcessor \<Rightarrow> JobData \<Rightarrow> unit io" where
  "processJob this data =
     (let job = data_jobId data; t = data_type data
      in io_catch
           (io_then (updateJobStatus job running None)
           (io_then (addJobLog job (''Starting '' @ t @ '' job''))
           (io_then (dispatch this data)
           (io_then (updateJobStatus job completed None)
                    (addJobLog job ''Job completed successfully'')))))
           (\<lambda>error.
              let errorMessage = (case error_message error of Some m \<Rightarrow> m | None \<Rightarrow> ''Unknown error'')
              in io_then (updateJobStatus job failed (Some errorMessage))
                (io_then (addJobLog job (''Job failed: '' @ errorMessage))
                         (io_throw error))))"

section \<open>The billing service\<close>

text \<open>The Stripe client is set only when a secret key is configured (an empty key is falsy).\<close>

record BillingService =
  stripe :: "string option"
  priceId :: string
  billing_configService :: "string \<Rightarrow> string option"

definition new_BillingService :: "(string \<Rightarrow> string option) \<Rightarrow> BillingService" where
  "new_BillingService config =
     \<lparr>stripe = (if truthy (config ''STRIPE_SECRET_KEY'') then config ''STRIPE_SECRET_KEY'' else None),
      priceId = or_default (config ''STRIPE_PRICE_ID'') '''',
      billing_configService = config\<rparr>"

definition hasActiveSubscription :: "BillingService \<Rightarrow> string \<Rightarrow> bool io" where
  "hasActiveSubscription this userId =
     (if stripe this = None then io_return True
      else
        io_bind
          (stripeSubscription_findFirst
             (\<lambda>x. subscription_userId x = userId \<and> subscription_status x = active))
          (\<lambda>subscription. io_return (subscription \<noteq> None)))"

section \<open>Specification vocabulary\<close>





text \<open>The entity of one character.\<close>

definition escape_char :: "char \<Rightarrow> string" where
  "escape_char x =
     (if x = CHR ''&'' then ''&amp;''
      else if x = CHR ''<'' then ''&lt;''
      else if x = CHR ''>'' then ''&gt;''
      else if x = CHR 0x22 then ''&quot;''
      else if x = CHR 0x27 then ''&#039;''
      else [x])"

section \<open>Example inputs\<close>

definition example_service :: WordPressService where
  "example_service =
     \<lparr>wpCliPath = ''wp'', wpMultisiteUrl = ''http://localhost:8080'', configService = (\<lambda>k. None)\<rparr>"

definition example_hero :: Section where
  "example_hero =
     \<lparr>section_id = ''s1'', section_type = ''hero'', section_variant = 1, section_blocks =
        [\<lparr>block_id = ''b1'', block_type = ''text'', block_props = TextProps ''A & <B>'' ''h1''\<rparr>,
         \<lparr>block_id = ''b2'', block_type = ''video'', block_props = ImageProps ''x'' ''y''\<rparr>]\<rparr>"

definition example_footer :: Section where
  "example_footer =
     \<lparr>section_id = ''s2'', section_type = ''footer'', section_variant = 1, section_blocks =
        [\<lparr>block_id = ''b3'', block_type = ''button'',
          block_props = ButtonProps ''Call'' ''tel:1'' ''primary''\<rparr>]\<rparr>"

definition example_page :: Page where
  "example_page =
     \<lparr>page_title = ''Home'', page_slug = ''home'', page_sections = [example_hero, example_footer]\<rparr>"


definition mismatched_page :: Page where
  "mismatched_page =
     \<lparr>page_title = ''Home'', page_slug = ''home'', page_sections =
        [\<lparr>section_id = ''s1'', section_type = ''services'', section_variant = 1, section_blocks =
           [\<lparr>block_id = ''b1'', block_type = ''list'',
             block_props = TextProps ''Our Services'' ''h2''\<rparr>]\<rparr>]\<rparr>"

text \<open>
  Frame conditions and postconditions: a computation that writes nothing but the tick;
  one that keeps a property of the world, whatever its outcome; one whose outcome
  satisfies a condition in every world.
\<close>

definition only_ticks :: "'a io \<Rightarrow> bool" where
  "only_ticks m = (\<forall>w. \<exists>n. snd (m w) = w\<lparr>tick := n\<rparr>)"

definition keeps :: "(world \<Rightarrow> bool) \<Rightarrow> 'a io \<Rightarrow> bool" where
  "keeps P m = (\<forall>w. P w \<longrightarrow> P (snd (m w)))"

definition post :: "'a io \<Rightarrow> (error + 'a \<Rightarrow> bool) \<Rightarrow> bool" where
  "post m Q = (\<forall>w. Q (fst (m w)))"

definition returns :: "error + 'a \<Rightarrow> bool" where
  "returns r = (case r of Inl e \<Rightarrow> False | Inr x \<Rightarrow> True)"

text \<open>The job types, and the message \<^verbatim>\<open>processJob\<close> records for a thrown value.\<close>

definition job_types :: "string list" where
  "job_types = [''provision'', ''generate'', ''publish'', ''rollback'']"

definition recorded_message :: "error \<Rightarrow> string" where
  "recorded_message e = (case error_message e of Some m \<Rightarrow> m | None \<Rightarrow> ''Unknown error'')"


text \<open>
  A content without its ids: the id of every section, block and list item blanked.
\<close>

definition blank_item :: "ListItem \<Rightarrow> ListItem" where
  "blank_item item = item\<lparr>item_id := []\<rparr>"

fun blank_props :: "BlockProps \<Rightarrow> BlockProps" where
  "blank_props (ListProps its l) = ListProps (map blank_item its) l"
| "blank_props (TextProps c v) = TextProps c v"
| "blank_props (ImageProps s a) = ImageProps s a"
| "blank_props (ButtonProps t h v) = ButtonProps t h v"

definition blank_block :: "Block \<Rightarrow> Block" where
  "blank_block b = b\<lparr>block_id := [], block_props := blank_props (block_props b)\<rparr>"

definition blank_section :: "Section \<Rightarrow> Section" where
  "blank_section sec = sec\<lparr>section_id := [], section_blocks := map blank_block (section_blocks sec)\<rparr>"

definition blank_page :: "Page \<Rightarrow> Page" where
  "blank_page p = p\<lparr>page_sections := map blank_section (page_sections p)\<rparr>"

definition without_ids :: "SiteContent \<Rightarrow> SiteContent" where
  "without_ids c = c\<lparr>content_pages := map blank_page (content_pages c)\<rparr>"

text \<open>Two items, two blocks and two sections that are the same but for their ids.\<close>

abbreviation same_item :: "ListItem \<Rightarrow> ListItem \<Rightarrow> bool" where
  "same_item a b \<equiv> blank_item a = blank_item b"

abbreviation same_block :: "Block \<Rightarrow> Block \<Rightarrow> bool" where
  "same_block a b \<equiv> blank_block a = blank_block b"

abbreviation same_section :: "Section \<Rightarrow> Section \<Rightarrow> bool" where
  "same_section a b \<equiv> blank_section a = blank_section b"

text \<open>
  Two worlds whose clocks show the same year at every reading from now on (whatever
  \<^verbatim>\<open>Math.random\<close> answers in them); two computations whose outcomes are alike in two such
  worlds, and leave them such: they throw the same error, or return values that a given
  relation holds of.
\<close>

definition same_clock :: "world \<Rightarrow> world \<Rightarrow> bool" where
  "same_clock w v = (\<forall>n. date_getFullYear w (tick w + n) = date_getFullYear v (tick v + n))"

definition alike :: "('a \<Rightarrow> 'b \<Rightarrow> bool) \<Rightarrow> 'a io \<Rightarrow> 'b io \<Rightarrow> bool" where
  "alike V m n =
     (\<forall>w v. same_clock w v \<longrightarrow>
        rel_sum (=) V (fst (m w)) (fst (n v)) \<and> same_clock (snd (m w)) (snd (n v)))"

text \<open>
  A computation that neither reads nor writes the job log; one that returns in every
  world, after a fixed number of ticks.
\<close>

definition unlogged :: "'a io \<Rightarrow> bool" where
  "unlogged m = (\<forall>w l. m (w\<lparr>job_logs := l\<rparr>) = (fst (m w), (snd (m w))\<lparr>job_logs := l\<rparr>))"

definition runs :: "nat \<Rightarrow> 'a io \<Rightarrow> bool" where
  "runs k m = (\<forall>w. \<exists>x. m w = (Inr x, w\<lparr>tick := tick w + k\<rparr>))"

text \<open>
  The replies a home page can be built from: a value with properties (any but \<^verbatim>\<open>null\<close>)
  whose \<^verbatim>\<open>services\<close> and \<^verbatim>\<open>testimonials\<close> are arrays of values with properties. And an
  outcome that is a thrown TypeError.
\<close>

fun has_properties :: "json \<Rightarrow> bool" where
  "has_properties JNull = False"
| "has_properties (JBool b) = True"
| "has_properties (JNumber n) = True"
| "has_properties (JString str) = True"
| "has_properties (JArray xs) = True"
| "has_properties (JObject members) = True"

definition elements :: "json \<Rightarrow> string \<Rightarrow> json list option" where
  "elements data key =
     (case read_property data key of
        Inr (Some (JArray xs)) \<Rightarrow> Some xs
      | _ \<Rightarrow> None)"

definition mappable :: "json \<Rightarrow> string \<Rightarrow> bool" where
  "mappable data key = (case elements data key of Some xs \<Rightarrow> list_all has_properties xs | None \<Rightarrow> False)"

definition buildable :: "json \<Rightarrow> bool" where
  "buildable data = (has_properties data \<and> mappable data ''services'' \<and> mappable data ''testimonials'')"

definition throws_TypeError :: "error + 'a \<Rightarrow> bool" where
  "throws_TypeError r = (case r of Inl (TypeError msg) \<Rightarrow> True | _ \<Rightarrow> False)"

text \<open>The outcome of a content generation: a home page followed by a contact page, and the settings it was given.\<close>

definition home_and_contact :: "SiteSettings \<Rightarrow> error + SiteContent \<Rightarrow> bool" where
  "home_and_contact s r = (\<exists>c. r = Inr c \<and> map page_slug (content_pages c) = [''home'', ''contact'']
                  \<and> map page_title (content_pages c) = [''Home'', ''Contact''] \<and> content_settings c = s)"

definition example_settings :: SiteSettings where
  "example_settings =
     \<lparr>businessName = ''Joe's Cafe'', industry = ''Restaurant'', stylePreset = ''modern'',
      accentColor = ''#2563EB'', primaryCta = ''call'', contactEmail = ''joe@example.com'',
      contactPhone = ''555-0100''\<rparr>"

definition example_site :: Site where
  "example_site =
     \<lparr>site_id = ''clx123456789'', site_name = ''  Joe's Cafe & Bar -- 2!'', site_status = draft,
      site_wpSiteId = None, site_wpAdminUrl = None, site_wpSiteUrl = None,
      currentVersionId = None, publishedVersionId = None, owner_email = ''joe@example.com''\<rparr>"

text \<open>
  A world in which \<^verbatim>\<open>Math.random\<close> answers 1/4 (\<^verbatim>\<open>0.9\<close> in base 36), it is 2024, the
  first shell command fails and the later ones print a message, the OpenAI API is out of
  reach, and the database holds the example site; and the same world with \<^verbatim>\<open>Math.random\<close>
  answering 1/2 (\<^verbatim>\<open>0.i\<close> in base 36).
\<close>

definition example_world :: world where
  "example_world =
     \<lparr>tick = 0,
      math_random = (\<lambda>n. 1 / 4),
      number_toString36 = (\<lambda>r. if r = 1 / 4 then ''0.9'' else ''0.i''),
      date_getFullYear = (\<lambda>n. 2024),
      exec_outcome = (\<lambda>n c. if n = 0 then Inl (Error ''Command failed'') else Inr ''Error: no site''),
      openai_outcome = (\<lambda>n p. Inl (Error ''Connection error.'')),
      JSON_parse = (\<lambda>str. Inl (Error ''Unexpected end of JSON input'')),
      cuid = (\<lambda>n. ''c'' @ decimal n []),
      sites = [example_site],
      siteVersions = [],
      stripeSubscriptions = [],
      job_updates = [],
      job_logs = []\<rparr>"

definition other_world :: world where
  "other_world = example_world\<lparr>math_random := (\<lambda>n. 1 / 2)\<rparr>"

definition example_ai :: AiService where
  "example_ai = new_AiService (\<lambda>k. None)"

text \<open>The versions of a site, and the version number after the highest one (1 when there is none).\<close>

definition site_versions :: "world \<Rightarrow> string \<Rightarrow> SiteVersion list" where
  "site_versions w sid = filter (\<lambda>v. version_siteId v = sid) (siteVersions w)"

definition next_version_number :: "world \<Rightarrow> string \<Rightarrow> int" where
  "next_version_number w sid =
     (if site_versions w sid = [] then 1
      else Max (set (map versionNumber (site_versions w sid))) + 1)"

text \<open>
  The settings \<^verbatim>\<open>handleGenerate\<close> generates from: those of the job's metadata, or else
  those of the site's latest version.
\<close>

definition chosen_settings :: "world \<Rightarrow> string \<Rightarrow> JobMetadata option \<Rightarrow> SiteSettings option" where
  "chosen_settings w sid md =
     (case Option.bind md metadata_settings of
        Some x \<Rightarrow> Some x
      | None \<Rightarrow> map_option content_settings (map_option pageJson (max_version (site_versions w sid))))"

definition example_processor :: JobsProcessor where
  "example_processor = \<lparr>wordpressService = example_service, aiService = example_ai\<rparr>"

definition generate_job :: JobData where
  "generate_job =
     \<lparr>data_jobId = ''j1'', data_siteId = ''clx123456789'', data_type = ''generate'',
      data_metadata = Some \<lparr>metadata_settings = Some example_settings, metadata_versionId = None\<rparr>\<rparr>"

definition dev_service :: WordPressService where
  "dev_service = new_WordPressService (\<lambda>k. if k = ''NODE_ENV'' then Some ''development'' else None)"

definition keyed_ai :: AiService where
  "keyed_ai = new_AiService (\<lambda>k. if k = ''OPENAI_API_KEY'' then Some ''sk-test'' else None)"

text \<open>The example world with an OpenAI API that answers, but not in JSON.\<close>

definition chatty_world :: world where
  "chatty_world = example_world\<lparr>openai_outcome := (\<lambda>n p. Inr (Some ''Sorry, I cannot help with that.''))\<rparr>"

text \<open>
  The example world with an OpenAI API that answers with an empty object, and with one
  that answers \<^verbatim>\<open>null\<close>.
\<close>

definition curt_world :: world where
  "curt_world =
     example_world
       \<lparr>openai_outcome := (\<lambda>n p. Inr (Some ''{}'')),
        JSON_parse := (\<lambda>str. if str = ''{}'' then Inr (JObject [])
                             else Inl (Error ''Unexpected end of JSON input''))\<rparr>"

definition null_world :: world where
  "null_world =
     example_world
       \<lparr>openai_outcome := (\<lambda>n p. Inr (Some ''null'')),
        JSON_parse := (\<lambda>str. if str = ''null'' then Inr JNull
                             else Inl (Error ''Unexpected end of JSON input''))\<rparr>"

text \<open>
  The example world with an OpenAI API whose reply parses to a value of the shape asked
  for: the text of the reply, and the value \<^verbatim>\<open>JSON.parse\<close> gives for it.
\<close>

definition example_reply_text :: string where
  "example_reply_text =
     ''{\"heroHeadline\": \"Coffee, done right\", ''
     @ ''\"heroSubheadline\": \"Roasted in house, served with care.\", ''
     @ ''\"aboutTitle\": \"Our story\", ''
     @ ''\"aboutText\": \"A family cafe since 1999.\", ''
     @ ''\"services\": [{\"title\": \"Espresso\", \"description\": \"Short and strong\"}], ''
     @ ''\"testimonials\": [{\"name\": \"Ann\", \"quote\": \"Best in town\"}]}''"

definition example_reply :: json where
  "example_reply =
     JObject
       [(''heroHeadline'', JString ''Coffee, done right''),
        (''heroSubheadline'', JString ''Roasted in house, served with care.''),
        (''aboutTitle'', JString ''Our story''),
        (''aboutText'', JString ''A family cafe since 1999.''),
        (''services'', JArray [JObject [(''title'', JString ''Espresso''), (''description'', JString ''Short and strong'')]]),
        (''testimonials'', JArray [JObject [(''name'', JString ''Ann''), (''quote'', JString ''Best in town'')]])]"

definition helpful_world :: world where
  "helpful_world =
     example_world
       \<lparr>openai_outcome := (\<lambda>n p. Inr (Some example_reply_text)),
        JSON_parse := (\<lambda>str. if str = example_reply_text then Inr example_reply
                             else Inl (Error ''Unexpected end of JSON input''))\<rparr>"



text \<open>
  The id the database gives to the version that a generate job creates: the one it holds
  for the tick at which the content has been generated.
\<close>

definition new_version_id :: "JobsProcessor \<Rightarrow> SiteSettings \<Rightarrow> world \<Rightarrow> string" where
  "new_version_id this s w = cuid w (tick (snd (generateSiteContent (aiService this) s w)))"


section \<open>Lists and strings\<close>

lemma set_replace_all:
  "set (replace_all c r s) = (set s - {c}) \<union> (if c \<in> set s then set r else {})"
  by (induction s) (auto simp: replace_all_def)

lemma replace_all_Nil: "replace_all c r [] = []"
  by (simp add: replace_all_def)

lemma replace_all_Cons: "replace_all c r (x # xs) = (if x = c then r else [x]) @ replace_all c r xs"
  by (simp add: replace_all_def)

lemma replace_all_append: "replace_all c r (xs @ ys) = replace_all c r xs @ replace_all c r ys"
  by (simp add: replace_all_def)

lemma join_empty_sep: "join xs [] = concat xs"
  by (induction xs "[] :: string" rule: join.induct) simp_all

lemma mapE_Inr_D: "mapE f xs = Inr ys \<Longrightarrow> list_all2 (\<lambda>x y. f x = Inr y) xs ys"
  by (induction xs arbitrary: ys) (auto split: sum.splits)

lemma mapE_Inr_I: "list_all2 (\<lambda>x y. f x = Inr y) xs ys \<Longrightarrow> mapE f xs = Inr ys"
  by (induction rule: list_all2_induct) simp_all

lemma mapE_Inr_iff: "mapE f xs = Inr ys \<longleftrightarrow> list_all2 (\<lambda>x y. f x = Inr y) xs ys"
  using mapE_Inr_D mapE_Inr_I by blast



lemma mapE_throws_iff: "(\<exists>e. mapE f xs = Inl e) \<longleftrightarrow> (\<exists>x \<in> set xs. \<exists>e. f x = Inl e)"
  by (induction xs) (auto split: sum.splits)

lemma case_mapE_Inr:
  "(case mapE f xs of Inl e \<Rightarrow> Inl e | Inr ys \<Rightarrow> Inr (g ys)) = Inr out \<longleftrightarrow>
     (\<exists>ys. list_all2 (\<lambda>x y. f x = Inr y) xs ys \<and> out = g ys)"
  by (cases "mapE f xs") (auto simp: mapE_Inr_iff[symmetric])

lemma case_mapE_Inl:
  "(\<exists>e. (case mapE f xs of Inl e \<Rightarrow> Inl e | Inr ys \<Rightarrow> Inr (g ys)) = Inl e) \<longleftrightarrow>
     (\<exists>x \<in> set xs. \<exists>e. f x = Inl e)"
  using mapE_throws_iff[of f xs] by (cases "mapE f xs") auto



section \<open>The markup compiler\<close>

lemma escapeHtml_Nil: "escapeHtml this [] = []"
  by (simp add: escapeHtml_def replace_all_Nil)

lemma escapeHtml_Cons: "escapeHtml this (x # xs) = escape_char x @ escapeHtml this xs"
  by (simp add: escapeHtml_def escape_char_def replace_all_Cons replace_all_append replace_all_Nil)

lemma escapeHtml_map: "escapeHtml this s = concat (map escape_char s)"
  by (induction s) (simp_all add: escapeHtml_Nil escapeHtml_Cons)

lemma escapeHtml_chars:
  "set (escapeHtml this s) \<inter> {CHR ''<'', CHR ''>'', CHR 0x22, CHR 0x27} = {}"
  unfolding escapeHtml_def
  by (auto simp: set_replace_all split: if_splits)





lemma block_html_receiver: "compileBlockToHtml this b c = compileBlockToHtml this' b c"
  unfolding compileBlockToHtml_def escapeHtml_def getTextTag_def ..

lemma block_gutenberg_receiver: "compileBlockToGutenberg this b c = compileBlockToGutenberg this' b c"
  unfolding compileBlockToGutenberg_def escapeHtml_def ..

lemma section_html_receiver: "compileSectionToHtml this s c = compileSectionToHtml this' s c"
  unfolding compileSectionToHtml_def block_html_receiver[of this _ c this'] ..

lemma section_gutenberg_receiver:
  "compileSectionToGutenberg this s c = compileSectionToGutenberg this' s c"
  unfolding compileSectionToGutenberg_def block_gutenberg_receiver[of this _ c this'] ..







lemma join_Cons: "join (x # xs) sep = x @ concat (map ((@) sep) xs)"
  by (induction xs arbitrary: x) simp_all

lemma join_cases: "join xs sep = (case xs of [] \<Rightarrow> [] | x # ys \<Rightarrow> x @ concat (map ((@) sep) ys))"
  by (cases xs) (simp_all only: join.simps(1) join_Cons list.case)

lemma mapE_first_error:
  "list_all (\<lambda>x. \<exists>y. f x = Inr y) xs \<Longrightarrow> f x = Inl e \<Longrightarrow> mapE f (xs @ x # ys) = Inl e"
  by (induction xs) auto

lemma mapE_total: "mapE (\<lambda>x. Inr (f x)) xs = Inr (map f xs)"
  by (induction xs) simp_all

section \<open>The compiler methods in the world\<close>

lemma sequence_pure:
  assumes "\<And>x. x \<in> set xs \<Longrightarrow> f x w = (g x, w)"
  shows "io_sequence (map f xs) w = (mapE g xs, w)"
  using assms
proof (induction xs)
  case Nil
  then show ?case by (simp add: io_return_def)
next
  case (Cons a xs)
  from Cons.prems have a: "f a w = (g a, w)" by simp
  from Cons have rest: "io_sequence (map f xs) w = (mapE g xs, w)" by simp
  show ?case
  proof (cases "g a")
    case (Inl e)
    with a show ?thesis by (simp add: io_bind_def)
  next
    case (Inr y)
    with a rest show ?thesis
      by (cases "mapE g xs") (simp_all add: io_bind_def io_return_def)
  qed
qed

lemma bind_pure:
  assumes "m w = (r, w)" and "\<And>x. r = Inr x \<Longrightarrow> f x w = (g x, w)"
  shows "io_bind m f w = (case r of Inl e \<Rightarrow> Inl e | Inr x \<Rightarrow> g x, w)"
  using assms by (cases r) (simp_all add: io_bind_def)

lemma escapeHtml_call_eq: "escapeHtml_call this str w = (Inr (escapeHtml this' str), w)"
  by (simp add: escapeHtml_call_def escapeHtml_def io_return_def)

lemma getTextTag_call_eq: "getTextTag_call this v w = (Inr (getTextTag this' v), w)"
  by (simp add: getTextTag_call_def getTextTag_def io_return_def)

lemma items_call_eq:
  "io_sequence
     (map (\<lambda>item.
             io_bind (escapeHtml_call this (item_title item)) (\<lambda>t.
             io_bind (escapeHtml_call this (item_description item)) (\<lambda>d.
               io_return (k t d))))
        its) w
   = (Inr (map (\<lambda>item. k (escapeHtml this' (item_title item)) (escapeHtml this' (item_description item)))
             its), w)"
proof -
  have "io_sequence
     (map (\<lambda>item.
             io_bind (escapeHtml_call this (item_title item)) (\<lambda>t.
             io_bind (escapeHtml_call this (item_description item)) (\<lambda>d.
               io_return (k t d))))
        its) w
     = (mapE (\<lambda>item. Inr (k (escapeHtml this' (item_title item))
                               (escapeHtml this' (item_description item)))) its, w)"
    by (rule sequence_pure)
      (simp add: io_bind_def io_return_def escapeHtml_call_eq[where this' = this'])
  then show ?thesis by (simp only: mapE_total)
qed

lemma block_html_call_eq:
  "compileBlockToHtml_call this b c w = (compileBlockToHtml this' b c, w)"
proof (cases "block_props b")
  case (TextProps x1 x2)
  then show ?thesis
    by (simp add: compileBlockToHtml_call_def compileBlockToHtml_def io_bind_def io_return_def
        io_throw_def Let_def escapeHtml_call_eq[where this' = this'] getTextTag_call_eq[where this' = this'])
next
  case (ImageProps x1 x2)
  then show ?thesis
    by (simp add: compileBlockToHtml_call_def compileBlockToHtml_def io_bind_def io_return_def
        io_throw_def Let_def escapeHtml_call_eq[where this' = this'])
next
  case (ButtonProps x1 x2 x3)
  then show ?thesis
    by (simp add: compileBlockToHtml_call_def compileBlockToHtml_def io_bind_def io_return_def
        io_throw_def Let_def escapeHtml_call_eq[where this' = this'])
next
  case (ListProps its l)
  then show ?thesis
    by (simp add: compileBlockToHtml_call_def compileBlockToHtml_def io_bind_def io_return_def
        io_throw_def Let_def items_call_eq[where this' = this'])
qed

lemma block_gutenberg_call_eq:
  "compileBlockToGutenberg_call this b c w = (compileBlockToGutenberg this' b c, w)"
proof (cases "block_props b")
  case (TextProps x1 x2)
  then show ?thesis
    by (simp add: compileBlockToGutenberg_call_def compileBlockToGutenberg_def io_bind_def io_return_def
        io_throw_def Let_def escapeHtml_call_eq[where this' = this'])
next
  case (ImageProps x1 x2)
  then show ?thesis
    by (simp add: compileBlockToGutenberg_call_def compileBlockToGutenberg_def io_bind_def io_return_def
        io_throw_def Let_def escapeHtml_call_eq[where this' = this'])
next
  case (ButtonProps x1 x2 x3)
  then show ?thesis
    by (simp add: compileBlockToGutenberg_call_def compileBlockToGutenberg_def io_bind_def io_return_def
        io_throw_def Let_def escapeHtml_call_eq[where this' = this'])
next
  case (ListProps its l)
  then show ?thesis
    by (simp add: compileBlockToGutenberg_call_def compileBlockToGutenberg_def io_bind_def io_return_def
        io_throw_def Let_def items_call_eq[where this' = this'])
qed

lemma section_html_call_eq:
  "compileSectionToHtml_call this s c w = (compileSectionToHtml this' s c, w)"
proof -
  have "io_sequence (map (\<lambda>block. compileBlockToHtml_call this block c) (section_blocks s)) w
      = (mapE (\<lambda>block. compileBlockToHtml this' block c) (section_blocks s), w)"
    by (rule sequence_pure) (rule block_html_call_eq)
  then show ?thesis
    by (cases "mapE (\<lambda>block. compileBlockToHtml this' block c) (section_blocks s)")
      (simp_all add: compileSectionToHtml_call_def compileSectionToHtml_def io_bind_def io_return_def)
qed

lemma section_gutenberg_call_eq:
  "compileSectionToGutenberg_call this s c w = (compileSectionToGutenberg this' s c, w)"
proof -
  have "io_sequence (map (\<lambda>block. compileBlockToGutenberg_call this block c) (section_blocks s)) w
      = (mapE (\<lambda>block. compileBlockToGutenberg this' block c) (section_blocks s), w)"
    by (rule sequence_pure) (rule block_gutenberg_call_eq)
  then show ?thesis
    by (cases "mapE (\<lambda>block. compileBlockToGutenberg this' block c) (section_blocks s)")
      (simp_all add: compileSectionToGutenberg_call_def compileSectionToGutenberg_def io_bind_def io_return_def)
qed

lemma page_html_call_eq:
  "compilePageToHtml_call this p c w = (compilePageToHtml this' p c, w)"
proof -
  have "io_sequence (map (\<lambda>section. compileSectionToHtml_call this section c) (page_sections p)) w
      = (mapE (\<lambda>section. compileSectionToHtml this' section c) (page_sections p), w)"
    by (rule sequence_pure) (rule section_html_call_eq)
  then show ?thesis
    by (cases "mapE (\<lambda>section. compileSectionToHtml this' section c) (page_sections p)")
      (simp_all add: compilePageToHtml_call_def compilePageToHtml_def io_bind_def io_return_def)
qed

lemma page_gutenberg_call_eq:
  "compilePageToGutenberg_call this p c w = (compilePageToGutenberg this' p c, w)"
proof -
  have "io_sequence (map (\<lambda>section. compileSectionToGutenberg_call this section c) (page_sections p)) w
      = (mapE (\<lambda>section. compileSectionToGutenberg this' section c) (page_sections p), w)"
    by (rule sequence_pure) (rule section_gutenberg_call_eq)
  then show ?thesis
    by (cases "mapE (\<lambda>section. compileSectionToGutenberg this' section c) (page_sections p)")
      (simp_all add: compilePageToGutenberg_call_def compilePageToGutenberg_def io_bind_def io_return_def)
qed

section \<open>Computations in the world\<close>

lemmas io_defs = io_return_def io_throw_def io_bind_def io_then_def io_catch_def io_lift_def

named_theorems frame
named_theorems kept
named_theorems posts

lemma tick_self: "\<exists>n. w = w\<lparr>tick := n\<rparr>"
  by (rule exI[of _ "tick w"]) simp

lemma only_ticks_pure: "(\<And>w. snd (m w) = w) \<Longrightarrow> only_ticks m"
  by (simp add: only_ticks_def tick_self)

lemma only_ticks_return [frame]: "only_ticks (io_return x)"
  by (rule only_ticks_pure) (simp add: io_return_def)

lemma only_ticks_throw [frame]: "only_ticks (io_throw e)"
  by (rule only_ticks_pure) (simp add: io_throw_def)

lemma only_ticks_lift [frame]: "only_ticks (io_lift r)"
  by (rule only_ticks_pure) (simp add: io_lift_def)

lemma only_ticks_bind [frame]:
  assumes "only_ticks m" and "\<And>x. only_ticks (f x)"
  shows "only_ticks (io_bind m f)"
  unfolding only_ticks_def
proof
  fix w
  from assms(1) obtain n where n: "snd (m w) = w\<lparr>tick := n\<rparr>" unfolding only_ticks_def by blast
  show "\<exists>k. snd (io_bind m f w) = w\<lparr>tick := k\<rparr>"
  proof (cases "fst (m w)")
    case (Inl e)
    with n show ?thesis by (cases "m w") (auto simp: io_bind_def)
  next
    case (Inr x)
    from assms(2)[of x] obtain k where "snd (f x (w\<lparr>tick := n\<rparr>)) = w\<lparr>tick := n\<rparr>\<lparr>tick := k\<rparr>"
      unfolding only_ticks_def by blast
    with Inr n show ?thesis by (cases "m w") (auto simp: io_bind_def)
  qed
qed

lemma only_ticks_then [frame]: "only_ticks m \<Longrightarrow> only_ticks n \<Longrightarrow> only_ticks (io_then m n)"
  unfolding io_then_def by (rule only_ticks_bind)

lemma only_ticks_catch [frame]:
  assumes "only_ticks m" and "\<And>e. only_ticks (h e)"
  shows "only_ticks (io_catch m h)"
  unfolding only_ticks_def
proof
  fix w
  from assms(1) obtain n where n: "snd (m w) = w\<lparr>tick := n\<rparr>" unfolding only_ticks_def by blast
  show "\<exists>k. snd (io_catch m h w) = w\<lparr>tick := k\<rparr>"
  proof (cases "fst (m w)")
    case (Inr x)
    with n show ?thesis by (cases "m w") (auto simp: io_catch_def)
  next
    case (Inl e)
    from assms(2)[of e] obtain k where "snd (h e (w\<lparr>tick := n\<rparr>)) = w\<lparr>tick := n\<rparr>\<lparr>tick := k\<rparr>"
      unfolding only_ticks_def by blast
    with Inl n show ?thesis by (cases "m w") (auto simp: io_catch_def)
  qed
qed

lemma only_ticks_if [frame]: "only_ticks m \<Longrightarrow> only_ticks n \<Longrightarrow> only_ticks (if b then m else n)"
  by simp

lemma only_ticks_case_option [frame]:
  "only_ticks m \<Longrightarrow> (\<And>x. only_ticks (f x)) \<Longrightarrow> only_ticks (case v of None \<Rightarrow> m | Some x \<Rightarrow> f x)"
  by (cases v) simp_all

lemma only_ticks_sequence [frame]: "(\<And>m. m \<in> set ms \<Longrightarrow> only_ticks m) \<Longrightarrow> only_ticks (io_sequence ms)"
  by (induction ms) (auto intro!: frame)

lemma only_ticks_foreach [frame]: "(\<And>x. only_ticks (body x)) \<Longrightarrow> only_ticks (io_foreach xs body)"
  by (induction xs) (auto intro!: frame)

lemma only_ticks_prims [frame]:
  "only_ticks Math_random" "only_ticks getFullYear" "only_ticks (execAsync c)"
  "only_ticks (chat_completions_create p)"
  by (auto simp: only_ticks_def Math_random_def getFullYear_def execAsync_def
      chat_completions_create_def next_tick_def)

lemma only_ticks_generateId [frame]: "only_ticks generateId"
  unfolding generateId_def
  by (rule only_ticks_bind) (auto intro!: frame only_ticks_pure)

lemma only_ticks_literals [frame]:
  "only_ticks (text_block c v)" "only_ticks (button_block t h v)" "only_ticks (image_block s a)"
  "only_ticks (copyright_block st)" "only_ticks (data_text_block d k v)" "only_ticks (data_list_item t' d' x)"
  unfolding text_block_def button_block_def image_block_def copyright_block_def
    data_text_block_def data_list_item_def
  by (intro frame)+

lemma only_ticks_array_map [frame]: "(\<And>x. only_ticks (f x)) \<Longrightarrow> only_ticks (array_map e v f)"
  unfolding array_map_def
  by (auto intro!: frame split: option.splits json.splits)

lemma only_ticks_data_list_block [frame]: "only_ticks (data_list_block d k t' d' l)"
  unfolding data_list_block_def by (intro frame)

lemma only_ticks_section_literal [frame]:
  "(\<And>m. m \<in> set bs \<Longrightarrow> only_ticks m) \<Longrightarrow> only_ticks (section_literal t bs)"
  unfolding section_literal_def by (intro frame) auto

lemma only_ticks_buildHomePage [frame]: "only_ticks (buildHomePage this s d)"
  unfolding buildHomePage_def Let_def
  by (intro frame) (auto intro!: frame)

lemma only_ticks_contactSections [frame]: "only_ticks (contactSections s)"
  unfolding contactSections_def
  by (intro frame) (auto intro!: frame)

lemma only_ticks_createFallbackHomePage [frame]: "only_ticks (createFallbackHomePage this s)"
  unfolding createFallbackHomePage_def by (rule only_ticks_buildHomePage)

lemma only_ticks_generateFallbackContent [frame]: "only_ticks (generateFallbackContent this s)"
  unfolding generateFallbackContent_def Let_def by (intro frame)

lemma only_ticks_generateContactPage [frame]: "only_ticks (generateContactPage this s)"
  unfolding generateContactPage_def by (intro frame)

lemma only_ticks_generateHomePage [frame]: "only_ticks (generateHomePage this s)"
  unfolding generateHomePage_def Let_def
proof (intro frame)
  fix x
  show "only_ticks (\<lambda>w. case JSON_parse w (or_default x []) of
              Inl e \<Rightarrow> createFallbackHomePage this s w
            | Inr data \<Rightarrow> buildHomePage this s data w)"
    unfolding only_ticks_def
  proof
    fix w
    show "\<exists>n. snd (case JSON_parse w (or_default x []) of
              Inl e \<Rightarrow> createFallbackHomePage this s w
            | Inr data \<Rightarrow> buildHomePage this s data w) = w\<lparr>tick := n\<rparr>"
      using only_ticks_createFallbackHomePage[of this s] only_ticks_buildHomePage[of this s]
      by (cases "JSON_parse w (or_default x [])") (auto simp: only_ticks_def)
  qed
qed

lemma only_ticks_generateSiteContent [frame]: "only_ticks (generateSiteContent this s)"
  unfolding generateSiteContent_def by (intro frame)

lemma keeps_return [kept]: "keeps P (io_return x)"
  by (simp add: keeps_def io_return_def)

lemma keeps_throw [kept]: "keeps P (io_throw e)"
  by (simp add: keeps_def io_throw_def)

lemma keeps_lift [kept]: "keeps P (io_lift r)"
  by (simp add: keeps_def io_lift_def)

lemma keeps_bind [kept]:
  assumes "keeps P m" and "\<And>x. keeps P (f x)"
  shows "keeps P (io_bind m f)"
  unfolding keeps_def
proof (intro allI impI)
  fix w assume "P w"
  with assms(1) have 1: "P (snd (m w))" by (simp add: keeps_def)
  show "P (snd (io_bind m f w))"
  proof (cases "m w")
    case (Pair r w1)
    with 1 assms(2) show ?thesis
      by (cases r) (auto simp: io_bind_def keeps_def)
  qed
qed

lemma keeps_then [kept]: "keeps P m \<Longrightarrow> keeps P n \<Longrightarrow> keeps P (io_then m n)"
  unfolding io_then_def by (rule keeps_bind)

lemma keeps_catch [kept]:
  assumes "keeps P m" and "\<And>e. keeps P (h e)"
  shows "keeps P (io_catch m h)"
  unfolding keeps_def
proof (intro allI impI)
  fix w assume "P w"
  with assms(1) have 1: "P (snd (m w))" by (simp add: keeps_def)
  show "P (snd (io_catch m h w))"
  proof (cases "m w")
    case (Pair r w1)
    with 1 assms(2) show ?thesis
      by (cases r) (auto simp: io_catch_def keeps_def)
  qed
qed

lemma keeps_if [kept]: "keeps P m \<Longrightarrow> keeps P n \<Longrightarrow> keeps P (if b then m else n)"
  by simp

lemma keeps_case_option [kept]:
  "keeps P m \<Longrightarrow> (\<And>x. keeps P (f x)) \<Longrightarrow> keeps P (case v of None \<Rightarrow> m | Some x \<Rightarrow> f x)"
  by (cases v) simp_all

lemma keeps_foreach [kept]: "(\<And>x. keeps P (body x)) \<Longrightarrow> keeps P (io_foreach xs body)"
  by (induction xs) (auto intro!: kept)

lemma only_ticks_keeps:
  assumes "only_ticks m" and "\<And>w n. P (w\<lparr>tick := n\<rparr>) = P w"
  shows "keeps P m"
  unfolding keeps_def
proof (intro allI impI)
  fix w assume "P w"
  from assms(1) obtain n where "snd (m w) = w\<lparr>tick := n\<rparr>" unfolding only_ticks_def by blast
  with assms(2) \<open>P w\<close> show "P (snd (m w))" by simp
qed

lemma keeps_addJobLog [kept]: "(\<And>w l. P (w\<lparr>job_logs := l\<rparr>) = P w) \<Longrightarrow> keeps P (addJobLog j msg)"
  by (simp add: keeps_def addJobLog_def)

lemma keeps_finds [kept]:
  "keeps P (site_findUnique i)" "keeps P (siteVersion_findFirst_desc sid)"
  "keeps P (siteVersion_findUnique i)" "keeps P (stripeSubscription_findFirst wh)"
  by (simp_all add: keeps_def site_findUnique_def siteVersion_findFirst_desc_def
      siteVersion_findUnique_def stripeSubscription_findFirst_def)

lemma keeps_site_update [kept]: "(\<And>w l. P (w\<lparr>sites := l\<rparr>) = P w) \<Longrightarrow> keeps P (site_update i f)"
  by (simp add: keeps_def site_update_def split: option.splits)

lemma keeps_siteVersion_create:
  "(\<And>w n. P (w\<lparr>tick := n\<rparr>) = P w) \<Longrightarrow> (\<And>w l. P (w\<lparr>siteVersions := l\<rparr>) = P w)
     \<Longrightarrow> keeps P (siteVersion_create sid n c)"
  by (simp add: keeps_def siteVersion_create_def next_tick_def Let_def)

section \<open>What the services and the handlers leave alone\<close>

lemma only_ticks_runWpCli [frame]: "only_ticks (runWpCli this c)"
  unfolding runWpCli_def Let_def by (intro frame)

lemma only_ticks_provisionSite [frame]: "only_ticks (provisionSite this site)"
  unfolding provisionSite_def Let_def by (intro frame)

lemma only_ticks_applyThemeAndPlugins [frame]: "only_ticks (applyThemeAndPlugins this n)"
  unfolding applyThemeAndPlugins_def Let_def by (intro frame)

lemma only_ticks_compile_calls [frame]:
  "only_ticks (compilePageToHtml_call this p c)" "only_ticks (compilePageToGutenberg_call this p c)"
  by (rule only_ticks_pure, simp add: page_html_call_eq[where this' = this])
    (rule only_ticks_pure, simp add: page_gutenberg_call_eq[where this' = this])

lemma only_ticks_publishPage [frame]: "only_ticks (publishPage this u a p)"
  unfolding publishPage_def by (intro frame)

lemma only_ticks_publishVersion [frame]: "only_ticks (publishVersion this n c)"
  unfolding publishVersion_def Let_def by (intro frame)

text \<open>What the services do not write, the handlers keep.\<close>

lemma keeps_services [kept]:
  assumes "\<And>w n. P (w\<lparr>tick := n\<rparr>) = P w"
  shows "keeps P (provisionSite ws site)" "keeps P (applyThemeAndPlugins ws k)"
    "keeps P (publishVersion ws k c)" "keeps P (generateSiteContent ai s)"
  using assms by (auto intro!: only_ticks_keeps frame)

lemma keeps_handleGenerate:
  assumes "\<And>w n. P (w\<lparr>tick := n\<rparr>) = P w" and "\<And>w l. P (w\<lparr>job_logs := l\<rparr>) = P w"
    and "\<And>w l. P (w\<lparr>sites := l\<rparr>) = P w" and "\<And>w l. P (w\<lparr>siteVersions := l\<rparr>) = P w"
  shows "keeps P (handleGenerate this job sid md)"
  unfolding handleGenerate_def Let_def
  by (intro kept keeps_siteVersion_create assms)

lemma keeps_handleProvision:
  assumes "\<And>w n. P (w\<lparr>tick := n\<rparr>) = P w" and "\<And>w l. P (w\<lparr>job_logs := l\<rparr>) = P w"
    and "\<And>w l. P (w\<lparr>sites := l\<rparr>) = P w" and "keeps P (handleGenerate this job sid md)"
  shows "keeps P (handleProvision this job sid md)"
  unfolding handleProvision_def
  by (intro kept assms)

lemma keeps_handlePublish:
  assumes "\<And>w n. P (w\<lparr>tick := n\<rparr>) = P w" and "\<And>w l. P (w\<lparr>job_logs := l\<rparr>) = P w"
    and "\<And>w l. P (w\<lparr>sites := l\<rparr>) = P w"
  shows "keeps P (handlePublish this job sid md)"
  unfolding handlePublish_def
  by (intro kept assms)

lemma keeps_handleRollback:
  assumes "\<And>w n. P (w\<lparr>tick := n\<rparr>) = P w" and "\<And>w l. P (w\<lparr>job_logs := l\<rparr>) = P w"
    and "\<And>w l. P (w\<lparr>sites := l\<rparr>) = P w"
  shows "keeps P (handleRollback this job sid md)"
  unfolding handleRollback_def Let_def
  by (intro kept assms)

lemma keeps_dispatch:
  assumes "\<And>w n. P (w\<lparr>tick := n\<rparr>) = P w" and "\<And>w l. P (w\<lparr>job_logs := l\<rparr>) = P w"
    and "\<And>w l. P (w\<lparr>sites := l\<rparr>) = P w"
    and "\<And>job sid md. keeps P (handleGenerate this job sid md)"
  shows "keeps P (dispatch this data)"
  unfolding dispatch_def Let_def
  by (intro kept keeps_handleProvision keeps_handlePublish keeps_handleRollback assms)

lemma dispatch_job_updates: "job_updates (snd (dispatch this data w)) = job_updates w"
proof -
  have "keeps (\<lambda>v. job_updates v = job_updates w) (dispatch this data)"
    by (intro keeps_dispatch keeps_handleGenerate) simp_all
  then show ?thesis by (simp add: keeps_def)
qed

lemma job_state_last:
  assumes "job_updates w = us @ [(job, st, err)]"
  shows "job_state w job = Some (st, err)"
proof -
  have "filter (\<lambda>u. fst u = job) (job_updates w) = filter (\<lambda>u. fst u = job) us @ [(job, st, err)]"
    using assms by simp
  then show ?thesis
    unfolding job_state_def by (cases "filter (\<lambda>u. fst u = job) us") simp_all
qed

section \<open>What the AI service returns\<close>

lemma post_return [posts]: "Q (Inr x) \<Longrightarrow> post (io_return x) Q"
  by (simp add: post_def io_return_def)

lemma post_throw: "Q (Inl e) \<Longrightarrow> post (io_throw e) Q"
  by (simp add: post_def io_throw_def)

lemma post_lift: "Q r \<Longrightarrow> post (io_lift r) Q"
  by (simp add: post_def io_lift_def)

lemma post_weaken: "post m P \<Longrightarrow> (\<And>r. P r \<Longrightarrow> Q r) \<Longrightarrow> post m Q"
  by (simp add: post_def)

lemma post_bind:
  assumes "post m (\<lambda>r. case r of Inl e \<Rightarrow> Q (Inl e) | Inr x \<Rightarrow> post (f x) Q)"
  shows "post (io_bind m f) Q"
  unfolding post_def
proof
  fix w
  from assms have *: "case fst (m w) of Inl e \<Rightarrow> Q (Inl e) | Inr x \<Rightarrow> post (f x) Q"
    by (simp add: post_def)
  show "Q (fst (io_bind m f w))"
  proof (cases "m w")
    case (Pair r w1)
    with * show ?thesis by (cases r) (auto simp: io_bind_def post_def)
  qed
qed

lemma post_catch:
  assumes "post m (\<lambda>r. case r of Inl e \<Rightarrow> post (h e) Q | Inr x \<Rightarrow> Q (Inr x))"
  shows "post (io_catch m h) Q"
  unfolding post_def
proof
  fix w
  from assms have *: "case fst (m w) of Inl e \<Rightarrow> post (h e) Q | Inr x \<Rightarrow> Q (Inr x)"
    by (simp add: post_def)
  show "Q (fst (io_catch m h w))"
  proof (cases "m w")
    case (Pair r w1)
    with * show ?thesis by (cases r) (auto simp: io_catch_def post_def)
  qed
qed

lemma post_returns_bind [posts]:
  assumes "post m returns" and "\<And>x. post (f x) Q"
  shows "post (io_bind m f) Q"
proof (rule post_bind, rule post_weaken[OF assms(1)])
  fix r :: "error + 'a" assume "returns r"
  then show "case r of Inl e \<Rightarrow> Q (Inl e) | Inr x \<Rightarrow> post (f x) Q"
    using assms(2) by (cases r) (simp_all add: returns_def)
qed

lemma returns_Inr [simp]: "returns (Inr x)"
  by (simp add: returns_def)

lemma throws_TypeError_simps [simp]:
  "throws_TypeError (Inl (TypeError msg))" "\<not> throws_TypeError (Inr x)"
  "throws_TypeError (Inl (null_property k))" "throws_TypeError (Inl undefined_map)"
  "throws_TypeError (Inl (not_a_function e))"
  by (simp_all add: throws_TypeError_def null_property_def undefined_map_def not_a_function_def)

lemma throws_TypeError_iff: "throws_TypeError r \<longleftrightarrow> (\<exists>msg. r = Inl (TypeError msg))"
  unfolding throws_TypeError_def by (cases r; simp split: error.splits)

lemma post_throws_bind: "post m throws_TypeError \<Longrightarrow> post (io_bind m f) throws_TypeError"
proof (rule post_bind, erule post_weaken)
  fix r :: "error + 'a" assume "throws_TypeError r"
  then show "case r of Inl e \<Rightarrow> throws_TypeError (Inl e) | Inr x \<Rightarrow> post (f x) throws_TypeError"
    by (cases r) (simp_all add: throws_TypeError_def)
qed

lemma post_sequence [posts]: "(\<And>m. m \<in> set ms \<Longrightarrow> post m returns) \<Longrightarrow> post (io_sequence ms) returns"
  by (induction ms) (auto intro!: posts)

lemma post_sequence_throws_here:
  "post m throws_TypeError \<Longrightarrow> post (io_sequence (m # ms)) throws_TypeError"
  by (simp add: post_throws_bind)

lemma post_sequence_throws_later:
  "post m returns \<Longrightarrow> post (io_sequence ms) throws_TypeError
     \<Longrightarrow> post (io_sequence (m # ms)) throws_TypeError"
  by (simp, rule post_returns_bind, assumption, rule post_throws_bind, assumption)

lemma post_prims [posts]: "post Math_random returns" "post getFullYear returns"
  by (simp_all add: post_def Math_random_def getFullYear_def)

lemma post_generateId [posts]: "post generateId returns"
  unfolding generateId_def by (rule post_returns_bind, rule posts) (simp add: post_def)

lemma post_literals [posts]:
  "post (text_block c v) returns" "post (button_block t h v) returns" "post (image_block s a) returns"
  "post (copyright_block st) returns"
  unfolding text_block_def button_block_def image_block_def copyright_block_def
  by (intro posts returns_Inr)+

lemma post_section_literal [posts]:
  "(\<And>m. m \<in> set bs \<Longrightarrow> post m returns) \<Longrightarrow> post (section_literal t bs) returns"
  unfolding section_literal_def by (intro posts returns_Inr) auto

lemma post_section_literal_throws:
  "post (io_sequence bs) throws_TypeError \<Longrightarrow> post (section_literal t bs) throws_TypeError"
  unfolding section_literal_def
  by (rule post_returns_bind, rule posts, rule post_throws_bind)

text \<open>Reading the reply.\<close>

lemma read_property_returns: "has_properties data \<Longrightarrow> \<exists>v. read_property data key = Inr v"
  by (cases data) (simp_all add: read_property_def)

lemma read_property_null: "\<not> has_properties data \<Longrightarrow> read_property data key = Inl (null_property key)"
  by (cases data) (simp_all add: read_property_def)

lemma post_data_text_block [posts]: "has_properties data \<Longrightarrow> post (data_text_block data key v) returns"
  unfolding data_text_block_def
  using read_property_returns[of data key]
  by (auto intro!: posts post_lift)

lemma post_data_text_block_throws:
  "\<not> has_properties data \<Longrightarrow> post (data_text_block data key v) throws_TypeError"
  unfolding data_text_block_def
  by (rule post_returns_bind, rule posts, rule post_throws_bind, rule post_lift)
    (simp add: read_property_null)

lemma post_data_list_item [posts]: "has_properties x \<Longrightarrow> post (data_list_item t d x) returns"
  unfolding data_list_item_def
  using read_property_returns[of x t] read_property_returns[of x d]
  by (auto intro!: posts post_lift)

lemma post_data_list_item_throws:
  "\<not> has_properties x \<Longrightarrow> post (data_list_item t d x) throws_TypeError"
  unfolding data_list_item_def
  by (rule post_returns_bind, rule posts, rule post_throws_bind, rule post_lift)
    (simp add: read_property_null)

lemma post_items_throw:
  "\<not> list_all has_properties xs \<Longrightarrow> post (io_sequence (map (data_list_item t d) xs)) throws_TypeError"
proof (induction xs)
  case Nil
  then show ?case by simp
next
  case (Cons a xs)
  show ?case
  proof (cases "has_properties a")
    case True
    with Cons.prems have "\<not> list_all has_properties xs" by simp
    then have "post (io_sequence (map (data_list_item t d) xs)) throws_TypeError" by (rule Cons.IH)
    with True show ?thesis
      unfolding list.map by (intro post_sequence_throws_later post_data_list_item)
  next
    case False
    then show ?thesis
      unfolding list.map by (intro post_sequence_throws_here post_data_list_item_throws)
  qed
qed

lemma post_array_map_throws:
  assumes "case v of Some (JArray xs) \<Rightarrow> \<not> list_all has_properties xs | _ \<Rightarrow> True"
  shows "post (array_map e v (data_list_item t d)) throws_TypeError"
proof (cases v)
  case None
  then show ?thesis by (simp add: array_map_def post_throw)
next
  case (Some x)
  with assms show ?thesis
    by (cases x) (simp_all add: array_map_def post_throw post_items_throw)
qed

lemma post_data_list_block_throws:
  assumes "has_properties data" and "\<not> mappable data key"
  shows "post (data_list_block data key t d l) throws_TypeError"
proof -
  from read_property_returns[OF assms(1), of key] obtain v where v: "read_property data key = Inr v" ..
  with assms(2) have "case v of Some (JArray xs) \<Rightarrow> \<not> list_all has_properties xs | _ \<Rightarrow> True"
    by (auto simp: mappable_def elements_def split: option.splits json.splits)
  then have "post (array_map (''data.'' @ key) v (data_list_item t d)) throws_TypeError"
    by (rule post_array_map_throws)
  then have "post (io_bind (array_map (''data.'' @ key) v (data_list_item t d)) f) throws_TypeError" for f :: "ListItem list \<Rightarrow> Block io"
    by (rule post_throws_bind)
  then have inner: "post (io_bind (io_lift (read_property data key)) (\<lambda>v.
      io_bind (array_map (''data.'' @ key) v (data_list_item t d)) f)) throws_TypeError" for f :: "ListItem list \<Rightarrow> Block io"
    by (simp add: v post_def io_bind_def io_lift_def)
  show ?thesis
    unfolding data_list_block_def by (rule post_returns_bind, rule posts, rule inner)
qed

text \<open>Computations that return, and the ticks they take.\<close>

lemma runs_returns: "runs k m \<Longrightarrow> post m returns"
  unfolding runs_def post_def
proof
  fix w assume "\<forall>w. \<exists>x. m w = (Inr x, w\<lparr>tick := tick w + k\<rparr>)"
  then obtain x where "m w = (Inr x, w\<lparr>tick := tick w + k\<rparr>)" by blast
  then show "returns (fst (m w))" by simp
qed

lemma runs_D: "runs k m \<Longrightarrow> \<exists>x. m w = (Inr x, w\<lparr>tick := tick w + k\<rparr>)"
  by (simp add: runs_def)

lemma runs_return: "runs 0 (io_return x)"
  by (simp add: runs_def io_return_def)

lemma runs_bind:
  assumes "runs a m" and "\<And>x. runs b (f x)"
  shows "runs (a + b) (io_bind m f)"
  unfolding runs_def
proof
  fix w
  from runs_D[OF assms(1), of w] obtain x where x: "m w = (Inr x, w\<lparr>tick := tick w + a\<rparr>)" ..
  from runs_D[OF assms(2), of x "w\<lparr>tick := tick w + a\<rparr>"]
  obtain y where "f x (w\<lparr>tick := tick w + a\<rparr>) = (Inr y, w\<lparr>tick := tick w + a\<rparr>\<lparr>tick := tick (w\<lparr>tick := tick w + a\<rparr>) + b\<rparr>)" ..
  with x have "io_bind m f w = (Inr y, w\<lparr>tick := tick w + (a + b)\<rparr>)"
    by (simp add: io_bind_def add.assoc)
  then show "\<exists>y. io_bind m f w = (Inr y, w\<lparr>tick := tick w + (a + b)\<rparr>)" ..
qed

lemma runs_bind_return: "runs a m \<Longrightarrow> runs a (io_bind m (\<lambda>x. io_return (g x)))"
  using runs_bind[of a m 0 "\<lambda>x. io_return (g x)"] by (simp add: runs_return)

lemma runs_Nil: "runs 0 (io_sequence [])"
  by (simp add: runs_return)

lemma runs_Cons: "runs a m \<Longrightarrow> runs b (io_sequence ms) \<Longrightarrow> runs (a + b) (io_sequence (m # ms))"
proof -
  assume m: "runs a m" and ms: "runs b (io_sequence ms)"
  have "runs (a + b) (io_bind m (\<lambda>x. io_bind (io_sequence ms) (\<lambda>xs. io_return (x # xs))))"
    by (rule runs_bind[OF m]) (rule runs_bind_return[OF ms])
  then show ?thesis by simp
qed

lemma runs_generateId: "runs 1 generateId"
  by (simp add: runs_def generateId_def Math_random_def io_bind_def next_tick_def)

lemma runs_literals:
  "runs 1 (text_block c v)" "runs 1 (button_block t h v)" "runs 1 (image_block s a)"
  unfolding text_block_def button_block_def image_block_def
  by (rule runs_bind_return, rule runs_generateId)+

lemma runs_copyright_block: "runs 2 (copyright_block s)"
  by (simp add: runs_def copyright_block_def generateId_def Math_random_def getFullYear_def
      io_bind_def io_return_def next_tick_def)

lemma runs_data_text_block: "has_properties data \<Longrightarrow> runs 1 (data_text_block data key v)"
  using read_property_returns[of data key]
  by (auto simp: runs_def data_text_block_def generateId_def Math_random_def io_lift_def
      io_bind_def io_return_def next_tick_def)

lemma runs_data_list_item: "has_properties x \<Longrightarrow> runs 1 (data_list_item t d x)"
  using read_property_returns[of x t] read_property_returns[of x d]
  by (auto simp: runs_def data_list_item_def generateId_def Math_random_def io_lift_def
      io_bind_def io_return_def next_tick_def)

lemma runs_items:
  "list_all has_properties xs \<Longrightarrow> runs (length xs) (io_sequence (map (data_list_item t d) xs))"
proof (induction xs)
  case Nil
  then show ?case by (simp add: runs_return)
next
  case (Cons a xs)
  from Cons.prems have a: "has_properties a" and xs: "list_all has_properties xs" by simp_all
  have "runs 1 (data_list_item t d a)" by (rule runs_data_list_item[OF a])
  moreover have "runs (length xs) (io_sequence (map (data_list_item t d) xs))" by (rule Cons.IH[OF xs])
  ultimately have "runs (1 + length xs) (io_sequence (data_list_item t d a # map (data_list_item t d) xs))"
    by (rule runs_Cons)
  then show ?case by simp
qed

lemma runs_data_list_block:
  assumes "elements data key = Some xs" and "list_all has_properties xs"
  shows "runs (Suc (length xs)) (data_list_block data key t d l)"
proof -
  from assms(1) have v: "read_property data key = Inr (Some (JArray xs))"
    by (auto simp: elements_def split: sum.splits option.splits json.splits)
  have "runs (length xs) (io_bind (array_map (''data.'' @ key) (Some (JArray xs)) (data_list_item t d))
      (\<lambda>its. io_return \<lparr>block_id = i, block_type = ''list'', block_props = ListProps its l\<rparr>))" for i
    unfolding array_map_def by (simp, rule runs_bind_return, rule runs_items[OF assms(2)])
  then have "runs (length xs) (io_bind (io_lift (read_property data key)) (\<lambda>v.
      io_bind (array_map (''data.'' @ key) v (data_list_item t d))
      (\<lambda>its. io_return \<lparr>block_id = i, block_type = ''list'', block_props = ListProps its l\<rparr>)))" for i
    by (simp add: v runs_def io_bind_def io_lift_def)
  then have "runs (1 + length xs) (data_list_block data key t d l)"
    unfolding data_list_block_def by (rule runs_bind[OF runs_generateId])
  then show ?thesis by simp
qed

lemma runs_section_literal: "runs k (io_sequence bs) \<Longrightarrow> runs (Suc k) (section_literal t bs)"
proof -
  assume "runs k (io_sequence bs)"
  then have "runs (1 + k) (section_literal t bs)"
    unfolding section_literal_def by (intro runs_bind runs_generateId runs_bind_return)
  then show ?thesis by simp
qed

lemma runs_contactSections: "runs 9 (contactSections s)"
proof -
  have "runs (Suc (1 + (1 + (1 + (1 + (1 + 0))))) + (Suc (2 + 0) + 0)) (contactSections s)"
    unfolding contactSections_def
    by (intro runs_Cons runs_Nil runs_section_literal runs_literals runs_copyright_block)
  then show ?thesis by simp
qed

lemma runs_buildHomePage:
  assumes "has_properties data"
    and "elements data ''services'' = Some xs" and "list_all has_properties xs"
    and "elements data ''testimonials'' = Some ys" and "list_all has_properties ys"
  shows "runs (23 + length xs + length ys) (buildHomePage this s data)"
proof -
  note blocks = runs_literals runs_copyright_block runs_data_text_block[OF assms(1)]
    runs_data_list_block[OF assms(2,3)] runs_data_list_block[OF assms(4,5)]
  have "runs (Suc (1 + (1 + (1 + (1 + 0))))
            + (Suc (1 + (1 + (1 + 0)))
            + (Suc (1 + (Suc (length xs) + 0))
            + (Suc (1 + (Suc (length ys) + 0))
            + (Suc (1 + (1 + (1 + (1 + 0))))
            + (Suc (2 + 0) + 0))))))
          (buildHomePage this s data)"
    unfolding buildHomePage_def Let_def
    by (intro runs_bind_return runs_Cons runs_Nil runs_section_literal blocks)
  moreover have "Suc (1 + (1 + (1 + (1 + 0))))
            + (Suc (1 + (1 + (1 + 0)))
            + (Suc (1 + (Suc (length xs) + 0))
            + (Suc (1 + (Suc (length ys) + 0))
            + (Suc (1 + (1 + (1 + (1 + 0))))
            + (Suc (2 + 0) + 0))))) = 23 + length xs + length ys"
    by simp
  ultimately show ?thesis by (simp only:)
qed

lemma buildable_D:
  assumes "buildable data"
  obtains xs ys where "has_properties data"
    "elements data ''services'' = Some xs" "list_all has_properties xs"
    "elements data ''testimonials'' = Some ys" "list_all has_properties ys"
  using assms by (auto simp: buildable_def mappable_def split: option.splits)

lemma fallbackData_elements:
  "has_properties (fallbackData s)"
  "\<exists>xs. elements (fallbackData s) ''services'' = Some xs \<and> list_all has_properties xs \<and> length xs = 3"
  "\<exists>ys. elements (fallbackData s) ''testimonials'' = Some ys \<and> list_all has_properties ys \<and> length ys = 2"
  by (simp_all add: fallbackData_def elements_def read_property_def)

lemma buildable_fallbackData: "buildable (fallbackData s)"
  using fallbackData_elements[of s] by (auto simp: buildable_def mappable_def)

lemma runs_createFallbackHomePage: "runs 28 (createFallbackHomePage this s)"
proof -
  from fallbackData_elements[of s] obtain xs ys where
    "has_properties (fallbackData s)"
    "elements (fallbackData s) ''services'' = Some xs" "list_all has_properties xs" "length xs = 3"
    "elements (fallbackData s) ''testimonials'' = Some ys" "list_all has_properties ys" "length ys = 2"
    by blast
  with runs_buildHomePage[of "fallbackData s" xs ys this s] show ?thesis
    by (simp add: createFallbackHomePage_def)
qed

lemma runs_generateFallbackContent: "runs 37 (generateFallbackContent this s)"
proof -
  have "runs (28 + 9) (generateFallbackContent this s)"
    unfolding generateFallbackContent_def Let_def
    by (intro runs_bind runs_createFallbackHomePage runs_bind_return runs_contactSections)
  then show ?thesis by simp
qed

text \<open>The home page: built, or a TypeError.\<close>

lemma post_built:
  "post (io_bind m (\<lambda>sections. io_return \<lparr>page_title = a, page_slug = b, page_sections = sections\<rparr>))
     (\<lambda>r. case r of Inl e \<Rightarrow> True | Inr p \<Rightarrow> page_title p = a \<and> page_slug p = b)"
  unfolding post_def
proof
  fix w
  show "case fst (io_bind m (\<lambda>sections. io_return \<lparr>page_title = a, page_slug = b, page_sections = sections\<rparr>) w) of
      Inl e \<Rightarrow> True | Inr p \<Rightarrow> page_title p = a \<and> page_slug p = b"
    by (cases "m w"; cases "fst (m w)") (simp_all add: io_bind_def io_return_def)
qed

lemma post_buildHomePage:
  "post (buildHomePage this s data)
     (\<lambda>r. case r of Inl e \<Rightarrow> True | Inr p \<Rightarrow> page_title p = ''Home'' \<and> page_slug p = ''home'')"
  unfolding buildHomePage_def Let_def by (rule post_built)

lemma post_buildHomePage_throws:
  assumes "\<not> buildable data"
  shows "post (buildHomePage this s data) throws_TypeError"
proof -
  consider (null) "\<not> has_properties data"
    | (services) "has_properties data" "\<not> mappable data ''services''"
    | (testimonials) "has_properties data" "mappable data ''services''" "\<not> mappable data ''testimonials''"
    using assms by (auto simp: buildable_def)
  then show ?thesis
  proof cases
    case null
    show ?thesis
      unfolding buildHomePage_def Let_def
      by (intro post_throws_bind post_sequence_throws_here post_section_literal_throws
          post_data_text_block_throws null)
  next
    case services
    note returning = post_literals post_data_text_block[OF services(1)]
    show ?thesis
      unfolding buildHomePage_def Let_def
      apply (rule post_throws_bind)
      apply (rule post_sequence_throws_later, rule post_section_literal, simp, (elim disjE; simp add: returning))
      apply (rule post_sequence_throws_later, rule post_section_literal, simp, (elim disjE; simp add: returning))
      apply (rule post_sequence_throws_here, rule post_section_literal_throws)
      apply (rule post_sequence_throws_later, rule returning)
      apply (rule post_sequence_throws_here)
      apply (rule post_data_list_block_throws[OF services])
      done
  next
    case testimonials
    from testimonials(2) obtain xs where xs: "elements data ''services'' = Some xs" "list_all has_properties xs"
      by (auto simp: mappable_def split: option.splits)
    note returning = post_literals post_data_text_block[OF testimonials(1)]
      runs_returns[OF runs_data_list_block[OF xs]]
    show ?thesis
      unfolding buildHomePage_def Let_def
      apply (rule post_throws_bind)
      apply (rule post_sequence_throws_later, rule post_section_literal, simp, (elim disjE; simp add: returning))
      apply (rule post_sequence_throws_later, rule post_section_literal, simp, (elim disjE; simp add: returning))
      apply (rule post_sequence_throws_later, rule post_section_literal, simp, (elim disjE; simp add: returning))
      apply (rule post_sequence_throws_here, rule post_section_literal_throws)
      apply (rule post_sequence_throws_later, rule returning)
      apply (rule post_sequence_throws_here)
      apply (rule post_data_list_block_throws[OF testimonials(1,3)])
      done
  qed
qed

lemma post_contactSections [posts]: "post (contactSections s) returns"
  by (rule runs_returns[OF runs_contactSections])

lemma post_generateContactPage:
  "post (generateContactPage this s) (\<lambda>r. \<exists>p. r = Inr p \<and> page_title p = ''Contact'' \<and> page_slug p = ''contact'')"
  unfolding generateContactPage_def
  by (rule post_returns_bind[OF post_contactSections]) (simp add: post_def io_return_def)

lemma post_createFallbackHomePage:
  "post (createFallbackHomePage this s)
     (\<lambda>r. \<exists>p. r = Inr p \<and> page_title p = ''Home'' \<and> page_slug p = ''home'')"
  unfolding post_def
proof
  fix w
  from runs_D[OF runs_createFallbackHomePage, of this s w]
  obtain p where p: "createFallbackHomePage this s w = (Inr p, w\<lparr>tick := tick w + 28\<rparr>)" ..
  from post_buildHomePage[of this s "fallbackData s"]
  have "case fst (createFallbackHomePage this s w) of
      Inl e \<Rightarrow> True | Inr p \<Rightarrow> page_title p = ''Home'' \<and> page_slug p = ''home''"
    unfolding createFallbackHomePage_def post_def by blast
  with p show "\<exists>p. fst (createFallbackHomePage this s w) = Inr p \<and> page_title p = ''Home'' \<and> page_slug p = ''home''"
    by simp
qed

lemma post_generateFallbackContent: "post (generateFallbackContent this s) (home_and_contact s)"
  unfolding generateFallbackContent_def Let_def
proof (rule post_bind, rule post_weaken[OF post_createFallbackHomePage])
  fix r :: "error + Page"
  assume "\<exists>p. r = Inr p \<and> page_title p = ''Home'' \<and> page_slug p = ''home''"
  then obtain p where p: "r = Inr p" "page_title p = ''Home''" "page_slug p = ''home''" by blast
  have "post (io_bind (contactSections s) (\<lambda>sections. io_return
           \<lparr>content_pages = [p, \<lparr>page_title = ''Contact'', page_slug = ''contact'', page_sections = sections\<rparr>],
            content_settings = s\<rparr>)) (home_and_contact s)"
    by (rule post_returns_bind[OF post_contactSections]) (simp add: post_def io_return_def home_and_contact_def p)
  with p show "case r of Inl e \<Rightarrow> home_and_contact s (Inl e)
      | Inr homePage \<Rightarrow> post (io_bind (contactSections s) (\<lambda>sections. io_return
           \<lparr>content_pages = [homePage, \<lparr>page_title = ''Contact'', page_slug = ''contact'', page_sections = sections\<rparr>],
            content_settings = s\<rparr>)) (home_and_contact s)"
    by simp
qed

lemma generateHomePage_eq:
  "generateHomePage this s w =
     (case openai_outcome w (tick w) (homePagePrompt s) of
        Inl e \<Rightarrow> (Inl e, next_tick w)
      | Inr reply \<Rightarrow>
          (case JSON_parse w (or_default reply []) of
             Inl e \<Rightarrow> createFallbackHomePage this s (next_tick w)
           | Inr data \<Rightarrow> buildHomePage this s data (next_tick w)))"
  by (simp add: generateHomePage_def io_bind_def chat_completions_create_def Let_def next_tick_def
      split: sum.splits)

lemma post_generateHomePage:
  "post (generateHomePage this s)
     (\<lambda>r. case r of Inl e \<Rightarrow> True | Inr p \<Rightarrow> page_title p = ''Home'' \<and> page_slug p = ''home'')"
  unfolding post_def
proof
  fix w
  from post_buildHomePage[of this s] have b: "\<And>d v. case fst (buildHomePage this s d v) of
      Inl e \<Rightarrow> True | Inr p \<Rightarrow> page_title p = ''Home'' \<and> page_slug p = ''home''"
    by (simp add: post_def)
  from post_createFallbackHomePage[of this s]
  have c: "\<And>v. \<exists>p. fst (createFallbackHomePage this s v) = Inr p
      \<and> page_title p = ''Home'' \<and> page_slug p = ''home''"
    by (simp add: post_def)
  show "case fst (generateHomePage this s w) of
          Inl e \<Rightarrow> True | Inr p \<Rightarrow> page_title p = ''Home'' \<and> page_slug p = ''home''"
  proof (cases "openai_outcome w (tick w) (homePagePrompt s)")
    case (Inl e)
    then show ?thesis by (simp add: generateHomePage_eq)
  next
    case reply: (Inr reply)
    show ?thesis
    proof (cases "JSON_parse w (or_default reply [])")
      case (Inl e)
      with reply c[of "next_tick w"] show ?thesis by (auto simp: generateHomePage_eq)
    next
      case (Inr d)
      with reply b[of d "next_tick w"] show ?thesis by (simp add: generateHomePage_eq)
    qed
  qed
qed

lemma try_block_eq:
  "openai this \<noteq> None \<Longrightarrow> generateSiteContent this s = io_catch
          (io_bind (generateHomePage this s) (\<lambda>homePage.
           io_bind (generateContactPage this s) (\<lambda>contactPage.
             io_return \<lparr>content_pages = [homePage, contactPage], content_settings = s\<rparr>)))
          (\<lambda>error. generateFallbackContent this s)"
  unfolding generateSiteContent_def by (rule if_not_P)

lemma post_generateSiteContent: "post (generateSiteContent this s) (home_and_contact s)"
proof (cases "openai this = None")
  case True
  then show ?thesis by (simp add: generateSiteContent_def post_generateFallbackContent)
next
  case False
  have "post (io_catch
          (io_bind (generateHomePage this s) (\<lambda>homePage.
           io_bind (generateContactPage this s) (\<lambda>contactPage.
             io_return \<lparr>content_pages = [homePage, contactPage], content_settings = s\<rparr>)))
          (\<lambda>error. generateFallbackContent this s)) (home_and_contact s)"
  proof (rule post_catch, rule post_bind, rule post_weaken[OF post_generateHomePage])
    fix r :: "error + Page"
    assume r: "case r of Inl e \<Rightarrow> True | Inr p \<Rightarrow> page_title p = ''Home'' \<and> page_slug p = ''home''"
    show "case r of
        Inl e \<Rightarrow> (case Inl e of Inl e \<Rightarrow> post (generateFallbackContent this s) (home_and_contact s)
                   | Inr x \<Rightarrow> home_and_contact s (Inr x))
      | Inr homePage \<Rightarrow>
          post (io_bind (generateContactPage this s) (\<lambda>contactPage.
             io_return \<lparr>content_pages = [homePage, contactPage], content_settings = s\<rparr>))
           (\<lambda>r. case r of Inl e \<Rightarrow> post (generateFallbackContent this s) (home_and_contact s)
                 | Inr x \<Rightarrow> home_and_contact s (Inr x))"
    proof (cases r)
      case (Inl e)
      then show ?thesis by (simp add: post_generateFallbackContent)
    next
      case (Inr homePage)
      with r have h: "page_title homePage = ''Home''" "page_slug homePage = ''home''" by simp_all
      have "post (io_bind (generateContactPage this s) (\<lambda>contactPage.
             io_return \<lparr>content_pages = [homePage, contactPage], content_settings = s\<rparr>))
           (\<lambda>r. case r of Inl e \<Rightarrow> post (generateFallbackContent this s) (home_and_contact s)
                 | Inr x \<Rightarrow> home_and_contact s (Inr x))"
      proof (rule post_bind, rule post_weaken[OF post_generateContactPage])
        fix r' :: "error + Page"
        assume "\<exists>p. r' = Inr p \<and> page_title p = ''Contact'' \<and> page_slug p = ''contact''"
        then show "case r' of
            Inl e \<Rightarrow> (case Inl e of Inl e \<Rightarrow> post (generateFallbackContent this s) (home_and_contact s)
                       | Inr x \<Rightarrow> home_and_contact s (Inr x))
          | Inr contactPage \<Rightarrow>
              post (io_return \<lparr>content_pages = [homePage, contactPage], content_settings = s\<rparr>)
                (\<lambda>r. case r of Inl e \<Rightarrow> post (generateFallbackContent this s) (home_and_contact s)
                      | Inr x \<Rightarrow> home_and_contact s (Inr x))"
          using h by (auto simp: post_def io_return_def home_and_contact_def)
      qed
      with Inr show ?thesis by simp
    qed
  qed
  with try_block_eq[OF False, of s] show ?thesis by simp
qed

lemma io_bind_assoc: "io_bind (io_bind m f) g = io_bind m (\<lambda>x. io_bind (f x) g)"
  by (rule ext) (simp add: io_bind_def split: prod.splits sum.splits)

lemma io_bind_return: "io_bind (io_return x) f = f x"
  by (rule ext) (simp add: io_bind_def io_return_def)

lemma io_catch_returns: "returns (fst (m w)) \<Longrightarrow> io_catch m h w = m w"
  by (cases "m w") (auto simp: io_catch_def returns_def split: sum.splits)

lemma home_and_contact_returns: "home_and_contact s r \<Longrightarrow> returns r"
  by (auto simp: home_and_contact_def)

lemma fallback_returns: "returns (fst (generateFallbackContent this s w))"
  using post_generateFallbackContent[of this s] unfolding post_def
  by (blast intro: home_and_contact_returns)

lemma contact_inlined:
  "io_bind (generateContactPage this s) (\<lambda>contactPage.
       io_return \<lparr>content_pages = [homePage, contactPage], content_settings = s\<rparr>)
   = io_bind (contactSections s) (\<lambda>sections.
       io_return \<lparr>content_pages = [homePage,
          \<lparr>page_title = ''Contact'', page_slug = ''contact'', page_sections = sections\<rparr>],
          content_settings = s\<rparr>)"
  by (simp add: generateContactPage_def io_bind_assoc io_bind_return)

lemma try_block_after_fallback_home:
  assumes "generateHomePage this s w = createFallbackHomePage this s v"
  shows "io_bind (generateHomePage this s) (\<lambda>homePage.
           io_bind (generateContactPage this s) (\<lambda>contactPage.
             io_return \<lparr>content_pages = [homePage, contactPage], content_settings = s\<rparr>)) w
         = generateFallbackContent this s v"
  using assms
  by (simp add: contact_inlined generateFallbackContent_def Let_def io_bind_def)

lemma fallen_back:
  assumes "openai this \<noteq> None"
  shows "openai_outcome w (tick w) (homePagePrompt s) = Inl e
           \<Longrightarrow> generateSiteContent this s w = generateFallbackContent this s (next_tick w)"
    and "openai_outcome w (tick w) (homePagePrompt s) = Inr reply
           \<Longrightarrow> JSON_parse w (or_default reply []) = Inl e
           \<Longrightarrow> generateSiteContent this s w = generateFallbackContent this s (next_tick w)"
    and "openai_outcome w (tick w) (homePagePrompt s) = Inr reply
           \<Longrightarrow> JSON_parse w (or_default reply []) = Inr data
           \<Longrightarrow> buildHomePage this s data (next_tick w) = (Inl e, w')
           \<Longrightarrow> generateSiteContent this s w = generateFallbackContent this s w'"
proof -
  note eq = try_block_eq[OF assms, of s]
  show "generateSiteContent this s w = generateFallbackContent this s (next_tick w)"
    if "openai_outcome w (tick w) (homePagePrompt s) = Inl e"
    using that by (simp add: eq io_catch_def io_bind_def generateHomePage_eq)
  show "generateSiteContent this s w = generateFallbackContent this s w'"
    if "openai_outcome w (tick w) (homePagePrompt s) = Inr reply"
      and "JSON_parse w (or_default reply []) = Inr data"
      and "buildHomePage this s data (next_tick w) = (Inl e, w')"
    using that by (simp add: eq io_catch_def io_bind_def generateHomePage_eq)
  show "generateSiteContent this s w = generateFallbackContent this s (next_tick w)"
    if "openai_outcome w (tick w) (homePagePrompt s) = Inr reply"
      and "JSON_parse w (or_default reply []) = Inl e"
  proof -
    from that have "generateHomePage this s w = createFallbackHomePage this s (next_tick w)"
      by (simp add: generateHomePage_eq)
    from try_block_after_fallback_home[OF this]
    have block: "io_bind (generateHomePage this s) (\<lambda>homePage.
           io_bind (generateContactPage this s) (\<lambda>contactPage.
             io_return \<lparr>content_pages = [homePage, contactPage], content_settings = s\<rparr>)) w
         = generateFallbackContent this s (next_tick w)" .
    with fallback_returns[of this s "next_tick w"]
    have "returns (fst (io_bind (generateHomePage this s) (\<lambda>homePage.
           io_bind (generateContactPage this s) (\<lambda>contactPage.
             io_return \<lparr>content_pages = [homePage, contactPage], content_settings = s\<rparr>)) w))"
      by simp
    then have "io_catch (io_bind (generateHomePage this s) (\<lambda>homePage.
           io_bind (generateContactPage this s) (\<lambda>contactPage.
             io_return \<lparr>content_pages = [homePage, contactPage], content_settings = s\<rparr>)))
          (\<lambda>error. generateFallbackContent this s) w
        = io_bind (generateHomePage this s) (\<lambda>homePage.
           io_bind (generateContactPage this s) (\<lambda>contactPage.
             io_return \<lparr>content_pages = [homePage, contactPage], content_settings = s\<rparr>)) w"
      by (rule io_catch_returns)
    with block show ?thesis by (simp add: eq)
  qed
qed

text \<open>The content generated from a reply that a home page can be built from.\<close>

lemma generated_from_reply:
  assumes "openai this \<noteq> None"
    and "openai_outcome w (tick w) (homePagePrompt s) = Inr reply"
    and "JSON_parse w (or_default reply []) = Inr data"
    and "buildHomePage this s data (next_tick w) = (Inr home, w')"
  shows "\<exists>contact. fst (generateSiteContent this s w)
            = Inr \<lparr>content_pages = [home, contact], content_settings = s\<rparr>"
proof -
  from assms(2-4) have home: "generateHomePage this s w = (Inr home, w')"
    by (simp add: generateHomePage_eq)
  from runs_D[OF runs_contactSections, of s w']
  obtain secs where "contactSections s w' = (Inr secs, w'\<lparr>tick := tick w' + 9\<rparr>)" ..
  with home show ?thesis
    by (simp add: try_block_eq[OF assms(1)] io_catch_def contact_inlined io_bind_def io_return_def)
qed

text \<open>Outcomes that are alike in worlds with the same clock.\<close>

named_theorems likes

lemma same_clock_next: "same_clock w v \<Longrightarrow> same_clock (next_tick w) (next_tick v)"
  unfolding same_clock_def next_tick_def
proof
  fix n assume "\<forall>n. date_getFullYear w (tick w + n) = date_getFullYear v (tick v + n)"
  then have "date_getFullYear w (tick w + Suc n) = date_getFullYear v (tick v + Suc n)" ..
  then show "date_getFullYear (w\<lparr>tick := Suc (tick w)\<rparr>) (tick (w\<lparr>tick := Suc (tick w)\<rparr>) + n)
      = date_getFullYear (v\<lparr>tick := Suc (tick v)\<rparr>) (tick (v\<lparr>tick := Suc (tick v)\<rparr>) + n)"
    by simp
qed

lemma same_clock_now: "same_clock w v \<Longrightarrow> date_getFullYear w (tick w) = date_getFullYear v (tick v)"
  unfolding same_clock_def by (drule spec[of _ 0]) simp

lemma alike_return [likes]: "V x y \<Longrightarrow> alike V (io_return x) (io_return y)"
  by (simp add: alike_def io_return_def)

lemma alike_lift [likes]: "alike (=) (io_lift r) (io_lift r)"
  by (cases r) (simp_all add: alike_def io_lift_def)

lemma alike_throw [likes]: "alike V (io_throw e) (io_throw e)"
  by (simp add: alike_def io_throw_def)

lemma alike_bind [likes]:
  assumes "alike U m n" and "\<And>x y. U x y \<Longrightarrow> alike V (f x) (g y)"
  shows "alike V (io_bind m f) (io_bind n g)"
  unfolding alike_def
proof (intro allI impI)
  fix w v assume "same_clock w v"
  with assms(1) have 1: "rel_sum (=) U (fst (m w)) (fst (n v))" "same_clock (snd (m w)) (snd (n v))"
    by (simp_all add: alike_def)
  show "rel_sum (=) V (fst (io_bind m f w)) (fst (io_bind n g v))
      \<and> same_clock (snd (io_bind m f w)) (snd (io_bind n g v))"
  proof (cases "m w")
    case mw: (Pair r w1)
    show ?thesis
    proof (cases "n v")
      case nv: (Pair r' v1)
      with mw 1 have rel: "rel_sum (=) U r r'" and clock: "same_clock w1 v1" by simp_all
      show ?thesis
      proof (cases r)
        case (Inl e)
        with rel have "r' = Inl e" by (cases r') simp_all
        with Inl mw nv clock show ?thesis by (simp add: io_bind_def)
      next
        case (Inr x)
        with rel obtain y where y: "r' = Inr y" "U x y" by (cases r') simp_all
        from assms(2)[OF y(2)] clock
        have "rel_sum (=) V (fst (f x w1)) (fst (g y v1)) \<and> same_clock (snd (f x w1)) (snd (g y v1))"
          by (simp add: alike_def)
        with mw nv Inr y show ?thesis by (simp add: io_bind_def)
      qed
    qed
  qed
qed

lemma alike_Nil [likes]: "alike (list_all2 V) (io_sequence []) (io_sequence [])"
  by (simp add: alike_return)

lemma alike_Cons [likes]:
  assumes "alike V m n" and "alike (list_all2 V) (io_sequence ms) (io_sequence ns)"
  shows "alike (list_all2 V) (io_sequence (m # ms)) (io_sequence (n # ns))"
  unfolding io_sequence.simps
  by (rule alike_bind[OF assms(1)], rule alike_bind[OF assms(2)], rule alike_return) simp

lemma alike_map:
  assumes "\<And>x. alike V (f x) (g x)"
  shows "alike (list_all2 V) (io_sequence (map f xs)) (io_sequence (map g xs))"
proof (induction xs)
  case Nil
  show ?case unfolding list.map by (rule alike_Nil)
next
  case (Cons a xs)
  show ?case unfolding list.map by (rule alike_Cons[OF assms Cons.IH])
qed

lemma alike_generateId [likes]: "alike (\<lambda>i j. True) generateId generateId"
  by (simp add: alike_def generateId_def Math_random_def io_bind_def same_clock_next)

lemma alike_getFullYear [likes]: "alike (=) getFullYear getFullYear"
  by (simp add: alike_def getFullYear_def same_clock_next same_clock_now)

lemma same_items: "list_all2 same_item xs ys \<Longrightarrow> map blank_item xs = map blank_item ys"
  by (induction rule: list_all2_induct) simp_all

lemma same_blocks: "list_all2 same_block xs ys \<Longrightarrow> map blank_block xs = map blank_block ys"
  by (induction rule: list_all2_induct) simp_all

lemma same_sections: "list_all2 same_section xs ys \<Longrightarrow> map blank_section xs = map blank_section ys"
  by (induction rule: list_all2_induct) simp_all

lemma alike_literals [likes]:
  "alike same_block (text_block c v) (text_block c v)"
  "alike same_block (button_block t h v) (button_block t h v)"
  "alike same_block (image_block a b) (image_block a b)"
  unfolding text_block_def button_block_def image_block_def
  by (rule alike_bind[OF alike_generateId], rule alike_return, simp add: blank_block_def)+

lemma alike_copyright_block [likes]: "alike same_block (copyright_block s) (copyright_block s)"
  unfolding copyright_block_def
  by (rule alike_bind[OF alike_generateId], rule alike_bind[OF alike_getFullYear], rule alike_return)
    (simp add: blank_block_def)

lemma alike_data_text_block [likes]:
  "alike same_block (data_text_block data key v) (data_text_block data key v)"
  unfolding data_text_block_def
  by (rule alike_bind[OF alike_generateId], rule alike_bind[OF alike_lift], rule alike_return)
    (simp add: blank_block_def)

lemma alike_data_list_item: "alike same_item (data_list_item t d x) (data_list_item t d x)"
  unfolding data_list_item_def
  by (rule alike_bind[OF alike_generateId], rule alike_bind[OF alike_lift],
      rule alike_bind[OF alike_lift], rule alike_return)
    (simp add: blank_item_def)

lemma alike_array_map:
  "alike (list_all2 same_item) (array_map e v (data_list_item t d)) (array_map e v (data_list_item t d))"
proof (cases v)
  case None
  then show ?thesis by (simp add: array_map_def alike_throw)
next
  case (Some x)
  then show ?thesis
    by (cases x) (simp_all add: array_map_def alike_throw alike_map alike_data_list_item)
qed

lemma alike_data_list_block [likes]:
  "alike same_block (data_list_block data key t d l) (data_list_block data key t d l)"
  unfolding data_list_block_def
proof (rule alike_bind[OF alike_generateId], rule alike_bind[OF alike_lift])
  fix i j :: string and v v' :: "json option"
  assume "v = v'"
  then show "alike same_block
      (io_bind (array_map (''data.'' @ key) v (data_list_item t d))
         (\<lambda>its. io_return \<lparr>block_id = i, block_type = ''list'', block_props = ListProps its l\<rparr>))
      (io_bind (array_map (''data.'' @ key) v' (data_list_item t d))
         (\<lambda>its. io_return \<lparr>block_id = j, block_type = ''list'', block_props = ListProps its l\<rparr>))"
    by (simp, intro alike_bind[OF alike_array_map] alike_return)
      (simp add: blank_block_def same_items)
qed

lemma alike_section_literal [likes]:
  assumes "alike (list_all2 same_block) (io_sequence bs) (io_sequence bs')"
  shows "alike same_section (section_literal t bs) (section_literal t bs')"
  unfolding section_literal_def
  by (rule alike_bind[OF alike_generateId], rule alike_bind[OF assms], rule alike_return)
    (simp add: blank_section_def same_blocks)

lemma alike_contactSections: "alike (list_all2 same_section) (contactSections s) (contactSections s)"
  unfolding contactSections_def by (intro likes)

lemma alike_buildHomePage:
  "alike (\<lambda>p q. blank_page p = blank_page q) (buildHomePage this s data) (buildHomePage this' s data)"
  unfolding buildHomePage_def Let_def
proof (rule alike_bind)
  show "alike (\<lambda>p q. blank_page p = blank_page q)
      (io_return \<lparr>page_title = ''Home'', page_slug = ''home'', page_sections = x\<rparr>)
      (io_return \<lparr>page_title = ''Home'', page_slug = ''home'', page_sections = y\<rparr>)"
    if "list_all2 same_section x y" for x y
    using that by (intro alike_return) (simp add: blank_page_def same_sections)
qed (intro likes)

lemma alike_generateFallbackContent:
  "alike (\<lambda>c c'. without_ids c = without_ids c')
     (generateFallbackContent this s) (generateFallbackContent this' s)"
  unfolding generateFallbackContent_def createFallbackHomePage_def Let_def
proof (rule alike_bind[OF alike_buildHomePage], rule alike_bind[OF alike_contactSections])
  fix p q :: Page and x y :: "Section list"
  assume "blank_page p = blank_page q" and "list_all2 same_section x y"
  then show "alike (\<lambda>c c'. without_ids c = without_ids c')
      (io_return \<lparr>content_pages = [p, \<lparr>page_title = ''Contact'', page_slug = ''contact'', page_sections = x\<rparr>],
                  content_settings = s\<rparr>)
      (io_return \<lparr>content_pages = [q, \<lparr>page_title = ''Contact'', page_slug = ''contact'', page_sections = y\<rparr>],
                  content_settings = s\<rparr>)"
    by (intro alike_return) (simp add: without_ids_def blank_page_def same_sections)
qed

text \<open>The AI service does not touch the job log.\<close>

named_theorems logfree

lemma unlogged_return [logfree]: "unlogged (io_return x)"
  by (simp add: unlogged_def io_return_def)

lemma unlogged_throw [logfree]: "unlogged (io_throw e)"
  by (simp add: unlogged_def io_throw_def)

lemma unlogged_lift [logfree]: "unlogged (io_lift r)"
  by (simp add: unlogged_def io_lift_def)

lemma unlogged_bind [logfree]:
  assumes "unlogged m" and "\<And>x. unlogged (f x)"
  shows "unlogged (io_bind m f)"
  unfolding unlogged_def
proof (intro allI)
  fix w l
  from assms(1) have m: "m (w\<lparr>job_logs := l\<rparr>) = (fst (m w), (snd (m w))\<lparr>job_logs := l\<rparr>)"
    by (simp add: unlogged_def)
  show "io_bind m f (w\<lparr>job_logs := l\<rparr>) = (fst (io_bind m f w), (snd (io_bind m f w))\<lparr>job_logs := l\<rparr>)"
  proof (cases "m w")
    case (Pair r w1)
    show ?thesis
    proof (cases r)
      case (Inl e)
      with Pair m show ?thesis by (simp add: io_bind_def)
    next
      case (Inr x)
      from assms(2)[of x] have "f x (w1\<lparr>job_logs := l\<rparr>) = (fst (f x w1), (snd (f x w1))\<lparr>job_logs := l\<rparr>)"
        by (simp add: unlogged_def)
      with Inr Pair m show ?thesis by (simp add: io_bind_def)
    qed
  qed
qed

lemma unlogged_catch [logfree]:
  assumes "unlogged m" and "\<And>e. unlogged (h e)"
  shows "unlogged (io_catch m h)"
  unfolding unlogged_def
proof (intro allI)
  fix w l
  from assms(1) have m: "m (w\<lparr>job_logs := l\<rparr>) = (fst (m w), (snd (m w))\<lparr>job_logs := l\<rparr>)"
    by (simp add: unlogged_def)
  show "io_catch m h (w\<lparr>job_logs := l\<rparr>) = (fst (io_catch m h w), (snd (io_catch m h w))\<lparr>job_logs := l\<rparr>)"
  proof (cases "m w")
    case (Pair r w1)
    show ?thesis
    proof (cases r)
      case (Inr x)
      with Pair m show ?thesis by (simp add: io_catch_def)
    next
      case (Inl e)
      from assms(2)[of e] have "h e (w1\<lparr>job_logs := l\<rparr>) = (fst (h e w1), (snd (h e w1))\<lparr>job_logs := l\<rparr>)"
        by (simp add: unlogged_def)
      with Inl Pair m show ?thesis by (simp add: io_catch_def)
    qed
  qed
qed

lemma unlogged_if [logfree]: "unlogged m \<Longrightarrow> unlogged n \<Longrightarrow> unlogged (if b then m else n)"
  by simp

lemma unlogged_sequence [logfree]: "(\<And>m. m \<in> set ms \<Longrightarrow> unlogged m) \<Longrightarrow> unlogged (io_sequence ms)"
  by (induction ms) (auto intro!: logfree)

lemma unlogged_prims [logfree]:
  "unlogged Math_random" "unlogged getFullYear" "unlogged (chat_completions_create p)"
  by (simp_all add: unlogged_def Math_random_def getFullYear_def chat_completions_create_def next_tick_def)

lemma unlogged_generateId [logfree]: "unlogged generateId"
  by (simp add: unlogged_def generateId_def Math_random_def io_bind_def next_tick_def)

lemma unlogged_array_map [logfree]: "(\<And>x. unlogged (f x)) \<Longrightarrow> unlogged (array_map e v f)"
  unfolding array_map_def
  by (auto intro!: logfree split: option.splits json.splits)

lemma unlogged_literals [logfree]:
  "unlogged (text_block c v)" "unlogged (button_block t h v)" "unlogged (image_block s a)"
  "unlogged (copyright_block st)" "unlogged (data_text_block d k v)" "unlogged (data_list_item t' d' x)"
  unfolding text_block_def button_block_def image_block_def copyright_block_def
    data_text_block_def data_list_item_def
  by (intro logfree)+

lemma unlogged_data_list_block [logfree]: "unlogged (data_list_block d k t' d' l)"
  unfolding data_list_block_def by (intro logfree)

lemma unlogged_section_literal [logfree]:
  "(\<And>m. m \<in> set bs \<Longrightarrow> unlogged m) \<Longrightarrow> unlogged (section_literal t bs)"
  unfolding section_literal_def by (intro logfree) auto

lemma unlogged_buildHomePage [logfree]: "unlogged (buildHomePage this s d)"
  unfolding buildHomePage_def Let_def
  by (intro logfree) (auto intro!: logfree)

lemma unlogged_contactSections [logfree]: "unlogged (contactSections s)"
  unfolding contactSections_def
  by (intro logfree) (auto intro!: logfree)

lemma unlogged_generateFallbackContent [logfree]: "unlogged (generateFallbackContent this s)"
  unfolding generateFallbackContent_def createFallbackHomePage_def Let_def by (intro logfree)

lemma unlogged_generateContactPage [logfree]: "unlogged (generateContactPage this s)"
  unfolding generateContactPage_def by (intro logfree)

lemma unlogged_generateHomePage [logfree]: "unlogged (generateHomePage this s)"
  unfolding generateHomePage_def Let_def
proof (intro logfree)
  fix x
  show "unlogged (\<lambda>w. case JSON_parse w (or_default x []) of
              Inl e \<Rightarrow> createFallbackHomePage this s w
            | Inr data \<Rightarrow> buildHomePage this s data w)"
    unfolding unlogged_def
  proof (intro allI)
    fix w l
    show "(case JSON_parse (w\<lparr>job_logs := l\<rparr>) (or_default x []) of
              Inl e \<Rightarrow> createFallbackHomePage this s (w\<lparr>job_logs := l\<rparr>)
            | Inr data \<Rightarrow> buildHomePage this s data (w\<lparr>job_logs := l\<rparr>))
        = (fst (case JSON_parse w (or_default x []) of
              Inl e \<Rightarrow> createFallbackHomePage this s w
            | Inr data \<Rightarrow> buildHomePage this s data w),
           (snd (case JSON_parse w (or_default x []) of
              Inl e \<Rightarrow> createFallbackHomePage this s w
            | Inr data \<Rightarrow> buildHomePage this s data w))\<lparr>job_logs := l\<rparr>)"
      using unlogged_buildHomePage[of this s]
      by (cases "JSON_parse w (or_default x [])")
        (simp_all add: unlogged_def createFallbackHomePage_def)
  qed
qed

lemma unlogged_generateSiteContent: "unlogged (generateSiteContent this s)"
  unfolding generateSiteContent_def by (intro logfree)

text \<open>The first id of the fallback content.\<close>

lemma fallback_receiver: "generateFallbackContent this s = generateFallbackContent this' s"
  unfolding generateFallbackContent_def createFallbackHomePage_def buildHomePage_def ..

lemma returns_value: "post m returns \<Longrightarrow> \<exists>x w1. m w = (Inr x, w1)"
  by (cases "m w"; cases "fst (m w)") (auto simp: post_def returns_def dest: spec[of _ w])

lemma generateId_value:
  "generateId w = (Inr (substring (number_toString36 w (math_random w (tick w))) 2 15), next_tick w)"
  by (simp add: generateId_def Math_random_def io_bind_def next_tick_def)

lemma section_literal_id:
  assumes "post (io_sequence bs) returns"
  shows "\<exists>sec w'. section_literal t bs w = (Inr sec, w')
     \<and> section_id sec = substring (number_toString36 w (math_random w (tick w))) 2 15"
proof -
  from returns_value[OF assms, of "next_tick w"]
  obtain bs' w1 where "io_sequence bs (next_tick w) = (Inr bs', w1)" by blast
  then show ?thesis
    by (simp add: section_literal_def io_bind_def generateId_value io_return_def)
qed

lemma first_section_id:
  assumes "post (io_sequence bs) returns" and "post (io_sequence rest) returns"
  shows "\<exists>secs w'. io_sequence (section_literal t bs # rest) w = (Inr secs, w')
     \<and> section_id (hd secs) = substring (number_toString36 w (math_random w (tick w))) 2 15"
proof -
  from section_literal_id[OF assms(1), of t w]
  obtain sec w1 where sec: "section_literal t bs w = (Inr sec, w1)"
    "section_id sec = substring (number_toString36 w (math_random w (tick w))) 2 15"
    by blast
  from returns_value[OF assms(2), of w1]
  obtain secs w2 where "io_sequence rest w1 = (Inr secs, w2)" by blast
  with sec show ?thesis
    by (simp add: io_bind_def io_return_def)
qed

lemma first_section_id_page:
  assumes "post (io_sequence bs) returns" and "post (io_sequence rest) returns"
  shows "\<exists>p w'. io_bind (io_sequence (section_literal t bs # rest))
            (\<lambda>sections. io_return \<lparr>page_title = a, page_slug = b, page_sections = sections\<rparr>) w
          = (Inr p, w')
     \<and> section_id (hd (page_sections p)) = substring (number_toString36 w (math_random w (tick w))) 2 15"
proof -
  from first_section_id[OF assms, of t w]
  obtain secs w1 where "io_sequence (section_literal t bs # rest) w = (Inr secs, w1)"
    "section_id (hd secs) = substring (number_toString36 w (math_random w (tick w))) 2 15"
    by blast
  then show ?thesis by (simp add: io_bind_def io_return_def)
qed

lemma fallback_first_id:
  "\<exists>c w'. generateFallbackContent this s w = (Inr c, w')
     \<and> section_id (hd (page_sections (hd (content_pages c))))
         = substring (number_toString36 w (math_random w (tick w))) 2 15"
proof -
  from fallbackData_elements[of s] obtain xs ys where data:
    "has_properties (fallbackData s)"
    "elements (fallbackData s) ''services'' = Some xs" "list_all has_properties xs"
    "elements (fallbackData s) ''testimonials'' = Some ys" "list_all has_properties ys"
    by blast
  note blocks = runs_literals runs_copyright_block runs_data_text_block[OF data(1)]
    runs_data_list_block[OF data(2,3)] runs_data_list_block[OF data(4,5)]
  have "runs (1 + (1 + (1 + (1 + 0)))) (io_sequence
      [data_text_block (fallbackData s) ''heroHeadline'' ''h1'',
       data_text_block (fallbackData s) ''heroSubheadline'' ''body'',
       button_block ctaText ''#contact'' ''primary'',
       image_block ''/placeholder-hero.jpg'' ''Hero image''])" for ctaText
    by (intro runs_Cons runs_Nil blocks)
  then have hero: "post (io_sequence
      [data_text_block (fallbackData s) ''heroHeadline'' ''h1'',
       data_text_block (fallbackData s) ''heroSubheadline'' ''body'',
       button_block ctaText ''#contact'' ''primary'',
       image_block ''/placeholder-hero.jpg'' ''Hero image'']) returns" for ctaText
    by (rule runs_returns)
  have "runs (Suc (1 + (1 + (1 + 0)))
            + (Suc (1 + (Suc (length xs) + 0))
            + (Suc (1 + (Suc (length ys) + 0))
            + (Suc (1 + (1 + (1 + (1 + 0))))
            + (Suc (2 + 0) + 0))))) (io_sequence
      [section_literal ''about''
         [data_text_block (fallbackData s) ''aboutTitle'' ''h2'',
          data_text_block (fallbackData s) ''aboutText'' ''body'',
          image_block ''/placeholder-about.jpg'' ''About us''],
       section_literal ''services''
         [text_block ''Our Services'' ''h2'',
          data_list_block (fallbackData s) ''services'' ''title'' ''description'' ''grid''],
       section_literal ''testimonials''
         [text_block ''What Our Clients Say'' ''h2'',
          data_list_block (fallbackData s) ''testimonials'' ''name'' ''quote'' ''list''],
       section_literal ''contact''
         [text_block ''Get In Touch'' ''h2'',
          text_block (''Email: '' @ contactEmail s) ''body'',
          text_block (''Phone: '' @ contactPhone s) ''body'',
          button_block ctaText (''tel:'' @ contactPhone s) ''primary''],
       section_literal ''footer'' [copyright_block s]])" for ctaText
    by (intro runs_Cons runs_Nil runs_section_literal blocks)
  then have rest: "post (io_sequence
      [section_literal ''about''
         [data_text_block (fallbackData s) ''aboutTitle'' ''h2'',
          data_text_block (fallbackData s) ''aboutText'' ''body'',
          image_block ''/placeholder-about.jpg'' ''About us''],
       section_literal ''services''
         [text_block ''Our Services'' ''h2'',
          data_list_block (fallbackData s) ''services'' ''title'' ''description'' ''grid''],
       section_literal ''testimonials''
         [text_block ''What Our Clients Say'' ''h2'',
          data_list_block (fallbackData s) ''testimonials'' ''name'' ''quote'' ''list''],
       section_literal ''contact''
         [text_block ''Get In Touch'' ''h2'',
          text_block (''Email: '' @ contactEmail s) ''body'',
          text_block (''Phone: '' @ contactPhone s) ''body'',
          button_block ctaText (''tel:'' @ contactPhone s) ''primary''],
       section_literal ''footer'' [copyright_block s]]) returns" for ctaText
    by (rule runs_returns)
  define cta where "cta = (if primaryCta s = ''call'' then ''Call Us Today''
                     else if primaryCta s = ''book'' then ''Book Now'' else ''Get a Quote'')"
  have "\<exists>p w'. io_bind (io_sequence
      (section_literal ''hero''
         [data_text_block (fallbackData s) ''heroHeadline'' ''h1'',
          data_text_block (fallbackData s) ''heroSubheadline'' ''body'',
          button_block cta ''#contact'' ''primary'',
          image_block ''/placeholder-hero.jpg'' ''Hero image'']
       # [section_literal ''about''
         [data_text_block (fallbackData s) ''aboutTitle'' ''h2'',
          data_text_block (fallbackData s) ''aboutText'' ''body'',
          image_block ''/placeholder-about.jpg'' ''About us''],
       section_literal ''services''
         [text_block ''Our Services'' ''h2'',
          data_list_block (fallbackData s) ''services'' ''title'' ''description'' ''grid''],
       section_literal ''testimonials''
         [text_block ''What Our Clients Say'' ''h2'',
          data_list_block (fallbackData s) ''testimonials'' ''name'' ''quote'' ''list''],
       section_literal ''contact''
         [text_block ''Get In Touch'' ''h2'',
          text_block (''Email: '' @ contactEmail s) ''body'',
          text_block (''Phone: '' @ contactPhone s) ''body'',
          button_block cta (''tel:'' @ contactPhone s) ''primary''],
       section_literal ''footer'' [copyright_block s]]))
      (\<lambda>sections. io_return \<lparr>page_title = ''Home'', page_slug = ''home'', page_sections = sections\<rparr>) w
        = (Inr p, w')
     \<and> section_id (hd (page_sections p)) = substring (number_toString36 w (math_random w (tick w))) 2 15"
    by (rule first_section_id_page[OF hero rest])
  then have "\<exists>p w'. buildHomePage this s (fallbackData s) w = (Inr p, w')
     \<and> section_id (hd (page_sections p)) = substring (number_toString36 w (math_random w (tick w))) 2 15"
    unfolding buildHomePage_def Let_def cta_def .
  then obtain p w1 where p: "createFallbackHomePage this s w = (Inr p, w1)"
    "section_id (hd (page_sections p)) = substring (number_toString36 w (math_random w (tick w))) 2 15"
    unfolding createFallbackHomePage_def by blast
  from returns_value[OF post_contactSections, of s w1]
  obtain secs w2 where "contactSections s w1 = (Inr secs, w2)" by blast
  with p show ?thesis
    by (simp add: generateFallbackContent_def io_bind_def io_return_def Let_def)
qed

section \<open>The run of a generation\<close>

lemma max_version_None: "max_version vs = None \<longleftrightarrow> vs = []"
  by (induction vs) (auto split: option.splits)

lemma max_version_Some:
  "max_version vs = Some u \<Longrightarrow> u \<in> set vs \<and> (\<forall>v \<in> set vs. versionNumber v \<le> versionNumber u)"
proof (induction vs arbitrary: u)
  case Nil
  then show ?case by simp
next
  case (Cons a vs)
  show ?case
  proof (cases "max_version vs")
    case None
    then have "vs = []" by (simp add: max_version_None)
    with Cons.prems show ?thesis by simp
  next
    case (Some m)
    from Cons.IH[OF Some] have m: "m \<in> set vs" "\<forall>v \<in> set vs. versionNumber v \<le> versionNumber m"
      by simp_all
    show ?thesis
    proof (cases "versionNumber a < versionNumber m")
      case True
      with Some Cons.prems have "u = m" by simp
      with m True show ?thesis by auto
    next
      case False
      with Some Cons.prems have "u = a" by simp
      with m False show ?thesis by fastforce
    qed
  qed
qed

lemma max_version_Max:
  assumes "max_version vs = Some u"
  shows "versionNumber u = Max (set (map versionNumber vs))"
proof -
  from max_version_Some[OF assms] have "u \<in> set vs" "\<forall>v \<in> set vs. versionNumber v \<le> versionNumber u"
    by simp_all
  then show ?thesis by (intro Max_eqI[symmetric]) auto
qed

lemma next_number:
  "(case max_version (site_versions w sid) of None \<Rightarrow> 0 | Some v \<Rightarrow> versionNumber v) + 1
     = next_version_number w sid"
  by (cases "max_version (site_versions w sid)")
    (auto simp: next_version_number_def max_version_None max_version_Max)

lemma next_number_above:
  "v \<in> set (siteVersions w) \<Longrightarrow> version_siteId v = sid \<Longrightarrow> versionNumber v < next_version_number w sid"
proof -
  assume v: "v \<in> set (siteVersions w)" "version_siteId v = sid"
  then have mem: "v \<in> set (site_versions w sid)" by (simp add: site_versions_def)
  then obtain u where u: "max_version (site_versions w sid) = Some u"
    by (cases "max_version (site_versions w sid)") (auto simp: max_version_None)
  from max_version_Some[OF u] mem have "versionNumber v \<le> versionNumber u" by blast
  with next_number[of w sid] u show ?thesis by simp
qed

lemma generateSiteContent_value:
  "\<exists>c n. generateSiteContent ai s w = (Inr c, w\<lparr>tick := n\<rparr>)"
proof -
  from only_ticks_generateSiteContent[of ai s]
  obtain n where n: "snd (generateSiteContent ai s w) = w\<lparr>tick := n\<rparr>"
    unfolding only_ticks_def by blast
  from post_generateSiteContent[of ai s] have "home_and_contact s (fst (generateSiteContent ai s w))"
    unfolding post_def by blast
  then obtain c where "fst (generateSiteContent ai s w) = Inr c" by (auto simp: home_and_contact_def)
  with n have "generateSiteContent ai s w = (Inr c, w\<lparr>tick := n\<rparr>)"
    by (cases "generateSiteContent ai s w") simp
  then show ?thesis by blast
qed

lemma generateSiteContent_logged:
  assumes "generateSiteContent ai s w = (Inr c, w\<lparr>tick := n\<rparr>)"
  shows "generateSiteContent ai s (w\<lparr>job_logs := l\<rparr>) = (Inr c, w\<lparr>tick := n, job_logs := l\<rparr>)"
  using unlogged_generateSiteContent[of ai s] assms by (simp add: unlogged_def)




lemma handleGenerate_run:
  assumes site: "find (\<lambda>x. site_id x = sid) (sites w) = Some site"
    and s: "chosen_settings w sid md = Some s"
    and gen: "generateSiteContent (aiService this) s w = (Inr c, w\<lparr>tick := n\<rparr>)"
  shows "handleGenerate this job sid md w =
     (if \<not> fits_Int (next_version_number w sid)
      then (Inl integer_out_of_range,
            w\<lparr>tick := Suc n,
              job_logs := job_logs w @ [(job, ''Generating content with AI...''), (job, ''AI content generated'')]\<rparr>)
      else if list_ex (\<lambda>v. version_id v = cuid w n) (siteVersions w)
      then (Inl unique_constraint_failed,
            w\<lparr>tick := Suc n,
              job_logs := job_logs w @ [(job, ''Generating content with AI...''), (job, ''AI content generated'')]\<rparr>)
      else (Inr (),
            w\<lparr>tick := Suc n,
              job_logs := job_logs w @ [(job, ''Generating content with AI...''), (job, ''AI content generated''),
                 (job, ''Version '' @ number_toString (next_version_number w sid) @ '' created'')],
              siteVersions := siteVersions w @
                 [\<lparr>version_id = cuid w n, version_siteId = sid,
                   versionNumber = next_version_number w sid, pageJson = c\<rparr>],
              sites := map (\<lambda>x. if site_id x = sid
                                 then x\<lparr>site_status := draft, currentVersionId := Some (cuid w n)\<rparr> else x)
                         (sites w)\<rparr>))"
proof -
  have exists: "list_ex (\<lambda>x. site_id x = sid) (sites w)"
    using site by (auto simp: list_ex_iff find_Some_iff)
  have no_pair: "\<not> list_ex (\<lambda>v. version_siteId v = sid \<and> versionNumber v = next_version_number w sid)
                    (siteVersions w)"
  proof
    assume "list_ex (\<lambda>v. version_siteId v = sid \<and> versionNumber v = next_version_number w sid)
                    (siteVersions w)"
    then obtain v where "v \<in> set (siteVersions w)" "version_siteId v = sid"
      "versionNumber v = next_version_number w sid"
      by (auto simp: list_ex_iff)
    with next_number_above[of v w sid] show False by simp
  qed
  have split_ex: "list_ex (\<lambda>v. version_id v = i \<or> version_siteId v = sid \<and> versionNumber v = k) vs
      \<longleftrightarrow> list_ex (\<lambda>v. version_id v = i) vs \<or> list_ex (\<lambda>v. version_siteId v = sid \<and> versionNumber v = k) vs"
    for i k vs by (auto simp: list_ex_iff)
  from s have s': "(case Option.bind md metadata_settings of
        Some x \<Rightarrow> Some x
      | None \<Rightarrow> map_option content_settings
                 (map_option pageJson (max_version (filter (\<lambda>v. version_siteId v = sid) (siteVersions w)))))
     = Some s"
    unfolding chosen_settings_def site_versions_def .
  note logged = generateSiteContent_logged[OF gen, of "job_logs w @ [(job, ''Generating content with AI...'')]"]
  show ?thesis
    using site s' logged exists no_pair next_number[of w sid]
    by (simp add: handleGenerate_def io_then_def io_bind_def io_throw_def io_return_def addJobLog_def
        Let_def site_findUnique_def siteVersion_findFirst_desc_def siteVersion_create_def
        site_update_def next_tick_def split_ex site_versions_def)
qed


lemma find_site: "sid \<in> site_id ` set (sites w) \<Longrightarrow> \<exists>site. find (\<lambda>x. site_id x = sid) (sites w) = Some site"
  by (cases "find (\<lambda>x. site_id x = sid) (sites w)") (auto simp: find_None_iff)

lemma taken_iff: "list_ex (\<lambda>v. version_id v = i) vs \<longleftrightarrow> i \<in> version_id ` set vs"
  by (auto simp: list_ex_iff)

lemma handleGenerate_outcome:
  assumes site: "sid \<in> site_id ` set (sites w)" and s: "chosen_settings w sid md = Some s"
  shows "\<exists>c. fst (generateSiteContent (aiService this) s w) = Inr c
     \<and> handleGenerate this job sid md w =
     (if \<not> fits_Int (next_version_number w sid)
      then (Inl integer_out_of_range,
            w\<lparr>tick := Suc (tick (snd (generateSiteContent (aiService this) s w))),
              job_logs := job_logs w @ [(job, ''Generating content with AI...''), (job, ''AI content generated'')]\<rparr>)
      else if new_version_id this s w \<in> version_id ` set (siteVersions w)
      then (Inl unique_constraint_failed,
            w\<lparr>tick := Suc (tick (snd (generateSiteContent (aiService this) s w))),
              job_logs := job_logs w @ [(job, ''Generating content with AI...''), (job, ''AI content generated'')]\<rparr>)
      else (Inr (),
            w\<lparr>tick := Suc (tick (snd (generateSiteContent (aiService this) s w))),
              job_logs := job_logs w @ [(job, ''Generating content with AI...''), (job, ''AI content generated''),
                 (job, ''Version '' @ number_toString (next_version_number w sid) @ '' created'')],
              siteVersions := siteVersions w @
                 [\<lparr>version_id = new_version_id this s w, version_siteId = sid,
                   versionNumber = next_version_number w sid, pageJson = c\<rparr>],
              sites := map (\<lambda>x. if site_id x = sid
                                 then x\<lparr>site_status := draft, currentVersionId := Some (new_version_id this s w)\<rparr>
                                 else x)
                         (sites w)\<rparr>))"
proof -
  from find_site[OF site] obtain site' where found: "find (\<lambda>x. site_id x = sid) (sites w) = Some site'" ..
  from generateSiteContent_value[of "aiService this" s w]
  obtain c n where gen: "generateSiteContent (aiService this) s w = (Inr c, w\<lparr>tick := n\<rparr>)"
    by blast
  then have c: "fst (generateSiteContent (aiService this) s w) = Inr c"
    and n: "tick (snd (generateSiteContent (aiService this) s w)) = n"
    by simp_all
  from handleGenerate_run[OF found s gen, of job] c show ?thesis
    unfolding taken_iff new_version_id_def n by blast
qed


lemma keeps_updateJobStatus [kept]:
  "(\<And>w l. P (w\<lparr>job_updates := l\<rparr>) = P w) \<Longrightarrow> keeps P (updateJobStatus j st err)"
  by (simp add: keeps_def updateJobStatus_def)


section \<open>WP-CLI and the database\<close>

lemma find_Some_D: "find P xs = Some x \<Longrightarrow> x \<in> set xs \<and> P x"
  by (induction xs) (auto split: if_splits)

lemma find_is_Some: "(\<exists>y. find P xs = Some y) \<longleftrightarrow> (\<exists>x \<in> set xs. P x)"
  by (induction xs) auto

lemma runWpCli_eq:
  "runWpCli this command w =
     (case exec_outcome w (tick w)
             (wpCliPath this @ '' '' @ command @ '' --path=''
              @ or_default (configService this ''WP_PATH'') ''/var/www/html'' @ '' --allow-root'') of
        Inl e \<Rightarrow> (Inl e, next_tick w)
      | Inr out \<Rightarrow> (Inr (trim out), next_tick w))"
  by (simp add: runWpCli_def io_defs execAsync_def Let_def split: sum.splits)

section \<open>Claims about the markup compiler\<close>

text \<open>
  Claim C1. The page compilers follow the page tree. When the sections of a page compile,
  \<^verbatim>\<open>compilePageToGutenberg\<close> returns their outputs in section order, every output after
  the first preceded by two newlines, and \<^verbatim>\<open>compilePageToHtml\<close> returns them with every
  output after the first preceded by one newline. When the blocks of a section compile,
  the section compilers return the block outputs in block order, every output after the
  first preceded by a newline, wrapped in the \<^verbatim>\<open>wp:group\<close> comment pair, respectively in a
  \<^verbatim>\<open>section\<close> element that carries the type and the id of the section. When a section
  (a block) throws and the ones before it compile, the page compiler (the section
  compiler) throws the same error.
\<close>

theorem compile_page_follows_tree:
  "(list_all2 (\<lambda>s out. compileSectionToGutenberg this s c = Inr out) (page_sections p) gs \<longrightarrow>
      compilePageToGutenberg this p c
        = Inr (case gs of [] \<Rightarrow> [] | g # rest \<Rightarrow> g @ concat (map (\<lambda>out. ''\<newline>\<newline>'' @ out) rest)))
   \<and> (list_all2 (\<lambda>b out. compileBlockToGutenberg this b c = Inr out) (section_blocks s) gb \<longrightarrow>
      compileSectionToGutenberg this s c
        = Inr (''<!-- wp:group {\"className\":\"section-'' @ section_type s
               @ ''\"} -->\<newline><div class=\"wp-block-group section-'' @ section_type s @ ''\">''
               @ (case gb of [] \<Rightarrow> [] | g # rest \<Rightarrow> g @ concat (map (\<lambda>out. ''\<newline>'' @ out) rest))
               @ ''</div>\<newline><!-- /wp:group -->''))
   \<and> (list_all2 (\<lambda>s out. compileSectionToHtml this s c = Inr out) (page_sections p) hs \<longrightarrow>
      compilePageToHtml this p c
        = Inr (case hs of [] \<Rightarrow> [] | h # rest \<Rightarrow> h @ concat (map (\<lambda>out. ''\<newline>'' @ out) rest)))
   \<and> (list_all2 (\<lambda>b out. compileBlockToHtml this b c = Inr out) (section_blocks s) hb \<longrightarrow>
      compileSectionToHtml this s c
        = Inr (''<section class=\"wp-block-group section-'' @ section_type s
               @ ''\" data-section-id=\"'' @ section_id s @ ''\">''
               @ (case hb of [] \<Rightarrow> [] | h # rest \<Rightarrow> h @ concat (map (\<lambda>out. ''\<newline>'' @ out) rest))
               @ ''</section>''))
   \<and> (page_sections p = sections_before @ failing # sections_after
        \<and> list_all (\<lambda>x. \<exists>out. compileSectionToGutenberg this x c = Inr out) sections_before
        \<and> compileSectionToGutenberg this failing c = Inl e \<longrightarrow>
      compilePageToGutenberg this p c = Inl e)
   \<and> (page_sections p = sections_before @ failing # sections_after
        \<and> list_all (\<lambda>x. \<exists>out. compileSectionToHtml this x c = Inr out) sections_before
        \<and> compileSectionToHtml this failing c = Inl e \<longrightarrow>
      compilePageToHtml this p c = Inl e)
   \<and> (section_blocks s = blocks_before @ failing_block # blocks_after
        \<and> list_all (\<lambda>x. \<exists>out. compileBlockToGutenberg this x c = Inr out) blocks_before
        \<and> compileBlockToGutenberg this failing_block c = Inl e \<longrightarrow>
      compileSectionToGutenberg this s c = Inl e)
   \<and> (section_blocks s = blocks_before @ failing_block # blocks_after
        \<and> list_all (\<lambda>x. \<exists>out. compileBlockToHtml this x c = Inr out) blocks_before
        \<and> compileBlockToHtml this failing_block c = Inl e \<longrightarrow>
      compileSectionToHtml this s c = Inl e)"
proof (intro conjI impI)
  assume "list_all2 (\<lambda>s out. compileSectionToGutenberg this s c = Inr out) (page_sections p) gs"
  then have "mapE (\<lambda>section. compileSectionToGutenberg this section c) (page_sections p) = Inr gs"
    by (rule mapE_Inr_I)
  then show "compilePageToGutenberg this p c
        = Inr (case gs of [] \<Rightarrow> [] | g # rest \<Rightarrow> g @ concat (map (\<lambda>out. ''\<newline>\<newline>'' @ out) rest))"
    by (simp add: compilePageToGutenberg_def join_cases[of gs])
next
  assume "list_all2 (\<lambda>b out. compileBlockToGutenberg this b c = Inr out) (section_blocks s) gb"
  then have "mapE (\<lambda>block. compileBlockToGutenberg this block c) (section_blocks s) = Inr gb"
    by (rule mapE_Inr_I)
  then show "compileSectionToGutenberg this s c
        = Inr (''<!-- wp:group {\"className\":\"section-'' @ section_type s
               @ ''\"} -->\<newline><div class=\"wp-block-group section-'' @ section_type s @ ''\">''
               @ (case gb of [] \<Rightarrow> [] | g # rest \<Rightarrow> g @ concat (map (\<lambda>out. ''\<newline>'' @ out) rest))
               @ ''</div>\<newline><!-- /wp:group -->'')"
    by (simp add: compileSectionToGutenberg_def join_cases[of gb])
next
  assume "list_all2 (\<lambda>s out. compileSectionToHtml this s c = Inr out) (page_sections p) hs"
  then have "mapE (\<lambda>section. compileSectionToHtml this section c) (page_sections p) = Inr hs"
    by (rule mapE_Inr_I)
  then show "compilePageToHtml this p c
        = Inr (case hs of [] \<Rightarrow> [] | h # rest \<Rightarrow> h @ concat (map (\<lambda>out. ''\<newline>'' @ out) rest))"
    by (simp add: compilePageToHtml_def join_cases[of hs])
next
  assume "list_all2 (\<lambda>b out. compileBlockToHtml this b c = Inr out) (section_blocks s) hb"
  then have "mapE (\<lambda>block. compileBlockToHtml this block c) (section_blocks s) = Inr hb"
    by (rule mapE_Inr_I)
  then show "compileSectionToHtml this s c
        = Inr (''<section class=\"wp-block-group section-'' @ section_type s
               @ ''\" data-section-id=\"'' @ section_id s @ ''\">''
               @ (case hb of [] \<Rightarrow> [] | h # rest \<Rightarrow> h @ concat (map (\<lambda>out. ''\<newline>'' @ out) rest))
               @ ''</section>'')"
    by (simp add: compileSectionToHtml_def join_cases[of hb])
next
  assume "page_sections p = sections_before @ failing # sections_after
        \<and> list_all (\<lambda>x. \<exists>out. compileSectionToGutenberg this x c = Inr out) sections_before
        \<and> compileSectionToGutenberg this failing c = Inl e"
  then show "compilePageToGutenberg this p c = Inl e"
    by (simp add: compilePageToGutenberg_def mapE_first_error)
next
  assume "page_sections p = sections_before @ failing # sections_after
        \<and> list_all (\<lambda>x. \<exists>out. compileSectionToHtml this x c = Inr out) sections_before
        \<and> compileSectionToHtml this failing c = Inl e"
  then show "compilePageToHtml this p c = Inl e"
    by (simp add: compilePageToHtml_def mapE_first_error)
next
  assume "section_blocks s = blocks_before @ failing_block # blocks_after
        \<and> list_all (\<lambda>x. \<exists>out. compileBlockToGutenberg this x c = Inr out) blocks_before
        \<and> compileBlockToGutenberg this failing_block c = Inl e"
  then show "compileSectionToGutenberg this s c = Inl e"
    by (simp add: compileSectionToGutenberg_def mapE_first_error)
next
  assume "section_blocks s = blocks_before @ failing_block # blocks_after
        \<and> list_all (\<lambda>x. \<exists>out. compileBlockToHtml this x c = Inr out) blocks_before
        \<and> compileBlockToHtml this failing_block c = Inl e"
  then show "compileSectionToHtml this s c = Inl e"
    by (simp add: compileSectionToHtml_def mapE_first_error)
qed

text \<open>
  The two compilers on the example page (a heading and a block of an unknown type in the
  first section, a button in the second), and on the page whose list block carries text
  props.
\<close>

theorem compile_page_follows_tree_witness:
  "compileSectionToGutenberg example_service example_hero ''#2563EB''
     = Inr ''<!-- wp:group {\"className\":\"section-hero\"} -->\<newline><div class=\"wp-block-group section-hero\"><!-- wp:heading {\"level\":1} -->\<newline><h1 class=\"wp-block-heading\">A &amp; &lt;B&gt;</h1>\<newline><!-- /wp:heading -->\<newline></div>\<newline><!-- /wp:group -->''
   \<and> compileSectionToHtml example_service example_hero ''#2563EB''
     = Inr ''<section class=\"wp-block-group section-hero\" data-section-id=\"s1\"><h1>A &amp; &lt;B&gt;</h1>\<newline></section>''
   \<and> compilePageToGutenberg example_service example_page ''#2563EB''
     = Inr (''<!-- wp:group {\"className\":\"section-hero\"} -->\<newline><div class=\"wp-block-group section-hero\"><!-- wp:heading {\"level\":1} -->\<newline><h1 class=\"wp-block-heading\">A &amp; &lt;B&gt;</h1>\<newline><!-- /wp:heading -->\<newline></div>\<newline><!-- /wp:group -->''
            @ ''\<newline>\<newline>''
            @ ''<!-- wp:group {\"className\":\"section-footer\"} -->\<newline><div class=\"wp-block-group section-footer\"><!-- wp:buttons -->\<newline><div class=\"wp-block-buttons\"><!-- wp:button {\"backgroundColor\":\"#2563EB\"} -->\<newline><div class=\"wp-block-button\"><a class=\"wp-block-button__link wp-element-button\" href=\"tel:1\">Call</a></div>\<newline><!-- /wp:button --></div>\<newline><!-- /wp:buttons --></div>\<newline><!-- /wp:group -->'')
   \<and> compilePageToHtml example_service example_page ''#2563EB''
     = Inr (''<section class=\"wp-block-group section-hero\" data-section-id=\"s1\"><h1>A &amp; &lt;B&gt;</h1>\<newline></section>''
            @ ''\<newline>''
            @ ''<section class=\"wp-block-group section-footer\" data-section-id=\"s2\"><div class=\"wp-block-button\"><a class=\"wp-block-button__link\" href=\"tel:1\" style=\"background-color:#2563EB;color:#ffffff\">Call</a></div></section>'')
   \<and> compileSectionToGutenberg example_service (hd (page_sections mismatched_page)) ''#2563EB'' = Inl undefined_map
   \<and> compileSectionToHtml example_service (hd (page_sections mismatched_page)) ''#2563EB'' = Inl undefined_map
   \<and> compilePageToGutenberg example_service mismatched_page ''#2563EB'' = Inl undefined_map
   \<and> compilePageToHtml example_service mismatched_page ''#2563EB'' = Inl undefined_map"
proof -
  define heading where "heading = ''<!-- wp:heading {\"level\":1} -->\<newline><h1 class=\"wp-block-heading\">A &amp; &lt;B&gt;</h1>\<newline><!-- /wp:heading -->''"
  define button where "button = ''<!-- wp:buttons -->\<newline><div class=\"wp-block-buttons\"><!-- wp:button {\"backgroundColor\":\"#2563EB\"} -->\<newline><div class=\"wp-block-button\"><a class=\"wp-block-button__link wp-element-button\" href=\"tel:1\">Call</a></div>\<newline><!-- /wp:button --></div>\<newline><!-- /wp:buttons -->''"
  define link where "link = ''<div class=\"wp-block-button\"><a class=\"wp-block-button__link\" href=\"tel:1\" style=\"background-color:#2563EB;color:#ffffff\">Call</a></div>''"
  note here = compile_page_follows_tree[where this = example_service and c = "''#2563EB''"]
  have hero_blocks:
    "list_all2 (\<lambda>b out. compileBlockToGutenberg example_service b ''#2563EB'' = Inr out)
       (section_blocks example_hero) [heading, []]"
    "list_all2 (\<lambda>b out. compileBlockToHtml example_service b ''#2563EB'' = Inr out)
       (section_blocks example_hero) [''<h1>A &amp; &lt;B&gt;</h1>'', []]"
    by (simp_all add: example_hero_def heading_def compileBlockToGutenberg_def compileBlockToHtml_def
        getTextTag_def escapeHtml_map escape_char_def)
  have footer_blocks:
    "list_all2 (\<lambda>b out. compileBlockToGutenberg example_service b ''#2563EB'' = Inr out)
       (section_blocks example_footer) [button]"
    "list_all2 (\<lambda>b out. compileBlockToHtml example_service b ''#2563EB'' = Inr out)
       (section_blocks example_footer) [link]"
    by (simp_all add: example_footer_def button_def link_def compileBlockToGutenberg_def
        compileBlockToHtml_def escapeHtml_map escape_char_def)
  from here[where s = example_hero and gb = "[heading, []]"] hero_blocks(1)
  have hero_g: "compileSectionToGutenberg example_service example_hero ''#2563EB''
     = Inr (''<!-- wp:group {\"className\":\"section-hero\"} -->\<newline><div class=\"wp-block-group section-hero\">''
            @ heading @ ''\<newline></div>\<newline><!-- /wp:group -->'')"
    by (simp add: example_hero_def)
  from here[where s = example_hero and hb = "[''<h1>A &amp; &lt;B&gt;</h1>'', []]"] hero_blocks(2)
  have hero_h: "compileSectionToHtml example_service example_hero ''#2563EB''
     = Inr ''<section class=\"wp-block-group section-hero\" data-section-id=\"s1\"><h1>A &amp; &lt;B&gt;</h1>\<newline></section>''"
    by (simp add: example_hero_def)
  from here[where s = example_footer and gb = "[button]"] footer_blocks(1)
  have footer_g: "compileSectionToGutenberg example_service example_footer ''#2563EB''
     = Inr (''<!-- wp:group {\"className\":\"section-footer\"} -->\<newline><div class=\"wp-block-group section-footer\">''
            @ button @ ''</div>\<newline><!-- /wp:group -->'')"
    by (simp add: example_footer_def)
  from here[where s = example_footer and hb = "[link]"] footer_blocks(2)
  have footer_h: "compileSectionToHtml example_service example_footer ''#2563EB''
     = Inr (''<section class=\"wp-block-group section-footer\" data-section-id=\"s2\">'' @ link @ ''</section>'')"
    by (simp add: example_footer_def)
  have sections: "page_sections example_page = [example_hero, example_footer]"
    by (simp add: example_page_def)
  from here[where p = example_page
      and gs = "[''<!-- wp:group {\"className\":\"section-hero\"} -->\<newline><div class=\"wp-block-group section-hero\">''
                 @ heading @ ''\<newline></div>\<newline><!-- /wp:group -->'',
                 ''<!-- wp:group {\"className\":\"section-footer\"} -->\<newline><div class=\"wp-block-group section-footer\">''
                 @ button @ ''</div>\<newline><!-- /wp:group -->'']"]
    hero_g footer_g
  have page_g: "compilePageToGutenberg example_service example_page ''#2563EB''
     = Inr (''<!-- wp:group {\"className\":\"section-hero\"} -->\<newline><div class=\"wp-block-group section-hero\">''
            @ heading @ ''\<newline></div>\<newline><!-- /wp:group -->''
            @ ''\<newline>\<newline>''
            @ ''<!-- wp:group {\"className\":\"section-footer\"} -->\<newline><div class=\"wp-block-group section-footer\">''
            @ button @ ''</div>\<newline><!-- /wp:group -->'')"
    by (simp add: sections)
  from here[where p = example_page
      and hs = "[''<section class=\"wp-block-group section-hero\" data-section-id=\"s1\"><h1>A &amp; &lt;B&gt;</h1>\<newline></section>'',
                 ''<section class=\"wp-block-group section-footer\" data-section-id=\"s2\">'' @ link @ ''</section>'']"]
    hero_h footer_h
  have page_h: "compilePageToHtml example_service example_page ''#2563EB''
     = Inr (''<section class=\"wp-block-group section-hero\" data-section-id=\"s1\"><h1>A &amp; &lt;B&gt;</h1>\<newline></section>''
            @ ''\<newline>''
            @ ''<section class=\"wp-block-group section-footer\" data-section-id=\"s2\">'' @ link @ ''</section>'')"
    by (simp add: sections)
  define bad where "bad = \<lparr>block_id = ''b1'', block_type = ''list'', block_props = TextProps ''Our Services'' ''h2''\<rparr>"
  have bad_section: "section_blocks (hd (page_sections mismatched_page)) = [] @ bad # []"
    and bad_page: "page_sections mismatched_page = [] @ hd (page_sections mismatched_page) # []"
    by (simp_all add: mismatched_page_def bad_def)
  have bad_block: "compileBlockToGutenberg example_service bad ''#2563EB'' = Inl undefined_map"
    "compileBlockToHtml example_service bad ''#2563EB'' = Inl undefined_map"
    by (simp_all add: bad_def compileBlockToGutenberg_def compileBlockToHtml_def)
  from here[where s = "hd (page_sections mismatched_page)" and blocks_before = "[]" and failing_block = bad
      and blocks_after = "[]" and e = undefined_map] bad_section bad_block
  have bad_g: "compileSectionToGutenberg example_service (hd (page_sections mismatched_page)) ''#2563EB'' = Inl undefined_map"
    and bad_h: "compileSectionToHtml example_service (hd (page_sections mismatched_page)) ''#2563EB'' = Inl undefined_map"
    by simp_all
  from here[where p = mismatched_page and sections_before = "[]"
      and failing = "hd (page_sections mismatched_page)" and sections_after = "[]" and e = undefined_map]
    bad_page bad_g bad_h
  have bad_page_g: "compilePageToGutenberg example_service mismatched_page ''#2563EB'' = Inl undefined_map"
    and bad_page_h: "compilePageToHtml example_service mismatched_page ''#2563EB'' = Inl undefined_map"
    by simp_all
  from hero_g have 1: "compileSectionToGutenberg example_service example_hero ''#2563EB''
     = Inr ''<!-- wp:group {\"className\":\"section-hero\"} -->\<newline><div class=\"wp-block-group section-hero\"><!-- wp:heading {\"level\":1} -->\<newline><h1 class=\"wp-block-heading\">A &amp; &lt;B&gt;</h1>\<newline><!-- /wp:heading -->\<newline></div>\<newline><!-- /wp:group -->''"
    by (simp add: heading_def)
  from page_g have 3: "compilePageToGutenberg example_service example_page ''#2563EB''
     = Inr (''<!-- wp:group {\"className\":\"section-hero\"} -->\<newline><div class=\"wp-block-group section-hero\"><!-- wp:heading {\"level\":1} -->\<newline><h1 class=\"wp-block-heading\">A &amp; &lt;B&gt;</h1>\<newline><!-- /wp:heading -->\<newline></div>\<newline><!-- /wp:group -->''
            @ ''\<newline>\<newline>''
            @ ''<!-- wp:group {\"className\":\"section-footer\"} -->\<newline><div class=\"wp-block-group section-footer\"><!-- wp:buttons -->\<newline><div class=\"wp-block-buttons\"><!-- wp:button {\"backgroundColor\":\"#2563EB\"} -->\<newline><div class=\"wp-block-button\"><a class=\"wp-block-button__link wp-element-button\" href=\"tel:1\">Call</a></div>\<newline><!-- /wp:button --></div>\<newline><!-- /wp:buttons --></div>\<newline><!-- /wp:group -->'')"
    by (simp add: heading_def button_def)
  from page_h have 4: "compilePageToHtml example_service example_page ''#2563EB''
     = Inr (''<section class=\"wp-block-group section-hero\" data-section-id=\"s1\"><h1>A &amp; &lt;B&gt;</h1>\<newline></section>''
            @ ''\<newline>''
            @ ''<section class=\"wp-block-group section-footer\" data-section-id=\"s2\"><div class=\"wp-block-button\"><a class=\"wp-block-button__link\" href=\"tel:1\" style=\"background-color:#2563EB;color:#ffffff\">Call</a></div></section>'')"
    by (simp add: link_def)
  from 1 hero_h 3 4 bad_g bad_h bad_page_g bad_page_h show ?thesis by (intro conjI)
qed




text \<open>
  Claim C5. The compilers are stateless and deterministic. A call of \<^verbatim>\<open>compilePageToHtml\<close>
  or \<^verbatim>\<open>compilePageToGutenberg\<close>, run in any world, leaves the world as it was (it writes
  nothing), and its outcome is the value of the compiler as a function of the page and
  the accent color (it reads nothing: neither the world nor the fields of the receiver).
  So any two calls on the same page and the same accent color, whenever they are made
  and on whatever service object, return the same string or throw the same error.
\<close>

theorem page_compilers_stateless:
  "compilePageToHtml_call this p c w = (compilePageToHtml this' p c, w)
   \<and> compilePageToGutenberg_call this p c w = (compilePageToGutenberg this' p c, w)
   \<and> snd (compilePageToHtml_call this p c w) = w
   \<and> snd (compilePageToGutenberg_call this p c w) = w
   \<and> fst (compilePageToHtml_call this p c w) = fst (compilePageToHtml_call this' p c w')
   \<and> fst (compilePageToGutenberg_call this p c w) = fst (compilePageToGutenberg_call this' p c w')"
proof (intro conjI)
  show "compilePageToHtml_call this p c w = (compilePageToHtml this' p c, w)"
    by (rule page_html_call_eq)
  show "compilePageToGutenberg_call this p c w = (compilePageToGutenberg this' p c, w)"
    by (rule page_gutenberg_call_eq)
  show "snd (compilePageToHtml_call this p c w) = w"
    by (simp add: page_html_call_eq[where this' = this])
  show "snd (compilePageToGutenberg_call this p c w) = w"
    by (simp add: page_gutenberg_call_eq[where this' = this])
  show "fst (compilePageToHtml_call this p c w) = fst (compilePageToHtml_call this' p c w')"
    by (simp add: page_html_call_eq[where this' = this])
  show "fst (compilePageToGutenberg_call this p c w) = fst (compilePageToGutenberg_call this' p c w')"
    by (simp add: page_gutenberg_call_eq[where this' = this])
qed




text \<open>
  Claim C8. \<^verbatim>\<open>escapeHtml\<close> rewrites the ampersand first and then the other four
  characters, so its result is the input with each of the five characters replaced by
  its entity, and holds no \<^verbatim>\<open><\<close>, \<^verbatim>\<open>>\<close>, double quote or single quote. Both compilers
  interpolate text content, image alt text, button labels and list-item titles and
  descriptions through \<^verbatim>\<open>escapeHtml\<close>, and image \<^verbatim>\<open>src\<close> and button \<^verbatim>\<open>href\<close> as they are.
\<close>

theorem escapeHtml_applied:
  "set (escapeHtml this str) \<inter> {CHR ''<'', CHR ''>'', CHR 0x22, CHR 0x27} = {}
   \<and> escapeHtml this str = concat (map escape_char str)
   \<and> compileBlockToHtml this \<lparr>block_id = i, block_type = ''text'', block_props = TextProps str v\<rparr> c
       = Inr (''<'' @ getTextTag this v @ ''>'' @ escapeHtml this str @ ''</'' @ getTextTag this v @ ''>'')
   \<and> compileBlockToHtml this \<lparr>block_id = i, block_type = ''image'', block_props = ImageProps s a\<rparr> c
       = Inr (''<figure class=\"wp-block-image\"><img src=\"'' @ s @ ''\" alt=\"''
              @ escapeHtml this a @ ''\" /></figure>'')
   \<and> compileBlockToHtml this \<lparr>block_id = i, block_type = ''button'', block_props = ButtonProps t h bv\<rparr> c
       = Inr (''<div class=\"wp-block-button\"><a class=\"wp-block-button__link\" href=\"'' @ h
              @ ''\" style=\"background-color:'' @ (if bv = ''primary'' then c else ''transparent'')
              @ '';color:'' @ (if bv = ''primary'' then ''#ffffff'' else c)
              @ ''\">'' @ escapeHtml this t @ ''</a></div>'')
   \<and> compileBlockToHtml this \<lparr>block_id = i, block_type = ''list'', block_props = ListProps its l\<rparr> c
       = Inr (''<ul class=\"wp-block-list layout-'' @ l @ ''\">''
              @ concat (map (\<lambda>item. ''<li><strong>'' @ escapeHtml this (item_title item)
                               @ ''</strong><p>'' @ escapeHtml this (item_description item)
                               @ ''</p></li>'') its)
              @ ''</ul>'')
   \<and> compileBlockToGutenberg this \<lparr>block_id = i, block_type = ''text'', block_props = TextProps str v\<rparr> c
       = Inr ((if v = ''h1'' then ''<!-- wp:heading {\"level\":1} -->\<newline><h1 class=\"wp-block-heading\">''
               else if v = ''h2'' then ''<!-- wp:heading -->\<newline><h2 class=\"wp-block-heading\">''
               else if v = ''h3'' then ''<!-- wp:heading {\"level\":3} -->\<newline><h3 class=\"wp-block-heading\">''
               else if v = ''small'' then ''<!-- wp:paragraph {\"fontSize\":\"small\"} -->\<newline><p class=\"has-small-font-size\">''
               else ''<!-- wp:paragraph -->\<newline><p>'')
              @ escapeHtml this str
              @ (if v = ''h1'' then ''</h1>\<newline><!-- /wp:heading -->''
                 else if v = ''h2'' then ''</h2>\<newline><!-- /wp:heading -->''
                 else if v = ''h3'' then ''</h3>\<newline><!-- /wp:heading -->''
                 else ''</p>\<newline><!-- /wp:paragraph -->''))
   \<and> compileBlockToGutenberg this \<lparr>block_id = i, block_type = ''image'', block_props = ImageProps s a\<rparr> c
       = Inr (''<!-- wp:image -->\<newline><figure class=\"wp-block-image\"><img src=\"'' @ s
              @ ''\" alt=\"'' @ escapeHtml this a @ ''\"/></figure>\<newline><!-- /wp:image -->'')
   \<and> compileBlockToGutenberg this \<lparr>block_id = i, block_type = ''button'', block_props = ButtonProps t h bv\<rparr> c
       = Inr (''<!-- wp:buttons -->\<newline><div class=\"wp-block-buttons\"><!-- wp:button {\"backgroundColor\":\"''
              @ (if bv = ''primary'' then c else ''transparent'')
              @ ''\"} -->\<newline><div class=\"wp-block-button\"><a class=\"wp-block-button__link wp-element-button\" href=\"''
              @ h @ ''\">'' @ escapeHtml this t
              @ ''</a></div>\<newline><!-- /wp:button --></div>\<newline><!-- /wp:buttons -->'')
   \<and> compileBlockToGutenberg this \<lparr>block_id = i, block_type = ''list'', block_props = ListProps its l\<rparr> c
       = Inr (''<!-- wp:list -->\<newline><ul class=\"wp-block-list\">''
              @ concat (map (\<lambda>item. ''<li><strong>'' @ escapeHtml this (item_title item)
                               @ ''</strong> - '' @ escapeHtml this (item_description item)
                               @ ''</li>'') its)
              @ ''</ul>\<newline><!-- /wp:list -->'')"
proof -
  have chars: "set (escapeHtml this str) \<inter> {CHR ''<'', CHR ''>'', CHR 0x22, CHR 0x27} = {}"
    by (rule escapeHtml_chars)
  have entities: "escapeHtml this str = concat (map escape_char str)"
    by (rule escapeHtml_map)
  have html: "compileBlockToHtml this \<lparr>block_id = i, block_type = ''text'', block_props = TextProps str v\<rparr> c
       = Inr (''<'' @ getTextTag this v @ ''>'' @ escapeHtml this str @ ''</'' @ getTextTag this v @ ''>'')"
    "compileBlockToHtml this \<lparr>block_id = i, block_type = ''image'', block_props = ImageProps s a\<rparr> c
       = Inr (''<figure class=\"wp-block-image\"><img src=\"'' @ s @ ''\" alt=\"''
              @ escapeHtml this a @ ''\" /></figure>'')"
    "compileBlockToHtml this \<lparr>block_id = i, block_type = ''button'', block_props = ButtonProps t h bv\<rparr> c
       = Inr (''<div class=\"wp-block-button\"><a class=\"wp-block-button__link\" href=\"'' @ h
              @ ''\" style=\"background-color:'' @ (if bv = ''primary'' then c else ''transparent'')
              @ '';color:'' @ (if bv = ''primary'' then ''#ffffff'' else c)
              @ ''\">'' @ escapeHtml this t @ ''</a></div>'')"
    "compileBlockToHtml this \<lparr>block_id = i, block_type = ''list'', block_props = ListProps its l\<rparr> c
       = Inr (''<ul class=\"wp-block-list layout-'' @ l @ ''\">''
              @ concat (map (\<lambda>item. ''<li><strong>'' @ escapeHtml this (item_title item)
                               @ ''</strong><p>'' @ escapeHtml this (item_description item)
                               @ ''</p></li>'') its)
              @ ''</ul>'')"
    by (simp_all add: compileBlockToHtml_def Let_def join_empty_sep)
  have gutenberg: "compileBlockToGutenberg this \<lparr>block_id = i, block_type = ''text'', block_props = TextProps str v\<rparr> c
       = Inr ((if v = ''h1'' then ''<!-- wp:heading {\"level\":1} -->\<newline><h1 class=\"wp-block-heading\">''
               else if v = ''h2'' then ''<!-- wp:heading -->\<newline><h2 class=\"wp-block-heading\">''
               else if v = ''h3'' then ''<!-- wp:heading {\"level\":3} -->\<newline><h3 class=\"wp-block-heading\">''
               else if v = ''small'' then ''<!-- wp:paragraph {\"fontSize\":\"small\"} -->\<newline><p class=\"has-small-font-size\">''
               else ''<!-- wp:paragraph -->\<newline><p>'')
              @ escapeHtml this str
              @ (if v = ''h1'' then ''</h1>\<newline><!-- /wp:heading -->''
                 else if v = ''h2'' then ''</h2>\<newline><!-- /wp:heading -->''
                 else if v = ''h3'' then ''</h3>\<newline><!-- /wp:heading -->''
                 else ''</p>\<newline><!-- /wp:paragraph -->''))"
    "compileBlockToGutenberg this \<lparr>block_id = i, block_type = ''image'', block_props = ImageProps s a\<rparr> c
       = Inr (''<!-- wp:image -->\<newline><figure class=\"wp-block-image\"><img src=\"'' @ s
              @ ''\" alt=\"'' @ escapeHtml this a @ ''\"/></figure>\<newline><!-- /wp:image -->'')"
    "compileBlockToGutenberg this \<lparr>block_id = i, block_type = ''button'', block_props = ButtonProps t h bv\<rparr> c
       = Inr (''<!-- wp:buttons -->\<newline><div class=\"wp-block-buttons\"><!-- wp:button {\"backgroundColor\":\"''
              @ (if bv = ''primary'' then c else ''transparent'')
              @ ''\"} -->\<newline><div class=\"wp-block-button\"><a class=\"wp-block-button__link wp-element-button\" href=\"''
              @ h @ ''\">'' @ escapeHtml this t
              @ ''</a></div>\<newline><!-- /wp:button --></div>\<newline><!-- /wp:buttons -->'')"
    "compileBlockToGutenberg this \<lparr>block_id = i, block_type = ''list'', block_props = ListProps its l\<rparr> c
       = Inr (''<!-- wp:list -->\<newline><ul class=\"wp-block-list\">''
              @ concat (map (\<lambda>item. ''<li><strong>'' @ escapeHtml this (item_title item)
                               @ ''</strong> - '' @ escapeHtml this (item_description item)
                               @ ''</li>'') its)
              @ ''</ul>\<newline><!-- /wp:list -->'')"
    by (simp_all add: compileBlockToGutenberg_def Let_def join_empty_sep)
  from chars entities html gutenberg show ?thesis by (intro conjI)
qed

text \<open>
  The characters are escaped in one pass: an ampersand that an entity brings in is not
  escaped again, and the unescaped \<^verbatim>\<open>src\<close> reaches the markup as it is.
\<close>

lemma escapeHtml_example:
  "escapeHtml example_service ''<a href=\"x\">Tom & Jerry's</a>''
     = ''&lt;a href=&quot;x&quot;&gt;Tom &amp; Jerry&#039;s&lt;/a&gt;''"
  by (simp add: escapeHtml_map escape_char_def)

lemma image_src_example:
  "compileBlockToHtml example_service
     \<lparr>block_id = ''b'', block_type = ''image'', block_props = ImageProps ''\"><script>'' ''<''\<rparr> ''#2563EB''
     = Inr ''<figure class=\"wp-block-image\"><img src=\"\"><script>\" alt=\"&lt;\" /></figure>''"
  by (simp add: compileBlockToHtml_def escapeHtml_map escape_char_def)

section \<open>Claims about the services and the job processor\<close>

text \<open>
  Claim C3, as stated, fails: the fallback content is not determined by the settings.
  Every section, block and list item of it gets an id from \<^verbatim>\<open>generateId\<close>, that is from
  \<^verbatim>\<open>Math.random\<close> (and the footers read the clock), so two calls with the same settings
  and no OpenAI client return different contents.
\<close>

theorem fallback_content_counterexample:
  "fst (generateSiteContent example_ai example_settings example_world)
     \<noteq> fst (generateSiteContent example_ai example_settings other_world)"
proof -
  have absent: "openai example_ai = None"
    by (simp add: example_ai_def new_AiService_def truthy_def)
  from fallback_first_id[of example_ai example_settings example_world]
  obtain c w1 where c: "generateFallbackContent example_ai example_settings example_world = (Inr c, w1)"
    "section_id (hd (page_sections (hd (content_pages c)))) = ''9''"
    by (auto simp: example_world_def substring_def)
  from fallback_first_id[of example_ai example_settings other_world]
  obtain c' w2 where c': "generateFallbackContent example_ai example_settings other_world = (Inr c', w2)"
    "section_id (hd (page_sections (hd (content_pages c')))) = ''i''"
    by (auto simp: other_world_def example_world_def substring_def)
  from c c' have "c \<noteq> c'" by auto
  with c c' absent show ?thesis by (simp add: generateSiteContent_def)
qed

text \<open>
  Claim C3, amended. \<^verbatim>\<open>generateSiteContent\<close> never propagates an error: in every world it
  returns a content whose pages are a home page (title Home, slug home) followed by a
  contact page (title Contact, slug contact) and whose settings are the input settings.
  It returns the fallback content when the OpenAI client is absent, when the API call
  throws, when the reply does not parse as JSON, and when the reply parses to a value
  from which no home page can be built (\<^verbatim>\<open>null\<close>, or a value whose \<^verbatim>\<open>services\<close> or
  \<^verbatim>\<open>testimonials\<close> is not an array of values with properties): then \<^verbatim>\<open>buildHomePage\<close>
  throws a TypeError, which the method catches. From any other reply the home page is
  built. The fallback content is built from the settings, ids drawn from \<^verbatim>\<open>Math.random\<close>
  and the year the clock shows: in any two worlds whose clocks agree, and on any two
  service objects, the two fallback contents are the same but for their ids.
\<close>

theorem generateSiteContent_falls_back:
  "(\<exists>content. fst (generateSiteContent this s w) = Inr content
        \<and> map page_slug (content_pages content) = [''home'', ''contact'']
        \<and> map page_title (content_pages content) = [''Home'', ''Contact'']
        \<and> content_settings content = s)
   \<and> (openai this = None \<longrightarrow> generateSiteContent this s w = generateFallbackContent this s w)
   \<and> (openai this \<noteq> None \<and> openai_outcome w (tick w) (homePagePrompt s) = Inl e \<longrightarrow>
        generateSiteContent this s w = generateFallbackContent this s (next_tick w))
   \<and> (openai this \<noteq> None \<and> openai_outcome w (tick w) (homePagePrompt s) = Inr reply
        \<and> JSON_parse w (or_default reply []) = Inl e' \<longrightarrow>
        generateSiteContent this s w = generateFallbackContent this s (next_tick w))
   \<and> (openai this \<noteq> None \<and> openai_outcome w (tick w) (homePagePrompt s) = Inr reply
        \<and> JSON_parse w (or_default reply []) = Inr data \<and> \<not> buildable data \<longrightarrow>
        (\<exists>msg. fst (buildHomePage this s data (next_tick w)) = Inl (TypeError msg))
        \<and> generateSiteContent this s w
            = generateFallbackContent this s (snd (buildHomePage this s data (next_tick w))))
   \<and> (openai this \<noteq> None \<and> openai_outcome w (tick w) (homePagePrompt s) = Inr reply
        \<and> JSON_parse w (or_default reply []) = Inr data \<and> buildable data \<longrightarrow>
        (\<exists>home contact. fst (buildHomePage this s data (next_tick w)) = Inr home
           \<and> fst (generateSiteContent this s w)
               = Inr \<lparr>content_pages = [home, contact], content_settings = s\<rparr>))
   \<and> (same_clock w v \<longrightarrow>
        (\<exists>a b. fst (generateFallbackContent this s w) = Inr a
           \<and> fst (generateFallbackContent this' s v) = Inr b
           \<and> without_ids a = without_ids b))"
proof (intro conjI impI)
  from post_generateSiteContent[of this s]
  have "home_and_contact s (fst (generateSiteContent this s w))"
    unfolding post_def by blast
  then show "\<exists>content. fst (generateSiteContent this s w) = Inr content
        \<and> map page_slug (content_pages content) = [''home'', ''contact'']
        \<and> map page_title (content_pages content) = [''Home'', ''Contact'']
        \<and> content_settings content = s"
    by (simp add: home_and_contact_def)
next
  assume "openai this = None"
  then show "generateSiteContent this s w = generateFallbackContent this s w"
    by (simp add: generateSiteContent_def)
next
  assume "openai this \<noteq> None \<and> openai_outcome w (tick w) (homePagePrompt s) = Inl e"
  then show "generateSiteContent this s w = generateFallbackContent this s (next_tick w)"
    using fallen_back(1)[of this w s e] by blast
next
  assume "openai this \<noteq> None \<and> openai_outcome w (tick w) (homePagePrompt s) = Inr reply
        \<and> JSON_parse w (or_default reply []) = Inl e'"
  then show "generateSiteContent this s w = generateFallbackContent this s (next_tick w)"
    using fallen_back(2)[of this w s reply e'] by blast
next
  assume a: "openai this \<noteq> None \<and> openai_outcome w (tick w) (homePagePrompt s) = Inr reply
        \<and> JSON_parse w (or_default reply []) = Inr data \<and> \<not> buildable data"
  then have "\<not> buildable data" by simp
  from post_buildHomePage_throws[OF this, of this s]
  have "throws_TypeError (fst (buildHomePage this s data (next_tick w)))"
    unfolding post_def by blast
  then obtain msg where msg: "fst (buildHomePage this s data (next_tick w)) = Inl (TypeError msg)"
    unfolding throws_TypeError_iff by blast
  then show "\<exists>msg. fst (buildHomePage this s data (next_tick w)) = Inl (TypeError msg)" ..
  from msg have "buildHomePage this s data (next_tick w)
      = (Inl (TypeError msg), snd (buildHomePage this s data (next_tick w)))"
    by (cases "buildHomePage this s data (next_tick w)") simp
  with a fallen_back(3)[of this w s reply data "TypeError msg" "snd (buildHomePage this s data (next_tick w))"]
  show "generateSiteContent this s w
            = generateFallbackContent this s (snd (buildHomePage this s data (next_tick w)))"
    by blast
next
  assume a: "openai this \<noteq> None \<and> openai_outcome w (tick w) (homePagePrompt s) = Inr reply
        \<and> JSON_parse w (or_default reply []) = Inr data \<and> buildable data"
  then have "buildable data" by simp
  then obtain xs ys where "has_properties data"
    "elements data ''services'' = Some xs" "list_all has_properties xs"
    "elements data ''testimonials'' = Some ys" "list_all has_properties ys"
    by (rule buildable_D)
  from runs_D[OF runs_buildHomePage[OF this], of this s "next_tick w"]
  obtain home where home: "buildHomePage this s data (next_tick w)
      = (Inr home, (next_tick w)\<lparr>tick := tick (next_tick w) + (23 + length xs + length ys)\<rparr>)" ..
  with a generated_from_reply[of this w s reply data home]
  obtain contact where "fst (generateSiteContent this s w)
      = Inr \<lparr>content_pages = [home, contact], content_settings = s\<rparr>"
    by blast
  with home show "\<exists>home contact. fst (buildHomePage this s data (next_tick w)) = Inr home
           \<and> fst (generateSiteContent this s w)
               = Inr \<lparr>content_pages = [home, contact], content_settings = s\<rparr>"
    by auto
next
  assume clock: "same_clock w v"
  from runs_D[OF runs_generateFallbackContent, of this s w]
  obtain a where a: "generateFallbackContent this s w = (Inr a, w\<lparr>tick := tick w + 37\<rparr>)" ..
  from runs_D[OF runs_generateFallbackContent, of this' s v]
  obtain b where b: "generateFallbackContent this' s v = (Inr b, v\<lparr>tick := tick v + 37\<rparr>)" ..
  from alike_generateFallbackContent[of this s this'] clock
  have "rel_sum (=) (\<lambda>c c'. without_ids c = without_ids c')
      (fst (generateFallbackContent this s w)) (fst (generateFallbackContent this' s v))"
    unfolding alike_def by blast
  with a b have "without_ids a = without_ids b" by simp
  with a b show "\<exists>a b. fst (generateFallbackContent this s w) = Inr a
           \<and> fst (generateFallbackContent this' s v) = Inr b
           \<and> without_ids a = without_ids b"
    by simp
qed

theorem generateSiteContent_falls_back_witness:
  "(\<exists>content. fst (generateSiteContent keyed_ai example_settings chatty_world) = Inr content
        \<and> map page_slug (content_pages content) = [''home'', ''contact'']
        \<and> map page_title (content_pages content) = [''Home'', ''Contact'']
        \<and> content_settings content = example_settings)
   \<and> generateSiteContent example_ai example_settings example_world
       = generateFallbackContent example_ai example_settings example_world
   \<and> generateSiteContent keyed_ai example_settings example_world
       = generateFallbackContent keyed_ai example_settings (next_tick example_world)
   \<and> generateSiteContent keyed_ai example_settings chatty_world
       = generateFallbackContent keyed_ai example_settings (next_tick chatty_world)
   \<and> (\<exists>msg. fst (buildHomePage keyed_ai example_settings (JObject []) (next_tick curt_world))
          = Inl (TypeError msg))
   \<and> generateSiteContent keyed_ai example_settings curt_world
       = generateFallbackContent keyed_ai example_settings
           (snd (buildHomePage keyed_ai example_settings (JObject []) (next_tick curt_world)))
   \<and> (\<exists>msg. fst (buildHomePage keyed_ai example_settings JNull (next_tick null_world))
          = Inl (TypeError msg))
   \<and> generateSiteContent keyed_ai example_settings null_world
       = generateFallbackContent keyed_ai example_settings
           (snd (buildHomePage keyed_ai example_settings JNull (next_tick null_world)))
   \<and> (\<exists>home contact. fst (buildHomePage keyed_ai example_settings example_reply (next_tick helpful_world))
          = Inr home
        \<and> fst (generateSiteContent keyed_ai example_settings helpful_world)
            = Inr \<lparr>content_pages = [home, contact], content_settings = example_settings\<rparr>)
   \<and> (\<exists>a b. fst (generateFallbackContent example_ai example_settings example_world) = Inr a
        \<and> fst (generateFallbackContent keyed_ai example_settings other_world) = Inr b
        \<and> without_ids a = without_ids b)"
proof -
  have absent: "openai example_ai = None"
    by (simp add: example_ai_def new_AiService_def truthy_def)
  have keyed: "openai keyed_ai \<noteq> None"
    by (simp add: keyed_ai_def new_AiService_def truthy_def)
  have down: "openai_outcome example_world (tick example_world) (homePagePrompt example_settings)
       = Inl (Error ''Connection error.'')"
    by (simp add: example_world_def)
  have chatty: "openai_outcome chatty_world (tick chatty_world) (homePagePrompt example_settings)
       = Inr (Some ''Sorry, I cannot help with that.'')"
    "JSON_parse chatty_world (or_default (Some ''Sorry, I cannot help with that.'') [])
       = Inl (Error ''Unexpected end of JSON input'')"
    by (simp_all add: chatty_world_def example_world_def)
  have curt: "openai_outcome curt_world (tick curt_world) (homePagePrompt example_settings) = Inr (Some ''{}'')"
    "JSON_parse curt_world (or_default (Some ''{}'') []) = Inr (JObject [])"
    "\<not> buildable (JObject [])"
    by (simp_all add: curt_world_def example_world_def or_default_def buildable_def mappable_def
        elements_def read_property_def)
  have null: "openai_outcome null_world (tick null_world) (homePagePrompt example_settings) = Inr (Some ''null'')"
    "JSON_parse null_world (or_default (Some ''null'') []) = Inr JNull"
    "\<not> buildable JNull"
    by (simp_all add: null_world_def example_world_def or_default_def buildable_def)
  have helpful: "openai_outcome helpful_world (tick helpful_world) (homePagePrompt example_settings)
       = Inr (Some example_reply_text)"
    "JSON_parse helpful_world (or_default (Some example_reply_text) [])
       = Inr example_reply"
    "buildable example_reply"
    by (simp_all add: helpful_world_def example_world_def example_reply_text_def or_default_def buildable_def mappable_def
        elements_def read_property_def example_reply_def)
  have clock: "same_clock example_world other_world"
    by (simp add: same_clock_def other_world_def example_world_def)
  note a = generateSiteContent_falls_back[where this = keyed_ai and s = example_settings and w = chatty_world
      and reply = "Some ''Sorry, I cannot help with that.''" and e' = "Error ''Unexpected end of JSON input''"]
  note b = generateSiteContent_falls_back[where this = example_ai and s = example_settings and w = example_world
      and v = other_world and this' = keyed_ai]
  note c = generateSiteContent_falls_back[where this = keyed_ai and s = example_settings and w = example_world
      and e = "Error ''Connection error.''"]
  note d = generateSiteContent_falls_back[where this = keyed_ai and s = example_settings and w = curt_world
      and reply = "Some ''{}''" and data = "JObject []"]
  note n = generateSiteContent_falls_back[where this = keyed_ai and s = example_settings and w = null_world
      and reply = "Some ''null''" and data = JNull]
  note h = generateSiteContent_falls_back[where this = keyed_ai and s = example_settings and w = helpful_world
      and reply = "Some example_reply_text" and data = example_reply]
  from a have 1: "\<exists>content. fst (generateSiteContent keyed_ai example_settings chatty_world) = Inr content
        \<and> map page_slug (content_pages content) = [''home'', ''contact'']
        \<and> map page_title (content_pages content) = [''Home'', ''Contact'']
        \<and> content_settings content = example_settings"
    by (rule conjunct1)
  from b[THEN conjunct2, THEN conjunct1, THEN mp, OF absent] have 2: "generateSiteContent example_ai example_settings example_world
       = generateFallbackContent example_ai example_settings example_world"
    .
  from c[THEN conjunct2, THEN conjunct2, THEN conjunct1, THEN mp, OF conjI[OF keyed down]] have 3: "generateSiteContent keyed_ai example_settings example_world
       = generateFallbackContent keyed_ai example_settings (next_tick example_world)"
    .
  from a[THEN conjunct2, THEN conjunct2, THEN conjunct2, THEN conjunct1, THEN mp, OF conjI[OF keyed conjI[OF chatty]]] have 4: "generateSiteContent keyed_ai example_settings chatty_world
       = generateFallbackContent keyed_ai example_settings (next_tick chatty_world)"
    .
  from d[THEN conjunct2, THEN conjunct2, THEN conjunct2, THEN conjunct2, THEN conjunct1, THEN mp, OF conjI[OF keyed conjI[OF curt(1) conjI[OF curt(2) curt(3)]]]] have 5: "(\<exists>msg. fst (buildHomePage keyed_ai example_settings (JObject []) (next_tick curt_world))
          = Inl (TypeError msg))
      \<and> generateSiteContent keyed_ai example_settings curt_world
       = generateFallbackContent keyed_ai example_settings
           (snd (buildHomePage keyed_ai example_settings (JObject []) (next_tick curt_world)))"
    .
  from n[THEN conjunct2, THEN conjunct2, THEN conjunct2, THEN conjunct2, THEN conjunct1, THEN mp, OF conjI[OF keyed conjI[OF null(1) conjI[OF null(2) null(3)]]]] have 6: "(\<exists>msg. fst (buildHomePage keyed_ai example_settings JNull (next_tick null_world))
          = Inl (TypeError msg))
      \<and> generateSiteContent keyed_ai example_settings null_world
       = generateFallbackContent keyed_ai example_settings
           (snd (buildHomePage keyed_ai example_settings JNull (next_tick null_world)))"
    .
  from h[THEN conjunct2, THEN conjunct2, THEN conjunct2, THEN conjunct2, THEN conjunct2, THEN conjunct1, THEN mp, OF conjI[OF keyed conjI[OF helpful(1) conjI[OF helpful(2) helpful(3)]]]] have 7: "\<exists>home contact. fst (buildHomePage keyed_ai example_settings example_reply (next_tick helpful_world))
          = Inr home
        \<and> fst (generateSiteContent keyed_ai example_settings helpful_world)
            = Inr \<lparr>content_pages = [home, contact], content_settings = example_settings\<rparr>"
    .
  from b[THEN conjunct2, THEN conjunct2, THEN conjunct2, THEN conjunct2, THEN conjunct2, THEN conjunct2, THEN mp, OF clock] have 8: "\<exists>a b. fst (generateFallbackContent example_ai example_settings example_world) = Inr a
        \<and> fst (generateFallbackContent keyed_ai example_settings other_world) = Inr b
        \<and> without_ids a = without_ids b"
    .
  note thrown = 5[THEN conjunct1] and caught = 5[THEN conjunct2]
  note thrown' = 6[THEN conjunct1] and caught' = 6[THEN conjunct2]
  from 1 2 3 4 thrown caught thrown' caught' 7 8 show ?thesis by (intro conjI)
qed

text \<open>
  Claim C4. \<^verbatim>\<open>processJob\<close> first sets the status of the job to running and logs the start,
  then runs the switch: the four types go to their handlers, any other type throws
  \<^verbatim>\<open>Unknown job type\<close>. No handler sets a job status. When the switch returns, the status
  is set to completed, and \<^verbatim>\<open>processJob\<close> returns; when it throws, the status is set to
  failed with the message of the error (\<^verbatim>\<open>Unknown error\<close> for a thrown value that is no
  \<^verbatim>\<open>Error\<close>), and the error is thrown on.
\<close>

theorem processJob_lifecycle:
  "\<exists>r w1.
     dispatch this data
       (w\<lparr>job_updates := job_updates w @ [(data_jobId data, running, None)],
          job_logs := job_logs w @ [(data_jobId data, ''Starting '' @ data_type data @ '' job'')]\<rparr>)
       = (r, w1)
     \<and> job_updates w1 = job_updates w @ [(data_jobId data, running, None)]
     \<and> (data_type data = ''provision'' \<longrightarrow>
          dispatch this data = handleProvision this (data_jobId data) (data_siteId data) (data_metadata data))
     \<and> (data_type data = ''generate'' \<longrightarrow>
          dispatch this data = handleGenerate this (data_jobId data) (data_siteId data) (data_metadata data))
     \<and> (data_type data = ''publish'' \<longrightarrow>
          dispatch this data = handlePublish this (data_jobId data) (data_siteId data) (data_metadata data))
     \<and> (data_type data = ''rollback'' \<longrightarrow>
          dispatch this data = handleRollback this (data_jobId data) (data_siteId data) (data_metadata data))
     \<and> (data_type data \<notin> set job_types \<longrightarrow>
          r = Inl (Error (''Unknown job type: '' @ data_type data)))
     \<and> (returns r \<longrightarrow>
          processJob this data w =
            (Inr (), w1\<lparr>job_updates := job_updates w1 @ [(data_jobId data, completed, None)],
                        job_logs := job_logs w1 @ [(data_jobId data, ''Job completed successfully'')]\<rparr>)
          \<and> job_state (snd (processJob this data w)) (data_jobId data) = Some (completed, None))
     \<and> (\<forall>e. r = Inl e \<longrightarrow>
          processJob this data w =
            (Inl e, w1\<lparr>job_updates := job_updates w1 @ [(data_jobId data, failed, Some (recorded_message e))],
                        job_logs := job_logs w1 @ [(data_jobId data, ''Job failed: '' @ recorded_message e)]\<rparr>)
          \<and> job_state (snd (processJob this data w)) (data_jobId data)
              = Some (failed, Some (recorded_message e)))"
proof -
  define started where "started =
    w\<lparr>job_updates := job_updates w @ [(data_jobId data, running, None)],
      job_logs := job_logs w @ [(data_jobId data, ''Starting '' @ data_type data @ '' job'')]\<rparr>"
  obtain r w1 where run: "dispatch this data started = (r, w1)"
    by (cases "dispatch this data started")
  have updates: "job_updates w1 = job_updates w @ [(data_jobId data, running, None)]"
    using dispatch_job_updates[of this data started] run by (simp add: started_def)
  have start: "io_then (updateJobStatus (data_jobId data) running None)
      (io_then (addJobLog (data_jobId data) (''Starting '' @ data_type data @ '' job'')) m) w
      = m started" for m :: "unit io"
    by (simp add: io_then_def io_bind_def updateJobStatus_def addJobLog_def started_def)
  have unknown: "r = Inl (Error (''Unknown job type: '' @ data_type data))"
    if "data_type data \<notin> set job_types"
    using that run by (simp add: dispatch_def job_types_def io_throw_def Let_def)
  have body: "processJob this data w =
      (case io_then (dispatch this data)
              (io_then (updateJobStatus (data_jobId data) completed None)
                       (addJobLog (data_jobId data) ''Job completed successfully'')) started of
         (Inl e, w') \<Rightarrow>
           io_then (updateJobStatus (data_jobId data) failed (Some (recorded_message e)))
             (io_then (addJobLog (data_jobId data) (''Job failed: '' @ recorded_message e))
                      (io_throw e)) w'
       | (Inr x, w') \<Rightarrow> (Inr x, w'))"
    by (simp only: processJob_def Let_def io_catch_def start recorded_message_def)
  have ok: "processJob this data w =
      (Inr (), w1\<lparr>job_updates := job_updates w1 @ [(data_jobId data, completed, None)],
                  job_logs := job_logs w1 @ [(data_jobId data, ''Job completed successfully'')]\<rparr>)"
    if "returns r"
    using that run
    by (cases r)
      (simp_all add: body returns_def io_then_def io_bind_def updateJobStatus_def addJobLog_def)
  have bad: "processJob this data w =
      (Inl e, w1\<lparr>job_updates := job_updates w1 @ [(data_jobId data, failed, Some (recorded_message e))],
                  job_logs := job_logs w1 @ [(data_jobId data, ''Job failed: '' @ recorded_message e)]\<rparr>)"
    if "r = Inl e" for e
    using that run
    by (simp add: body io_then_def io_bind_def io_throw_def updateJobStatus_def addJobLog_def)
  have ok_state: "job_state (snd (processJob this data w)) (data_jobId data) = Some (completed, None)"
    if "returns r"
    by (rule job_state_last[of _ "job_updates w1"]) (simp add: ok[OF that])
  have bad_state: "job_state (snd (processJob this data w)) (data_jobId data)
      = Some (failed, Some (recorded_message e))" if "r = Inl e" for e
    by (rule job_state_last[of _ "job_updates w1"]) (simp add: bad[OF that])
  have types: "data_type data = ''provision'' \<longrightarrow>
          dispatch this data = handleProvision this (data_jobId data) (data_siteId data) (data_metadata data)"
    "data_type data = ''generate'' \<longrightarrow>
          dispatch this data = handleGenerate this (data_jobId data) (data_siteId data) (data_metadata data)"
    "data_type data = ''publish'' \<longrightarrow>
          dispatch this data = handlePublish this (data_jobId data) (data_siteId data) (data_metadata data)"
    "data_type data = ''rollback'' \<longrightarrow>
          dispatch this data = handleRollback this (data_jobId data) (data_siteId data) (data_metadata data)"
    by (simp_all add: dispatch_def Let_def)
  from run updates types unknown ok bad ok_state bad_state show ?thesis
    unfolding started_def by blast
qed

theorem processJob_lifecycle_witness:
  "fst (processJob example_processor (generate_job\<lparr>data_type := ''deploy''\<rparr>) example_world)
     = Inl (Error ''Unknown job type: deploy'')
   \<and> job_state (snd (processJob example_processor (generate_job\<lparr>data_type := ''deploy''\<rparr>) example_world)) ''j1''
     = Some (failed, Some ''Unknown job type: deploy'')
   \<and> fst (processJob example_processor generate_job example_world) = Inr ()
   \<and> job_state (snd (processJob example_processor generate_job example_world)) ''j1''
     = Some (completed, None)"
proof -
  from processJob_lifecycle[of example_processor "generate_job\<lparr>data_type := ''deploy''\<rparr>" example_world]
  obtain r w1 where
    unknown: "data_type (generate_job\<lparr>data_type := ''deploy''\<rparr>) \<notin> set job_types \<longrightarrow>
          r = Inl (Error (''Unknown job type: '' @ data_type (generate_job\<lparr>data_type := ''deploy''\<rparr>)))"
    and thrown: "\<forall>e. r = Inl e \<longrightarrow>
          processJob example_processor (generate_job\<lparr>data_type := ''deploy''\<rparr>) example_world =
            (Inl e, w1\<lparr>job_updates := job_updates w1 @
                          [(data_jobId (generate_job\<lparr>data_type := ''deploy''\<rparr>), failed, Some (recorded_message e))],
                        job_logs := job_logs w1 @
                          [(data_jobId (generate_job\<lparr>data_type := ''deploy''\<rparr>), ''Job failed: '' @ recorded_message e)]\<rparr>)
          \<and> job_state (snd (processJob example_processor (generate_job\<lparr>data_type := ''deploy''\<rparr>) example_world))
                (data_jobId (generate_job\<lparr>data_type := ''deploy''\<rparr>))
              = Some (failed, Some (recorded_message e))"
    by blast
  from unknown have "r = Inl (Error ''Unknown job type: deploy'')"
    by (simp add: job_types_def)
  with thrown have both: "processJob example_processor (generate_job\<lparr>data_type := ''deploy''\<rparr>) example_world =
            (Inl (Error ''Unknown job type: deploy''),
             w1\<lparr>job_updates := job_updates w1 @
                          [(data_jobId (generate_job\<lparr>data_type := ''deploy''\<rparr>), failed,
                            Some (recorded_message (Error ''Unknown job type: deploy'')))],
                        job_logs := job_logs w1 @
                          [(data_jobId (generate_job\<lparr>data_type := ''deploy''\<rparr>),
                            ''Job failed: '' @ recorded_message (Error ''Unknown job type: deploy''))]\<rparr>)
          \<and> job_state (snd (processJob example_processor (generate_job\<lparr>data_type := ''deploy''\<rparr>) example_world))
                (data_jobId (generate_job\<lparr>data_type := ''deploy''\<rparr>))
              = Some (failed, Some (recorded_message (Error ''Unknown job type: deploy'')))"
    by blast
  from both[THEN conjunct1]
  have 1: "fst (processJob example_processor (generate_job\<lparr>data_type := ''deploy''\<rparr>) example_world)
     = Inl (Error ''Unknown job type: deploy'')"
    by simp
  from both[THEN conjunct2]
  have 2: "job_state (snd (processJob example_processor (generate_job\<lparr>data_type := ''deploy''\<rparr>) example_world)) ''j1''
     = Some (failed, Some ''Unknown job type: deploy'')"
    by (simp add: recorded_message_def generate_job_def)
  define started where "started = example_world\<lparr>job_updates := job_updates example_world @ [(data_jobId generate_job, running, None)],
          job_logs := job_logs example_world @ [(data_jobId generate_job, ''Starting '' @ data_type generate_job @ '' job'')]\<rparr>"
  from processJob_lifecycle[of example_processor generate_job example_world]
  obtain r' w1' where
    run: "dispatch example_processor generate_job started = (r', w1')"
    and generate: "data_type generate_job = ''generate'' \<longrightarrow>
          dispatch example_processor generate_job
            = handleGenerate example_processor (data_jobId generate_job) (data_siteId generate_job)
                (data_metadata generate_job)"
    and returned: "returns r' \<longrightarrow>
          processJob example_processor generate_job example_world =
            (Inr (), w1'\<lparr>job_updates := job_updates w1' @ [(data_jobId generate_job, completed, None)],
                        job_logs := job_logs w1' @ [(data_jobId generate_job, ''Job completed successfully'')]\<rparr>)
          \<and> job_state (snd (processJob example_processor generate_job example_world)) (data_jobId generate_job)
              = Some (completed, None)"
    unfolding started_def by blast
  have site: "data_siteId generate_job \<in> site_id ` set (sites started)"
    by (simp add: started_def example_world_def example_site_def generate_job_def)
  have chosen: "chosen_settings started (data_siteId generate_job) (data_metadata generate_job)
      = Some example_settings"
    by (simp add: chosen_settings_def generate_job_def)
  have none: "siteVersions started = []"
    by (simp add: started_def example_world_def)
  have number: "fits_Int (next_version_number started (data_siteId generate_job))"
    by (simp add: next_version_number_def site_versions_def none fits_Int_def)
  from handleGenerate_outcome[OF site chosen, of example_processor "data_jobId generate_job"] number none
  have "\<exists>w'. handleGenerate example_processor (data_jobId generate_job) (data_siteId generate_job)
                (data_metadata generate_job) started = (Inr (), w')"
    by auto
  with run generate have "returns r'" by (auto simp: generate_job_def)
  with returned have ok: "processJob example_processor generate_job example_world =
            (Inr (), w1'\<lparr>job_updates := job_updates w1' @ [(data_jobId generate_job, completed, None)],
                        job_logs := job_logs w1' @ [(data_jobId generate_job, ''Job completed successfully'')]\<rparr>)
          \<and> job_state (snd (processJob example_processor generate_job example_world)) (data_jobId generate_job)
              = Some (completed, None)"
    by blast
  from ok[THEN conjunct1]
  have 3: "fst (processJob example_processor generate_job example_world) = Inr ()"
    by simp
  from ok[THEN conjunct2]
  have 4: "job_state (snd (processJob example_processor generate_job example_world)) ''j1''
     = Some (completed, None)"
    by (simp add: generate_job_def)
  from 1 2 3 4 show ?thesis by (intro conjI)
qed

text \<open>
  Claim C6. When the WP-CLI command \<^verbatim>\<open>site create\<close> fails, or its output does not parse as
  an integer, \<^verbatim>\<open>provisionSite\<close> throws the error on (the error of the command, or
  \<^verbatim>\<open>Failed to parse site ID from output\<close>), unless \<^verbatim>\<open>NODE_ENV\<close> is \<^verbatim>\<open>development\<close>: then it
  returns a simulated result with a random site id, whose URLs are the configured
  multisite URL followed by the site slug; the slug is made of the site's name (lower
  case, runs of other characters than letters and digits turned into dashes, at most 50
  characters) and the first 8 characters of its id.
\<close>

theorem provisionSite_failure:
  assumes run: "runWpCli this (''site create --slug=\"'' @ siteSlug site @ ''\" --title=\"'' @ site_name site
                  @ ''\" --email=\"'' @ owner_email site @ ''\" --porcelain'') w = (r, w')"
    and failure: "(\<exists>e. r = Inl e) \<or> (\<exists>out. r = Inr out \<and> parseInt out = None)"
  shows "provisionSite this site w =
     (if configService this ''NODE_ENV'' = Some ''development''
      then (Inr \<lparr>wpSiteId = \<lfloor>math_random w' (tick w') * 10000\<rfloor>,
                wpAdminUrl = wpMultisiteUrl this @ ''/'' @ siteSlug site @ ''/wp-admin'',
                wpSiteUrl = wpMultisiteUrl this @ ''/'' @ siteSlug site\<rparr>, next_tick w')
      else (Inl (case r of Inl e \<Rightarrow> e
                 | Inr out \<Rightarrow> Error (''Failed to parse site ID from output: '' @ out)), w'))
     \<and> siteSlug site
         = take 50 (strip_dashes (replace_runs False (toLowerCase (site_name site))))
           @ ''-'' @ take 8 (site_id site)"
proof
  from failure run show "provisionSite this site w =
     (if configService this ''NODE_ENV'' = Some ''development''
      then (Inr \<lparr>wpSiteId = \<lfloor>math_random w' (tick w') * 10000\<rfloor>,
                wpAdminUrl = wpMultisiteUrl this @ ''/'' @ siteSlug site @ ''/wp-admin'',
                wpSiteUrl = wpMultisiteUrl this @ ''/'' @ siteSlug site\<rparr>, next_tick w')
      else (Inl (case r of Inl e \<Rightarrow> e
                 | Inr out \<Rightarrow> Error (''Failed to parse site ID from output: '' @ out)), w'))"
    by (auto simp: provisionSite_def io_defs Let_def Math_random_def split: sum.splits option.splits)
  show "siteSlug site
         = take 50 (strip_dashes (replace_runs False (toLowerCase (site_name site))))
           @ ''-'' @ take 8 (site_id site)"
    by (simp add: siteSlug_def slug_def substring_def)
qed

lemma example_siteSlug: "siteSlug example_site = ''joe-s-cafe-bar-2-clx12345''"
  by code_simp

lemma example_parseInt: "parseInt ''Error: no site'' = None" "parseInt ''  42 sites'' = Some 42"
  by code_simp+

theorem provisionSite_failure_witness:
  "provisionSite dev_service example_site example_world
     = (Inr \<lparr>wpSiteId = 2500,
             wpAdminUrl = ''http://localhost:8080/joe-s-cafe-bar-2-clx12345/wp-admin'',
             wpSiteUrl = ''http://localhost:8080/joe-s-cafe-bar-2-clx12345''\<rparr>,
        example_world\<lparr>tick := 2\<rparr>)
   \<and> provisionSite example_service example_site example_world
     = (Inl (Error ''Command failed''), example_world\<lparr>tick := 1\<rparr>)
   \<and> provisionSite example_service example_site (example_world\<lparr>tick := 1\<rparr>)
     = (Inl (Error ''Failed to parse site ID from output: Error: no site''), example_world\<lparr>tick := 2\<rparr>)"
proof -
  have dev: "configService dev_service ''NODE_ENV'' = Some ''development''"
    "wpMultisiteUrl dev_service = ''http://localhost:8080''"
    by (simp_all add: dev_service_def new_WordPressService_def or_default_def)
  have prod: "configService example_service ''NODE_ENV'' = None"
    by (simp add: example_service_def)
  have fails: "runWpCli this c example_world = (Inl (Error ''Command failed''), example_world\<lparr>tick := 1\<rparr>)"
    for this c
    by (simp add: runWpCli_eq example_world_def next_tick_def)
  have "trim ''Error: no site'' = ''Error: no site''" by code_simp
  then have prints: "runWpCli this c (example_world\<lparr>tick := 1\<rparr>)
      = (Inr ''Error: no site'', example_world\<lparr>tick := 2\<rparr>)" for this c
    by (simp add: runWpCli_eq example_world_def next_tick_def)
  have random: "\<lfloor>math_random example_world (Suc 0) * 10000\<rfloor> = 2500"
    by (simp add: example_world_def)
  from provisionSite_failure[OF fails, of dev_service example_site] dev random
  have 1: "provisionSite dev_service example_site example_world
     = (Inr \<lparr>wpSiteId = 2500,
             wpAdminUrl = ''http://localhost:8080/joe-s-cafe-bar-2-clx12345/wp-admin'',
             wpSiteUrl = ''http://localhost:8080/joe-s-cafe-bar-2-clx12345''\<rparr>,
        example_world\<lparr>tick := 2\<rparr>)"
    by (simp add: example_siteSlug next_tick_def)
  from provisionSite_failure[OF fails, of example_service example_site] prod
  have 2: "provisionSite example_service example_site example_world
     = (Inl (Error ''Command failed''), example_world\<lparr>tick := 1\<rparr>)"
    by simp
  from provisionSite_failure[OF prints, of example_service example_site] prod
  have 3: "provisionSite example_service example_site (example_world\<lparr>tick := 1\<rparr>)
     = (Inl (Error ''Failed to parse site ID from output: Error: no site''), example_world\<lparr>tick := 2\<rparr>)"
    by (simp add: example_parseInt)
  from 1 2 3 show ?thesis by (intro conjI)
qed

text \<open>
  Claim C9. \<^verbatim>\<open>hasActiveSubscription\<close> returns true for every user when the Stripe client is
  absent, which is when no (non-empty) secret key is configured; with a client it returns
  true exactly when the table holds a subscription of that user with status active. It
  writes nothing.
\<close>

theorem hasActiveSubscription_spec:
  "hasActiveSubscription this userId w =
     (Inr (stripe this = None
           \<or> (\<exists>x \<in> set (stripeSubscriptions w).
                 subscription_userId x = userId \<and> subscription_status x = active)), w)
   \<and> (stripe (new_BillingService config) = None \<longleftrightarrow> \<not> truthy (config ''STRIPE_SECRET_KEY''))"
proof
  show "hasActiveSubscription this userId w =
     (Inr (stripe this = None
           \<or> (\<exists>x \<in> set (stripeSubscriptions w).
                 subscription_userId x = userId \<and> subscription_status x = active)), w)"
    by (cases "stripe this")
      (simp_all add: hasActiveSubscription_def io_defs stripeSubscription_findFirst_def find_is_Some)
  show "stripe (new_BillingService config) = None \<longleftrightarrow> \<not> truthy (config ''STRIPE_SECRET_KEY'')"
    by (cases "config ''STRIPE_SECRET_KEY''") (simp_all add: new_BillingService_def truthy_def)
qed




end
